theory Spec2Isabelle
  imports Complex_Main
begin

section \<open>Numbers, arrays and the tensor container\<close>

text \<open>
  The program computes with JavaScript numbers. The embedding idealises them: activation
  values, gradients and weights are real numbers (\<open>real\<close>), sizes, coordinates and indices
  are integers (\<open>int\<close>). Rounding, overflow and NaN or infinite inputs are outside the
  model. Where the code itself produces \<^verbatim>\<open>undefined\<close> or \<^verbatim>\<open>NaN\<close> from such
  inputs (a read past the end of an array, the logarithm of such a read), the model says
  so explicitly: a read returns an option, and a method whose run would store
  \<^verbatim>\<open>NaN\<close> into an array of numbers returns \<open>None\<close>. Where a property rests on the
  sign of a computed sum (the hinge loss), the rounding of the sums is a parameter of
  the model, so that the property is about the numbers the program computes.

  The module \<^verbatim>\<open>convnet_util\<close> and the class \<^verbatim>\<open>Vol\<close> (\<^verbatim>\<open>convnet_vol\<close>) are
  used by every layer, but their source files are not among the sources of the
  repository at hand. What the layers use of them is modelled from the specification.
\<close>

definition zeros :: "int \<Rightarrow> 'a::zero list" where
  \<comment> \<open>Modelled from the spec: \<^verbatim>\<open>util.zeros(n)\<close> of the missing module \<^verbatim>\<open>convnet_util\<close>,
      a zero-filled array of \<open>n\<close> numbers (empty when \<open>n\<close> is not positive).\<close>
  "zeros n = replicate (nat n) 0"

definition rd :: "'a list \<Rightarrow> int \<Rightarrow> 'a option" where
  \<comment> \<open>The read \<^verbatim>\<open>a[i]\<close>: \<^verbatim>\<open>undefined\<close> (\<open>None\<close>) outside the array.\<close>
  "rd a i = (if 0 \<le> i \<and> i < int (length a) then Some (a ! nat i) else None)"

definition wr :: "'a list \<Rightarrow> int \<Rightarrow> 'a \<Rightarrow> 'a list" where
  \<comment> \<open>The write \<^verbatim>\<open>a[i] = v\<close> into an array of fixed length (a typed array): a write
      outside the array is dropped.\<close>
  "wr a i v = (if 0 \<le> i \<and> i < int (length a) then a[nat i := v] else a)"

definition js_gt :: "real option \<Rightarrow> real option \<Rightarrow> bool" where
  \<comment> \<open>The comparison \<^verbatim>\<open>a2 > a\<close> of two reads: false when either is \<^verbatim>\<open>undefined\<close>.\<close>
  "js_gt a2 a = (case (a2, a) of (Some u, Some v) \<Rightarrow> v < u | _ \<Rightarrow> False)"

record Vol =
  sx :: int
  sy :: int
  depth :: int
  w :: "real list"
  dw :: "real list"

definition Vol_const :: "int \<Rightarrow> int \<Rightarrow> int \<Rightarrow> real \<Rightarrow> Vol" where
  \<comment> \<open>Modelled from the spec: \<^verbatim>\<open>new Vol(sx, sy, depth, c)\<close> of the missing class \<^verbatim>\<open>Vol\<close>
      with a constant fill value: \<open>sx*sy*depth\<close> activations equal to \<open>c\<close> and as many
      zero gradients.\<close>
  "Vol_const x y d c =
     \<lparr>sx = x, sy = y, depth = d, w = replicate (nat (x * y * d)) c, dw = zeros (x * y * d)\<rparr>"

definition Vol_random :: "int \<Rightarrow> int \<Rightarrow> int \<Rightarrow> (nat \<Rightarrow> real) \<Rightarrow> Vol" where
  \<comment> \<open>Modelled from the spec: \<^verbatim>\<open>new Vol(sx, sy, depth)\<close> of the missing class \<^verbatim>\<open>Vol\<close>
      without a fill value: every weight is drawn at random. The draws are the
      parameter \<open>g\<close> (the \<open>i\<close>-th weight is \<open>g i\<close>).\<close>
  "Vol_random x y d g =
     \<lparr>sx = x, sy = y, depth = d, w = map g [0 ..< nat (x * y * d)], dw = zeros (x * y * d)\<rparr>"

definition clone :: "Vol \<Rightarrow> Vol" where
  \<comment> \<open>Modelled from the spec: \<^verbatim>\<open>Vol.clone()\<close> of the missing class \<^verbatim>\<open>Vol\<close>, a copy with
      the same dimensions, the same activations and gradient storage of its own.\<close>
  "clone V = \<lparr>sx = sx V, sy = sy V, depth = depth V, w = w V, dw = dw V\<rparr>"

definition cloneAndZero :: "Vol \<Rightarrow> Vol" where
  \<comment> \<open>Modelled from the spec: \<^verbatim>\<open>Vol.cloneAndZero()\<close> of the missing class \<^verbatim>\<open>Vol\<close>, same
      dimensions, zero-filled activations and gradients.\<close>
  "cloneAndZero V = Vol_const (sx V) (sy V) (depth V) 0"

definition Vol_index :: "Vol \<Rightarrow> int \<Rightarrow> int \<Rightarrow> int \<Rightarrow> int" where
  \<comment> \<open>Modelled from the spec: the flat index \<open>((sx*y)+x)*depth + d\<close> of the missing class
      \<^verbatim>\<open>Vol\<close>.\<close>
  "Vol_index V x y d = ((sx V * y) + x) * depth V + d"

definition Vol_get :: "Vol \<Rightarrow> int \<Rightarrow> int \<Rightarrow> int \<Rightarrow> real option" where
  \<comment> \<open>Modelled from the spec: \<^verbatim>\<open>Vol.get(x, y, d)\<close>, without bounds checking.\<close>
  "Vol_get V x y d = rd (w V) (Vol_index V x y d)"

definition Vol_set :: "Vol \<Rightarrow> int \<Rightarrow> int \<Rightarrow> int \<Rightarrow> real \<Rightarrow> Vol" where
  \<comment> \<open>Modelled from the spec: \<^verbatim>\<open>Vol.set(x, y, d, v)\<close>, without bounds checking.\<close>
  "Vol_set V x y d v = V\<lparr>w := wr (w V) (Vol_index V x y d) v\<rparr>"

definition Vol_get_grad :: "Vol \<Rightarrow> int \<Rightarrow> int \<Rightarrow> int \<Rightarrow> real option" where
  \<comment> \<open>Modelled from the spec: \<^verbatim>\<open>Vol.get_grad(x, y, d)\<close>.\<close>
  "Vol_get_grad V x y d = rd (dw V) (Vol_index V x y d)"

definition Vol_set_grad :: "Vol \<Rightarrow> int \<Rightarrow> int \<Rightarrow> int \<Rightarrow> real \<Rightarrow> Vol" where
  \<comment> \<open>Modelled from the spec: \<^verbatim>\<open>Vol.set_grad(x, y, d, v)\<close>.\<close>
  "Vol_set_grad V x y d v = V\<lparr>dw := wr (dw V) (Vol_index V x y d) v\<rparr>"

section \<open>Layers\<close>

text \<open>
  \<^verbatim>\<open>LayerOptionsBase\<close> and \<^verbatim>\<open>LayerBase\<close>. The class \<^verbatim>\<open>LayerBase\<close> declares the
  input dimensions but never assigns them; the two layers that use them (convolution,
  pooling) assign them themselves, so they are fields of those two records. Every
  concrete layer class declares \<^verbatim>\<open>in_act\<close> and \<^verbatim>\<open>out_act\<close>; the model keeps them in
  the base record, unset (\<open>None\<close>) until a forward pass has run.
\<close>

record LayerOptionsBase =
  type :: string
  in_sx :: int
  in_sy :: int
  in_depth :: int

record LayerBase =
  layer_type :: string
  out_sx :: int
  out_sy :: int
  out_depth :: int
  in_act :: "Vol option"
  out_act :: "Vol option"

record SerializedLayerBase =
  layer_type :: string
  out_sx :: int
  out_sy :: int
  out_depth :: int

subsection \<open>Relu\<close>

definition OutputLayer_new :: "string \<Rightarrow> LayerOptionsBase \<Rightarrow> LayerBase" where
  "OutputLayer_new layerType opt =
     \<lparr>LayerBase.layer_type = layerType, out_sx = in_sx opt, out_sy = in_sy opt,
      out_depth = in_depth opt, in_act = None, out_act = None\<rparr>"

definition ReluLayer_new :: "LayerOptionsBase \<Rightarrow> LayerBase" where
  "ReluLayer_new opt = OutputLayer_new ''relu'' opt"

text \<open>
  \<^verbatim>\<open>ReluLayer.forward\<close>. The assignment of \<^verbatim>\<open>out_act\<close> and the \<^verbatim>\<open>return\<close> stand
  inside the body of the loop over the elements, after the threshold test. So the
  first iteration (\<open>i = 0\<close>) ends the call, and with an empty input the loop body never
  runs and the call returns \<^verbatim>\<open>undefined\<close>: the result is an option. The function
  \<open>relu_loop\<close> is the loop from index \<open>i\<close> on.
\<close>

definition relu_loop :: "nat \<Rightarrow> nat \<Rightarrow> LayerBase \<Rightarrow> Vol \<Rightarrow> LayerBase \<times> Vol option" where
  \<comment> \<open>No recursive call: the body of the loop always returns.\<close>
  "relu_loop i N L V2 =
     (if i < N then
        (let V2 = (if (case rd (w V2) (int i) of Some v \<Rightarrow> v < 0 | None \<Rightarrow> False)
                   then V2\<lparr>w := wr (w V2) (int i) 0\<rparr> else V2)
         in (L\<lparr>out_act := Some V2\<rparr>, Some V2))
      else (L, None))"

definition ReluLayer_forward :: "LayerBase \<Rightarrow> Vol \<Rightarrow> LayerBase \<times> Vol option" where
  "ReluLayer_forward L V =
     (let L = L\<lparr>in_act := Some V\<rparr>;
          V2 = clone V;
          N = length (w V)
      in relu_loop 0 N L V2)"

subsection \<open>Dropout\<close>

record DropoutOptions = LayerOptionsBase +
  drop_prob :: "real option"

record DropoutLayer = LayerBase +
  drop_prob :: real
  dropped :: "bool list"

record SerializedDropout = SerializedLayerBase +
  drop_prob :: real

definition DropoutLayer_new :: "DropoutOptions \<Rightarrow> DropoutLayer" where
  "DropoutLayer_new opt =
     (let osx = in_sx opt; osy = in_sy opt; od = in_depth opt;
          d = (zeros (osx * osy * od) :: real list)
      in \<lparr>LayerBase.layer_type = ''dropout'', out_sx = osx, out_sy = osy, out_depth = od,
          in_act = None, out_act = None,
          DropoutLayer.drop_prob = (case DropoutOptions.drop_prob opt of Some p \<Rightarrow> p | None \<Rightarrow> 0.5),
          dropped = map (\<lambda>v. v \<noteq> 0) d\<rparr>)"

definition DropoutLayer_toJSON :: "DropoutLayer \<Rightarrow> SerializedDropout" where
  "DropoutLayer_toJSON L =
     \<lparr>SerializedLayerBase.layer_type = LayerBase.layer_type L,
      out_sx = LayerBase.out_sx L, out_sy = LayerBase.out_sy L, out_depth = LayerBase.out_depth L,
      SerializedDropout.drop_prob = DropoutLayer.drop_prob L\<rparr>"

definition DropoutLayer_fromJSON :: "SerializedDropout \<Rightarrow> DropoutLayer" where
  \<comment> \<open>\<^verbatim>\<open>new DropoutLayer().fromJSON(json)\<close>: the constructor without options sets nothing.\<close>
  "DropoutLayer_fromJSON json =
     (let od = SerializedLayerBase.out_depth json;
          osx = SerializedLayerBase.out_sx json;
          osy = SerializedLayerBase.out_sy json;
          d = (zeros (osx * osy * od) :: real list)
      in \<lparr>LayerBase.layer_type = SerializedLayerBase.layer_type json,
          out_sx = osx, out_sy = osy, out_depth = od, in_act = None, out_act = None,
          DropoutLayer.drop_prob = SerializedDropout.drop_prob json,
          dropped = map (\<lambda>v. v \<noteq> 0) d\<rparr>)"

definition set_dropped :: "bool list \<Rightarrow> nat \<Rightarrow> bool \<Rightarrow> bool list" where
  \<comment> \<open>\<^verbatim>\<open>this.dropped[i] = b\<close>. The mask is a plain array (\<^verbatim>\<open>boolean[]\<close>): the loop
      writes the indices in increasing order from 0, so a write lands inside the
      array or right at its end, where it appends.\<close>
  "set_dropped ds i b = (if i < length ds then ds[i := b] else ds @ [b])"

text \<open>
  \<^verbatim>\<open>DropoutLayer.forward\<close>. The flag \<open>is_training\<close> is optional (\<open>None\<close> is an absent
  argument). The results of the calls of \<^verbatim>\<open>Math.random()\<close> are the parameter
  \<open>rnd\<close>: call number \<open>i\<close> of this forward pass returns \<open>rnd i\<close>.
\<close>

definition dropout_train_loop :: "DropoutLayer \<Rightarrow> (nat \<Rightarrow> real) \<Rightarrow> nat \<Rightarrow> Vol \<Rightarrow> Vol \<times> bool list" where
  "dropout_train_loop L rnd N V2 =
     fold (\<lambda>i (V2, ds).
             if rnd i < DropoutLayer.drop_prob L
             then (V2\<lparr>w := wr (w V2) (int i) 0\<rparr>, set_dropped ds i True)
             else (V2, set_dropped ds i False))
       [0 ..< N] (V2, dropped L)"

definition dropout_test_loop :: "DropoutLayer \<Rightarrow> nat \<Rightarrow> Vol \<Rightarrow> Vol" where
  "dropout_test_loop L N V2 =
     fold (\<lambda>i V2. case rd (w V2) (int i) of
                     Some v \<Rightarrow> V2\<lparr>w := wr (w V2) (int i) (v * DropoutLayer.drop_prob L)\<rparr>
                   | None \<Rightarrow> V2)
       [0 ..< N] V2"

definition DropoutLayer_forward ::
  "DropoutLayer \<Rightarrow> (nat \<Rightarrow> real) \<Rightarrow> Vol \<Rightarrow> bool option \<Rightarrow> DropoutLayer \<times> Vol" where
  "DropoutLayer_forward L rnd V is_training =
     (let L = L\<lparr>in_act := Some V\<rparr>;
          is_training = (case is_training of None \<Rightarrow> False | Some b \<Rightarrow> b);
          V2 = clone V;
          N = length (w V)
      in if is_training
         then (let (V2, ds) = dropout_train_loop L rnd N V2
               in (L\<lparr>dropped := ds, out_act := Some V2\<rparr>, V2))
         else (let V2 = dropout_test_loop L N V2
               in (L\<lparr>out_act := Some V2\<rparr>, V2)))"

subsection \<open>Maxout\<close>

record MaxoutOptions = LayerOptionsBase +
  group_size :: "int option"

record MaxoutLayer = LayerBase +
  group_size :: int
  switches :: "int list"

record SerializedMaxout = SerializedLayerBase +
  group_size :: int

text \<open>
  \<^verbatim>\<open>MaxoutLayer.constructor\<close>. With a group size of zero the quotient is infinite or
  NaN in JavaScript, which the integer field cannot hold: the model returns \<open>None\<close>.
\<close>

definition MaxoutLayer_new :: "MaxoutOptions \<Rightarrow> MaxoutLayer option" where
  "MaxoutLayer_new opt =
     (let osx = in_sx opt; osy = in_sy opt;
          gs = (case MaxoutOptions.group_size opt of Some g \<Rightarrow> g | None \<Rightarrow> 2);
          od = \<lfloor>real_of_int (in_depth opt) / real_of_int gs\<rfloor>
      in if gs = 0 then None
         else Some
          \<lparr>LayerBase.layer_type = ''maxout'', out_sx = osx, out_sy = osy, out_depth = od,
           in_act = None, out_act = None,
           MaxoutLayer.group_size = gs, switches = zeros (osx * osy * od)\<rparr>)"

definition MaxoutLayer_toJSON :: "MaxoutLayer \<Rightarrow> SerializedMaxout" where
  "MaxoutLayer_toJSON L =
     \<lparr>SerializedLayerBase.layer_type = LayerBase.layer_type L,
      out_sx = LayerBase.out_sx L, out_sy = LayerBase.out_sy L, out_depth = LayerBase.out_depth L,
      SerializedMaxout.group_size = MaxoutLayer.group_size L\<rparr>"

definition MaxoutLayer_fromJSON :: "SerializedMaxout \<Rightarrow> MaxoutLayer" where
  "MaxoutLayer_fromJSON json =
     (let gs = SerializedMaxout.group_size json
      in \<lparr>LayerBase.layer_type = SerializedLayerBase.layer_type json,
          out_sx = SerializedLayerBase.out_sx json, out_sy = SerializedLayerBase.out_sy json,
          out_depth = SerializedLayerBase.out_depth json, in_act = None, out_act = None,
          MaxoutLayer.group_size = gs, switches = zeros gs\<rparr>)"

text \<open>
  \<^verbatim>\<open>MaxoutLayer.forward\<close> has two branches, written out separately as in the source:
  the branch for \<open>out_sx = out_sy = 1\<close>, which reads the flat array \<^verbatim>\<open>V.w\<close>, and the
  branch that walks the coordinates \<open>(x, y)\<close> and reads through \<^verbatim>\<open>V.get\<close>. A group
  whose first read is past the end of the input has the maximum \<^verbatim>\<open>undefined\<close>, which
  the code would store as NaN: the model returns \<open>None\<close> for such a run.
\<close>

definition maxout_flat_group :: "MaxoutLayer \<Rightarrow> Vol \<Rightarrow> int \<Rightarrow> real option \<times> int" where
  "maxout_flat_group L V ix =
     fold (\<lambda>j (a, ai). let a2 = rd (w V) (ix + int j)
                        in if js_gt a2 a then (a2, int j) else (a, ai))
       [1 ..< nat (MaxoutLayer.group_size L)] (rd (w V) ix, 0)"

definition maxout_flat_step ::
  "MaxoutLayer \<Rightarrow> Vol \<Rightarrow> nat \<Rightarrow> (Vol \<times> int list) option \<Rightarrow> (Vol \<times> int list) option" where
  \<comment> \<open>The body of the loop of the flat branch, for the output channel \<open>i\<close>. The
      state: the output \<open>V2\<close> and the switches.\<close>
  "maxout_flat_step L V i st =
     (case st of None \<Rightarrow> None
      | Some (V2, sw) \<Rightarrow>
          (let ix = int i * MaxoutLayer.group_size L;
               (a, ai) = maxout_flat_group L V ix
           in case a of None \<Rightarrow> None
              | Some v \<Rightarrow> Some (V2\<lparr>w := wr (w V2) (int i) v\<rparr>, wr sw (int i) (ix + ai))))"

definition maxout_forward_flat :: "MaxoutLayer \<Rightarrow> Vol \<Rightarrow> Vol \<Rightarrow> (Vol \<times> int list) option" where
  "maxout_forward_flat L V V2 =
     fold (maxout_flat_step L V) [0 ..< nat (LayerBase.out_depth L)] (Some (V2, switches L))"

definition maxout_coord_group :: "MaxoutLayer \<Rightarrow> Vol \<Rightarrow> int \<Rightarrow> int \<Rightarrow> int \<Rightarrow> real option \<times> int" where
  "maxout_coord_group L V x y ix =
     fold (\<lambda>j (a, ai). let a2 = Vol_get V x y (ix + int j)
                        in if js_gt a2 a then (a2, int j) else (a, ai))
       [1 ..< nat (MaxoutLayer.group_size L)] (Vol_get V x y ix, 0)"

definition maxout_coord_step ::
  "MaxoutLayer \<Rightarrow> Vol \<Rightarrow> nat \<Rightarrow> nat \<Rightarrow> nat \<Rightarrow> (Vol \<times> int list \<times> int) option
     \<Rightarrow> (Vol \<times> int list \<times> int) option" where
  \<comment> \<open>The body of the loops of the coordinate branch, for the position \<open>(x, y)\<close> and
      the output channel \<open>i\<close>. The state: the output \<open>V2\<close>, the switches and the
      counter \<open>n\<close>.\<close>
  "maxout_coord_step L V x y i st =
     (case st of None \<Rightarrow> None
      | Some (V2, sw, n) \<Rightarrow>
          (let ix = int i * MaxoutLayer.group_size L;
               (a, ai) = maxout_coord_group L V (int x) (int y) ix
           in case a of None \<Rightarrow> None
              | Some v \<Rightarrow> Some (Vol_set V2 (int x) (int y) (int i) v, wr sw n (ix + ai), n + 1)))"

definition maxout_forward_coord :: "MaxoutLayer \<Rightarrow> Vol \<Rightarrow> Vol \<Rightarrow> (Vol \<times> int list) option" where
  "maxout_forward_coord L V V2 =
     map_option (\<lambda>(V2, sw, n). (V2, sw))
      (fold (\<lambda>x. fold (\<lambda>y. fold (maxout_coord_step L V x y) [0 ..< nat (LayerBase.out_depth L)])
                   [0 ..< nat (Vol.sy V)])
         [0 ..< nat (Vol.sx V)] (Some (V2, switches L, 0)))"

definition MaxoutLayer_forward :: "MaxoutLayer \<Rightarrow> Vol \<Rightarrow> (MaxoutLayer \<times> Vol) option" where
  "MaxoutLayer_forward L V =
     (let L = L\<lparr>in_act := Some V\<rparr>;
          V2 = Vol_const (LayerBase.out_sx L) (LayerBase.out_sy L) (LayerBase.out_depth L) 0
      in map_option (\<lambda>(V2, sw). (L\<lparr>switches := sw, out_act := Some V2\<rparr>, V2))
           (if LayerBase.out_sx L = 1 \<and> LayerBase.out_sy L = 1
            then maxout_forward_flat L V V2
            else maxout_forward_coord L V V2))"

text \<open>
  \<^verbatim>\<open>MaxoutLayer.backward\<close>, again with its two branches. It works on the tensors that
  the forward pass has stored: \<open>V\<close> is \<^verbatim>\<open>in_act\<close> with its gradient already reset to
  zeros, \<open>V2\<close> is \<^verbatim>\<open>out_act\<close>, whose gradient the next layer has written. A read of
  a gradient or of a switch past the end of its array makes the run store NaN or
  write to no index: \<open>None\<close>.
\<close>

definition maxout_backward_flat_step :: "MaxoutLayer \<Rightarrow> Vol \<Rightarrow> nat \<Rightarrow> Vol option \<Rightarrow> Vol option" where
  "maxout_backward_flat_step L V2 i st =
     (case st of None \<Rightarrow> None
      | Some V \<Rightarrow>
          (case (rd (dw V2) (int i), rd (switches L) (int i)) of
             (Some chain_grad, Some s) \<Rightarrow> Some (V\<lparr>dw := wr (dw V) s chain_grad\<rparr>)
           | _ \<Rightarrow> None))"

definition maxout_backward_flat :: "MaxoutLayer \<Rightarrow> Vol \<Rightarrow> Vol \<Rightarrow> Vol option" where
  "maxout_backward_flat L V V2 =
     fold (maxout_backward_flat_step L V2) [0 ..< nat (LayerBase.out_depth L)] (Some V)"

definition maxout_backward_coord_step ::
  "MaxoutLayer \<Rightarrow> Vol \<Rightarrow> nat \<Rightarrow> nat \<Rightarrow> nat \<Rightarrow> (Vol \<times> int) option \<Rightarrow> (Vol \<times> int) option" where
  "maxout_backward_coord_step L V2 x y i st =
     (case st of None \<Rightarrow> None
      | Some (V, n) \<Rightarrow>
          (case (Vol_get_grad V2 (int x) (int y) (int i), rd (switches L) n) of
             (Some chain_grad, Some s) \<Rightarrow> Some (Vol_set_grad V (int x) (int y) s chain_grad, n + 1)
           | _ \<Rightarrow> None))"

definition maxout_backward_coord :: "MaxoutLayer \<Rightarrow> Vol \<Rightarrow> Vol \<Rightarrow> Vol option" where
  "maxout_backward_coord L V V2 =
     map_option fst
      (fold (\<lambda>x. fold (\<lambda>y. fold (maxout_backward_coord_step L V2 x y) [0 ..< nat (LayerBase.out_depth L)])
                   [0 ..< nat (Vol.sy V2)])
         [0 ..< nat (Vol.sx V2)] (Some (V, 0)))"

definition MaxoutLayer_backward :: "MaxoutLayer \<Rightarrow> MaxoutLayer option" where
  \<comment> \<open>\<open>None\<close> also when no forward pass has run: the code then reads a property of
      \<^verbatim>\<open>undefined\<close> and throws.\<close>
  "MaxoutLayer_backward L =
     (case (in_act L, out_act L) of
        (Some V, Some V2) \<Rightarrow>
          (let V = V\<lparr>dw := zeros (int (length (w V)))\<rparr>
           in map_option (\<lambda>V. L\<lparr>in_act := Some V\<rparr>)
                (if LayerBase.out_sx L = 1 \<and> LayerBase.out_sy L = 1
                 then maxout_backward_flat L V V2
                 else maxout_backward_coord L V V2))
      | _ \<Rightarrow> None)"

subsection \<open>Convolution and pooling\<close>

record ConvOptions = LayerOptionsBase +
  filters :: int
  sx :: int
  sy :: "int option"
  stride :: "int option"
  pad :: "int option"
  bias_pref :: "real option"
  l1_decay_mul :: "real option"
  l2_decay_mul :: "real option"

record ConvLayer = LayerBase +
  l1_decay_mul :: real
  l2_decay_mul :: real
  filters :: "Vol list"
  biases :: Vol
  sx :: int
  sy :: int
  stride :: int
  pad :: int
  in_depth :: int
  in_sx :: "int option"
  in_sy :: "int option"

text \<open>
  \<^verbatim>\<open>ConvLayer.constructor\<close>. An optional field of the options object is an option, with
  the default the constructor writes. The fields \<open>in_sx\<close> and \<open>in_sy\<close> of the layer are
  options because \<^verbatim>\<open>fromJSON\<close> leaves them unset. The quotient is the real quotient
  that JavaScript computes before \<^verbatim>\<open>Math.floor\<close>. For a stride of zero JavaScript
  yields an infinite or NaN size, which the integer field cannot hold: the model
  returns \<open>None\<close> there. The argument \<open>rnd\<close> supplies the random initial weights of
  filter \<open>i\<close>.
\<close>

definition ConvLayer_new :: "ConvOptions \<Rightarrow> (nat \<Rightarrow> nat \<Rightarrow> real) \<Rightarrow> ConvLayer option" where
  "ConvLayer_new opt rnd =
    (let od = ConvOptions.filters opt;
         fsx = ConvOptions.sx opt;
         ind = LayerOptionsBase.in_depth opt;
         isx = LayerOptionsBase.in_sx opt;
         isy = LayerOptionsBase.in_sy opt;
         fsy = (case ConvOptions.sy opt of Some v \<Rightarrow> v | None \<Rightarrow> fsx);
         st = (case ConvOptions.stride opt of Some v \<Rightarrow> v | None \<Rightarrow> 1);
         pd = (case ConvOptions.pad opt of Some v \<Rightarrow> v | None \<Rightarrow> 0);
         bias = (case ConvOptions.bias_pref opt of Some v \<Rightarrow> v | None \<Rightarrow> 0)
     in if st = 0 then None
        else Some
         \<lparr>LayerBase.layer_type = ''conv'',
          out_sx = \<lfloor>real_of_int (isx + pd * 2 - fsx) / real_of_int st + 1\<rfloor>,
          out_sy = \<lfloor>real_of_int (isy + pd * 2 - fsy) / real_of_int st + 1\<rfloor>,
          out_depth = od, in_act = None, out_act = None,
          ConvLayer.l1_decay_mul = (case ConvOptions.l1_decay_mul opt of Some v \<Rightarrow> v | None \<Rightarrow> 0),
          ConvLayer.l2_decay_mul = (case ConvOptions.l2_decay_mul opt of Some v \<Rightarrow> v | None \<Rightarrow> 1),
          ConvLayer.filters = map (\<lambda>i. Vol_random fsx fsy ind (rnd i)) [0 ..< nat od],
          biases = Vol_const 1 1 od bias,
          ConvLayer.sx = fsx, ConvLayer.sy = fsy, ConvLayer.stride = st, ConvLayer.pad = pd,
          ConvLayer.in_depth = ind, ConvLayer.in_sx = Some isx, ConvLayer.in_sy = Some isy\<rparr>)"

record PoolOptions = LayerOptionsBase +
  sx :: int
  sy :: "int option"
  stride :: "int option"
  pad :: "int option"

record PoolLayer = LayerBase +
  sx :: int
  sy :: int
  in_depth :: int
  in_sx :: "int option"
  in_sy :: "int option"
  stride :: int
  pad :: int
  switchx :: "int list"
  switchy :: "int list"

record SerializedPool = SerializedLayerBase +
  sx :: int
  sy :: int
  stride :: int
  in_depth :: int
  pad :: "int option"

text \<open>\<^verbatim>\<open>PoolLayer.constructor\<close>, with the same conventions; the default stride is 2.\<close>

definition PoolLayer_new :: "PoolOptions \<Rightarrow> PoolLayer option" where
  "PoolLayer_new opt =
    (let fsx = PoolOptions.sx opt;
         ind = LayerOptionsBase.in_depth opt;
         isx = LayerOptionsBase.in_sx opt;
         isy = LayerOptionsBase.in_sy opt;
         fsy = (case PoolOptions.sy opt of Some v \<Rightarrow> v | None \<Rightarrow> fsx);
         st = (case PoolOptions.stride opt of Some v \<Rightarrow> v | None \<Rightarrow> 2);
         pd = (case PoolOptions.pad opt of Some v \<Rightarrow> v | None \<Rightarrow> 0);
         od = ind;
         osx = \<lfloor>real_of_int (isx + pd * 2 - fsx) / real_of_int st + 1\<rfloor>;
         osy = \<lfloor>real_of_int (isy + pd * 2 - fsy) / real_of_int st + 1\<rfloor>
     in if st = 0 then None
        else Some
         \<lparr>LayerBase.layer_type = ''pool'', out_sx = osx, out_sy = osy, out_depth = od,
          in_act = None, out_act = None,
          PoolLayer.sx = fsx, PoolLayer.sy = fsy, PoolLayer.in_depth = ind,
          PoolLayer.in_sx = Some isx, PoolLayer.in_sy = Some isy,
          PoolLayer.stride = st, PoolLayer.pad = pd,
          switchx = zeros (osx * osy * od), switchy = zeros (osx * osy * od)\<rparr>)"

definition PoolLayer_toJSON :: "PoolLayer \<Rightarrow> SerializedPool" where
  "PoolLayer_toJSON L =
     \<lparr>SerializedLayerBase.layer_type = LayerBase.layer_type L,
      out_sx = LayerBase.out_sx L, out_sy = LayerBase.out_sy L, out_depth = LayerBase.out_depth L,
      SerializedPool.sx = PoolLayer.sx L, SerializedPool.sy = PoolLayer.sy L,
      SerializedPool.stride = PoolLayer.stride L, SerializedPool.in_depth = PoolLayer.in_depth L,
      SerializedPool.pad = Some (PoolLayer.pad L)\<rparr>"

definition PoolLayer_fromJSON :: "SerializedPool \<Rightarrow> PoolLayer" where
  "PoolLayer_fromJSON json =
     (let od = SerializedLayerBase.out_depth json;
          osx = SerializedLayerBase.out_sx json;
          osy = SerializedLayerBase.out_sy json
      in \<lparr>LayerBase.layer_type = SerializedLayerBase.layer_type json,
          out_sx = osx, out_sy = osy, out_depth = od, in_act = None, out_act = None,
          PoolLayer.sx = SerializedPool.sx json, PoolLayer.sy = SerializedPool.sy json,
          PoolLayer.in_depth = SerializedPool.in_depth json,
          PoolLayer.in_sx = None, PoolLayer.in_sy = None,
          PoolLayer.stride = SerializedPool.stride json,
          PoolLayer.pad = (case SerializedPool.pad json of Some v \<Rightarrow> v | None \<Rightarrow> 0),
          switchx = zeros (osx * osy * od), switchy = zeros (osx * osy * od)\<rparr>)"

text \<open>
  \<^verbatim>\<open>PoolLayer.forward\<close>. The source advances \<open>x\<close> and \<open>y\<close> by the stride in the
  loop headers, starting at \<open>-pad\<close>: in iteration \<open>ax\<close> (\<open>ay\<close>) the value of \<open>x\<close>
  (\<open>y\<close>) is \<open>-pad + stride * ax\<close> (\<open>-pad + stride * ay\<close>), which is how the model
  writes it. \<open>pool_window\<close> is the pair of loops over the filter window, with the
  running maximum \<open>a\<close> and the winning coordinates as its state; a read of
  \<^verbatim>\<open>undefined\<close> compares false and changes nothing.
\<close>

definition pool_window_step ::
  "Vol \<Rightarrow> int \<Rightarrow> int \<Rightarrow> int \<Rightarrow> nat \<Rightarrow> nat \<Rightarrow> real \<times> int \<times> int \<Rightarrow> real \<times> int \<times> int" where
  \<comment> \<open>The body of the inner loop, for the filter offsets \<open>fx\<close> and \<open>fy\<close>.\<close>
  "pool_window_step V x y d fx fy st =
     (let (a, winx, winy) = st; oy = y + int fy; ox = x + int fx
      in if oy \<ge> 0 \<and> oy < Vol.sy V \<and> ox \<ge> 0 \<and> ox < Vol.sx V
         then (case Vol_get V ox oy d of
                 Some v \<Rightarrow> if v > a then (v, ox, oy) else (a, winx, winy)
               | None \<Rightarrow> (a, winx, winy))
         else (a, winx, winy))"

definition pool_window :: "PoolLayer \<Rightarrow> Vol \<Rightarrow> int \<Rightarrow> int \<Rightarrow> int \<Rightarrow> real \<times> int \<times> int" where
  "pool_window L V x y d =
     fold (\<lambda>fx. fold (pool_window_step V x y d fx) [0 ..< nat (PoolLayer.sy L)])
       [0 ..< nat (PoolLayer.sx L)] (-99999, -1, -1)"

definition pool_forward_step ::
  "PoolLayer \<Rightarrow> Vol \<Rightarrow> nat \<Rightarrow> nat \<Rightarrow> nat \<Rightarrow> Vol \<times> int list \<times> int list \<times> int
     \<Rightarrow> Vol \<times> int list \<times> int list \<times> int" where
  \<comment> \<open>The body of the loop over the output positions. The state of the loops: the
      output \<open>A\<close>, the two switch arrays and the counter \<open>n\<close>.\<close>
  "pool_forward_step L V d ax ay st =
     (let (A, swx, swy, n) = st;
          x = - PoolLayer.pad L + PoolLayer.stride L * int ax;
          y = - PoolLayer.pad L + PoolLayer.stride L * int ay;
          (a, winx, winy) = pool_window L V x y (int d)
      in (Vol_set A (int ax) (int ay) (int d) a, wr swx n winx, wr swy n winy, n + 1))"

definition pool_forward_loops :: "PoolLayer \<Rightarrow> Vol \<Rightarrow> Vol \<Rightarrow> Vol \<times> int list \<times> int list \<times> int" where
  "pool_forward_loops L V A =
     fold (\<lambda>d. fold (\<lambda>ax. fold (pool_forward_step L V d ax) [0 ..< nat (LayerBase.out_sy L)])
                 [0 ..< nat (LayerBase.out_sx L)])
       [0 ..< nat (LayerBase.out_depth L)] (A, switchx L, switchy L, 0)"

definition PoolLayer_forward :: "PoolLayer \<Rightarrow> Vol \<Rightarrow> PoolLayer \<times> Vol" where
  "PoolLayer_forward L V =
     (let L = L\<lparr>in_act := Some V\<rparr>;
          A = Vol_const (LayerBase.out_sx L) (LayerBase.out_sy L) (LayerBase.out_depth L) 0;
          (A, swx, swy, n) = pool_forward_loops L V A
      in (L\<lparr>switchx := swx, switchy := swy, out_act := Some A\<rparr>, A))"

subsection \<open>Loss layers\<close>

text \<open>
  The value a loss layer returns is a JavaScript number that need not be finite: the
  logarithm of zero, of a negative number or of \<^verbatim>\<open>undefined\<close>.
\<close>

datatype number = Fin real | NaN | PosInfinity | NegInfinity

definition Math_log :: "real option \<Rightarrow> number" where
  \<comment> \<open>\<^verbatim>\<open>Math.log\<close> of a read: \<^verbatim>\<open>Math.log(undefined)\<close> is NaN.\<close>
  "Math_log x = (case x of None \<Rightarrow> NaN
                 | Some v \<Rightarrow> if 0 < v then Fin (ln v) else if v = 0 then NegInfinity else NaN)"

definition negate :: "number \<Rightarrow> number" where
  "negate x = (case x of Fin v \<Rightarrow> Fin (- v) | NaN \<Rightarrow> NaN
               | PosInfinity \<Rightarrow> NegInfinity | NegInfinity \<Rightarrow> PosInfinity)"

text \<open>
  How a call ends: it returns a value, it throws, or it leaves the model because it
  would store NaN into an array of numbers.
\<close>

datatype error = InvalidCostType | TypeError | AssertionFailed string

datatype 'a result = Returns 'a | Throws error | Outside

record LossLayerOptions = LayerOptionsBase +
  num_classes :: int

record SoftmaxLayer = LayerBase +
  num_inputs :: int
  es :: "real list option"

definition SoftmaxLayer_new :: "LossLayerOptions \<Rightarrow> SoftmaxLayer" where
  "SoftmaxLayer_new opt =
     (let n = LayerOptionsBase.in_sx opt * LayerOptionsBase.in_sy opt * LayerOptionsBase.in_depth opt
      in \<lparr>LayerBase.layer_type = ''softmax'', out_sx = 1, out_sy = 1, out_depth = n,
          in_act = None, out_act = None, SoftmaxLayer.num_inputs = n, es = None\<rparr>)"

text \<open>
  \<^verbatim>\<open>SoftmaxLayer.forward\<close>: three loops, for the maximum, for the exponentials and
  their sum, and for the normalisation. A class index past the end of the input reads
  \<^verbatim>\<open>undefined\<close>, whose exponential is NaN: \<open>None\<close>.
\<close>

definition softmax_amax :: "SoftmaxLayer \<Rightarrow> real list \<Rightarrow> real option" where
  "softmax_amax L as =
     fold (\<lambda>i amax. if js_gt (rd as (int i)) amax then rd as (int i) else amax)
       [1 ..< nat (LayerBase.out_depth L)] (rd as 0)"

definition softmax_exps :: "SoftmaxLayer \<Rightarrow> real list \<Rightarrow> real option \<Rightarrow> (real list \<times> real) option" where
  "softmax_exps L as amax =
     fold (\<lambda>i st. case st of None \<Rightarrow> None
                  | Some (esl, esum) \<Rightarrow>
                      (case (rd as (int i), amax) of
                         (Some a, Some m) \<Rightarrow> (let e = exp (a - m) in Some (wr esl (int i) e, esum + e))
                       | _ \<Rightarrow> None))
       [0 ..< nat (LayerBase.out_depth L)] (Some (zeros (LayerBase.out_depth L), 0))"

definition softmax_normalize :: "SoftmaxLayer \<Rightarrow> real \<Rightarrow> real list \<Rightarrow> Vol \<Rightarrow> (real list \<times> Vol) option" where
  "softmax_normalize L esum esl A =
     fold (\<lambda>i st. case st of None \<Rightarrow> None
                  | Some (esl, A) \<Rightarrow>
                      (case rd esl (int i) of
                         Some e \<Rightarrow> (let esl = wr esl (int i) (e / esum)
                                    in Some (esl, A\<lparr>w := wr (w A) (int i) (e / esum)\<rparr>))
                       | None \<Rightarrow> None))
       [0 ..< nat (LayerBase.out_depth L)] (Some (esl, A))"

definition SoftmaxLayer_forward :: "SoftmaxLayer \<Rightarrow> Vol \<Rightarrow> (SoftmaxLayer \<times> Vol) option" where
  "SoftmaxLayer_forward L V =
     (let L = L\<lparr>in_act := Some V\<rparr>;
          A = Vol_const 1 1 (LayerBase.out_depth L) 0;
          as = w V;
          amax = softmax_amax L as
      in case softmax_exps L as amax of None \<Rightarrow> None
         | Some (esl, esum) \<Rightarrow>
             (case softmax_normalize L esum esl A of None \<Rightarrow> None
              | Some (esl, A) \<Rightarrow> Some (L\<lparr>es := Some esl, out_act := Some A\<rparr>, A)))"

text \<open>
  \<^verbatim>\<open>SoftmaxLayer.backward\<close>, for an integer class index \<open>y\<close>. It throws only when no
  forward pass has run (\<^verbatim>\<open>in_act\<close> or \<^verbatim>\<open>es\<close> is unset). The gradient loop reads
  \<^verbatim>\<open>es[i]\<close> for every class; the returned loss reads \<^verbatim>\<open>es[y]\<close>, which is
  \<^verbatim>\<open>undefined\<close> for \<open>y\<close> outside the array.
\<close>

definition softmax_grad_step :: "real list \<Rightarrow> int \<Rightarrow> nat \<Rightarrow> real list option \<Rightarrow> real list option" where
  \<comment> \<open>The body of the gradient loop, for the class \<open>i\<close>.\<close>
  "softmax_grad_step esl y i st =
     (case st of None \<Rightarrow> None
      | Some xdw \<Rightarrow>
          (let indicator = (if int i = y then 1 else 0 :: real)
           in case rd esl (int i) of
                Some e \<Rightarrow> (let mul = - (indicator - e) in Some (wr xdw (int i) mul))
              | None \<Rightarrow> None))"

definition softmax_grads :: "SoftmaxLayer \<Rightarrow> real list \<Rightarrow> int \<Rightarrow> real list \<Rightarrow> real list option" where
  "softmax_grads L esl y xdw =
     fold (softmax_grad_step esl y) [0 ..< nat (LayerBase.out_depth L)] (Some xdw)"

definition SoftmaxLayer_backward :: "SoftmaxLayer \<Rightarrow> int \<Rightarrow> (SoftmaxLayer \<times> number) result" where
  "SoftmaxLayer_backward L y =
     (case (in_act L, es L) of
        (Some x, Some esl) \<Rightarrow>
          (let x = x\<lparr>dw := zeros (int (length (w x)))\<rparr>
           in case softmax_grads L esl y (dw x) of
                None \<Rightarrow> Outside
              | Some xdw \<Rightarrow> Returns (L\<lparr>in_act := Some (x\<lparr>dw := xdw\<rparr>)\<rparr>, negate (Math_log (rd esl y))))
      | _ \<Rightarrow> Throws TypeError)"

record SVMLayer = LayerBase +
  num_inputs :: int

definition SVMLayer_new :: "LossLayerOptions \<Rightarrow> SVMLayer" where
  "SVMLayer_new opt =
     (let n = LayerOptionsBase.in_sx opt * LayerOptionsBase.in_sy opt * LayerOptionsBase.in_depth opt
      in \<lparr>LayerBase.layer_type = ''svm'', out_sx = 1, out_sy = 1, out_depth = n,
          in_act = None, out_act = None, SVMLayer.num_inputs = n\<rparr>)"

definition SVMLayer_forward :: "SVMLayer \<Rightarrow> Vol \<Rightarrow> SVMLayer \<times> Vol" where
  "SVMLayer_forward L V = (L\<lparr>in_act := Some V, out_act := Some V\<rparr>, V)"

text \<open>
  \<^verbatim>\<open>SVMLayer.backward\<close>, for an integer class index \<open>y\<close>. The state of the loop is
  the gradient array \<^verbatim>\<open>x.dw\<close> and the loss. A score read as \<^verbatim>\<open>undefined\<close> makes
  \<open>ydiff\<close> NaN, which is not positive: the iteration changes nothing. The two
  updates of the gradient are read-modify-write steps, in the order of the source.

  The loop decides on the sign of a computed number, so its arithmetic is the code's,
  not the exact one: the parameter \<open>fl\<close> is the rounding of the number format
  (binary64, round to nearest), and each sum \<^verbatim>\<open>a + b\<close> of the source is
  \<open>fl (a + b)\<close>. The expression \<^verbatim>\<open>-yscore + x.w[i] + margin\<close> is two sums, from left
  to right; negation is exact.
\<close>

definition svm_step ::
  "(real \<Rightarrow> real) \<Rightarrow> real list \<Rightarrow> int \<Rightarrow> nat \<Rightarrow> real list \<times> real \<Rightarrow> real list \<times> real" where
  \<comment> \<open>The body of the loop, for the class \<open>i\<close>.\<close>
  "svm_step fl xw y i st =
     (let yscore = rd xw y; margin = 1; (xdw, loss) = st
      in if y = int i then (xdw, loss)
         else (case (yscore, rd xw (int i)) of
                 (Some ys, Some xwi) \<Rightarrow>
                   (let ydiff = fl (fl (- ys + xwi) + margin)
                    in if ydiff > 0
                       then (let xdw = (case rd xdw (int i) of Some g \<Rightarrow> wr xdw (int i) (fl (g + 1)) | None \<Rightarrow> xdw);
                                 xdw = (case rd xdw y of Some g \<Rightarrow> wr xdw y (fl (g - 1)) | None \<Rightarrow> xdw)
                             in (xdw, fl (loss + ydiff)))
                       else (xdw, loss))
               | _ \<Rightarrow> (xdw, loss)))"

definition svm_loop ::
  "(real \<Rightarrow> real) \<Rightarrow> SVMLayer \<Rightarrow> real list \<Rightarrow> int \<Rightarrow> real list \<times> real \<Rightarrow> real list \<times> real" where
  "svm_loop fl L xw y st = fold (svm_step fl xw y) [0 ..< nat (LayerBase.out_depth L)] st"

definition SVMLayer_backward :: "(real \<Rightarrow> real) \<Rightarrow> SVMLayer \<Rightarrow> int \<Rightarrow> (SVMLayer \<times> number) result" where
  "SVMLayer_backward fl L y =
     (case in_act L of
        Some x \<Rightarrow>
          (let x = x\<lparr>dw := zeros (int (length (w x)))\<rparr>;
               (xdw, loss) = svm_loop fl L (w x) y (dw x, 0)
           in Returns (L\<lparr>in_act := Some (x\<lparr>dw := xdw\<rparr>)\<rparr>, Fin loss))
      | None \<Rightarrow> Throws TypeError)"

record RegressionLayer = LayerBase +
  num_inputs :: int

definition RegressionLayer_new :: "LossLayerOptions \<Rightarrow> RegressionLayer" where
  "RegressionLayer_new opt =
     (let n = LayerOptionsBase.in_sx opt * LayerOptionsBase.in_sy opt * LayerOptionsBase.in_depth opt
      in \<lparr>LayerBase.layer_type = ''regression'', out_sx = 1, out_sy = 1, out_depth = n,
          in_act = None, out_act = None, RegressionLayer.num_inputs = n\<rparr>)"

definition RegressionLayer_forward :: "RegressionLayer \<Rightarrow> Vol \<Rightarrow> RegressionLayer \<times> Vol" where
  "RegressionLayer_forward L V = (L\<lparr>in_act := Some V, out_act := Some V\<rparr>, V)"

text \<open>
  The target of a backward pass: a number, an array of numbers, or an object with
  numeric entries (for regression, \<^verbatim>\<open>{dim, val}\<close>).
\<close>

datatype target = TNumber real | TArray "real list" | TObject "(string \<times> real) list"

definition is_integer :: "real \<Rightarrow> bool" where
  "is_integer r = (r = real_of_int \<lfloor>r\<rfloor>)"

text \<open>
  \<^verbatim>\<open>RegressionLayer.backward\<close>. Every branch subtracts the target from a score and
  stores the difference: a score or a target read as \<^verbatim>\<open>undefined\<close> stores NaN,
  which leaves the model.
\<close>

definition regression_array_loop :: "RegressionLayer \<Rightarrow> real list \<Rightarrow> real list \<Rightarrow> real list \<times> real \<Rightarrow> (real list \<times> real) option" where
  "regression_array_loop L xw ys st =
     fold (\<lambda>i st. case st of None \<Rightarrow> None
                  | Some (xdw, loss) \<Rightarrow>
                      (case (rd xw (int i), rd ys (int i)) of
                         (Some xwi, Some yi) \<Rightarrow>
                            (let dy = xwi - yi in Some (wr xdw (int i) dy, loss + 0.5 * dy * dy))
                       | _ \<Rightarrow> None))
       [0 ..< nat (LayerBase.out_depth L)] (Some st)"

definition RegressionLayer_backward :: "RegressionLayer \<Rightarrow> target \<Rightarrow> (RegressionLayer \<times> number) result" where
  "RegressionLayer_backward L y =
     (case in_act L of
        Some x \<Rightarrow>
          (let x = x\<lparr>dw := zeros (int (length (w x)))\<rparr>;
               loss = 0
           in case (case y of
                      TArray ys \<Rightarrow> regression_array_loop L (w x) ys (dw x, loss)
                    | TNumber yn \<Rightarrow>
                        (case rd (w x) 0 of
                           Some xw0 \<Rightarrow> (let dy = xw0 - yn in Some (wr (dw x) 0 dy, loss + 0.5 * dy * dy))
                         | None \<Rightarrow> None)
                    | TObject kvs \<Rightarrow>
                        (case (map_of kvs ''dim'', map_of kvs ''val'') of
                           (Some i, Some yi) \<Rightarrow>
                              (if is_integer i
                               then (case rd (w x) \<lfloor>i\<rfloor> of
                                       Some xwi \<Rightarrow> (let dy = xwi - yi
                                                     in Some (wr (dw x) \<lfloor>i\<rfloor> dy, loss + 0.5 * dy * dy))
                                     | None \<Rightarrow> None)
                               else None)
                         | _ \<Rightarrow> None)) of
                None \<Rightarrow> Outside
              | Some (xdw, loss) \<Rightarrow> Returns (L\<lparr>in_act := Some (x\<lparr>dw := xdw\<rparr>)\<rparr>, Fin loss))
      | None \<Rightarrow> Throws TypeError)"

subsection \<open>The dispatch of the backward pass of the last layer\<close>

text \<open>
  \<^verbatim>\<open>smartBackward\<close> takes any layer. The three loss layers are modelled above; the
  other layers, whose backward pass takes no target and returns no loss, are the
  variant \<open>NonLoss\<close>, and their backward pass is the parameter \<open>bw\<close>. For them, and
  for a loss that is NaN or zero, \<^verbatim>\<open>layer.backward(y) || 0\<close> is zero. A class index
  that is a number but not an integer is outside the model. The parameter \<open>fl\<close> is
  the rounding that the SVM layer's loop needs.
\<close>

datatype 'a LayerType =
    Softmax SoftmaxLayer
  | Regression RegressionLayer
  | SVM SVMLayer
  | NonLoss 'a

definition or_zero :: "number \<Rightarrow> number" where
  \<comment> \<open>\<^verbatim>\<open>v || 0\<close>: NaN and zero are falsy.\<close>
  "or_zero v = (case v of NaN \<Rightarrow> Fin 0 | _ \<Rightarrow> v)"

definition map_result :: "('a \<Rightarrow> 'b) \<Rightarrow> 'a result \<Rightarrow> 'b result" where
  "map_result f r = (case r of Returns v \<Rightarrow> Returns (f v) | Throws e \<Rightarrow> Throws e | Outside \<Rightarrow> Outside)"

definition smartBackward ::
  "(real \<Rightarrow> real) \<Rightarrow> ('a \<Rightarrow> 'a result) \<Rightarrow> target \<Rightarrow> 'a LayerType
     \<Rightarrow> ('a LayerType \<times> number) result" where
  "smartBackward fl bw y layer =
     (case layer of
        Regression L \<Rightarrow> map_result (\<lambda>(L, loss). (Regression L, loss)) (RegressionLayer_backward L y)
      | Softmax L \<Rightarrow>
          (case y of
             TNumber yn \<Rightarrow>
               (if is_integer yn
                then map_result (\<lambda>(L, loss). (Softmax L, or_zero loss)) (SoftmaxLayer_backward L \<lfloor>yn\<rfloor>)
                else Outside)
           | _ \<Rightarrow> Throws InvalidCostType)
      | SVM L \<Rightarrow>
          (case y of
             TNumber yn \<Rightarrow>
               (if is_integer yn
                then map_result (\<lambda>(L, loss). (SVM L, or_zero loss)) (SVMLayer_backward fl L \<lfloor>yn\<rfloor>)
                else Outside)
           | _ \<Rightarrow> Throws InvalidCostType)
      | NonLoss L \<Rightarrow>
          (case y of
             TNumber yn \<Rightarrow> map_result (\<lambda>L. (NonLoss L, Fin 0)) (bw L)
           | _ \<Rightarrow> Throws InvalidCostType))"

section \<open>The network: desugaring of layer specifications\<close>

text \<open>
  A layer specification is a JavaScript object: an association list from field names
  to values, in insertion order. A field may be absent, or present with the value
  \<^verbatim>\<open>undefined\<close>; the test \<^verbatim>\<open>'k' in def\<close> tells the two apart, the test
  \<^verbatim>\<open>typeof def.k === 'undefined'\<close> does not.
\<close>

datatype jsval = Str string | Num real | Undefined

type_synonym LayerDef = "(string \<times> jsval) list"

definition field :: "LayerDef \<Rightarrow> string \<Rightarrow> jsval" where
  \<comment> \<open>The read \<^verbatim>\<open>def.k\<close>.\<close>
  "field d k = (case map_of d k of Some v \<Rightarrow> v | None \<Rightarrow> Undefined)"

definition has_field :: "string \<Rightarrow> LayerDef \<Rightarrow> bool" where
  \<comment> \<open>The test \<^verbatim>\<open>'k' in def\<close>.\<close>
  "has_field k d = (map_of d k \<noteq> None)"

fun assign :: "LayerDef \<Rightarrow> string \<Rightarrow> jsval \<Rightarrow> LayerDef" where
  \<comment> \<open>The assignment \<^verbatim>\<open>def.k = v\<close>: an existing field keeps its place, a new one goes
      to the end.\<close>
  "assign [] k v = [(k, v)]"
| "assign ((k', v') # d) k v = (if k' = k then (k, v) # d else (k', v') # assign d k v)"

text \<open>
  The function \<^verbatim>\<open>desugar\<close> inside \<^verbatim>\<open>Net.makeLayers\<close>: \<open>desugar_step\<close> is the body of
  its loop for one specification \<open>def\<close>, with the list \<^verbatim>\<open>new_defs\<close> built so far. An
  unsupported activation is only logged to the console.
\<close>

definition desugar_step :: "LayerDef \<Rightarrow> LayerDef list \<Rightarrow> LayerDef list" where
  "desugar_step def new_defs =
     (let new_defs =
            (if field def ''type'' = Str ''softmax'' \<or> field def ''type'' = Str ''svm''
                \<or> field def ''type'' = Str ''regression''
             then new_defs @ [[(''type'', Str ''fc''), (''num_neurons'', field def ''num_classes'')]]
             else new_defs);
          def =
            (if field def ''type'' = Str ''fc'' \<or> field def ''type'' = Str ''conv''
             then (if field def ''bias_pref'' = Undefined
                   then (let def = assign def ''bias_pref'' (Num 0)
                         in if field def ''activation'' \<noteq> Undefined \<and> field def ''activation'' = Str ''relu''
                            then assign def ''bias_pref'' (Num 0.1)
                            else def)
                   else def)
             else def);
          new_defs = new_defs @ [def];
          new_defs =
            (if has_field ''activation'' def
             then (if field def ''activation'' = Str ''relu'' then new_defs @ [[(''type'', Str ''relu'')]]
                   else if field def ''activation'' = Str ''sigmoid'' then new_defs @ [[(''type'', Str ''sigmoid'')]]
                   else if field def ''activation'' = Str ''tanh'' then new_defs @ [[(''type'', Str ''tanh'')]]
                   else if field def ''activation'' = Str ''maxout''
                   then (let gs = (if has_field ''group_size'' def then field def ''group_size'' else Num 2)
                         in new_defs @ [[(''type'', Str ''maxout''), (''group_size'', gs)]])
                   else new_defs)
             else new_defs);
          new_defs =
            (if has_field ''drop_prob'' def \<and> field def ''type'' \<noteq> Str ''dropout''
             then new_defs @ [[(''type'', Str ''dropout''), (''drop_prob'', field def ''drop_prob'')]]
             else new_defs)
      in new_defs)"

definition desugar :: "LayerDef list \<Rightarrow> LayerDef list" where
  "desugar defs = fold desugar_step defs []"

definition makeLayers_desugar :: "LayerDef list \<Rightarrow> error + LayerDef list" where
  \<comment> \<open>The first part of \<^verbatim>\<open>Net.makeLayers\<close>: the two checks, then the desugaring pass.
      Modelled from the spec: \<^verbatim>\<open>util.assert\<close> of the missing module \<^verbatim>\<open>convnet_util\<close>,
      which fails fast with the message when its condition is false.\<close>
  "makeLayers_desugar defs =
     (if \<not> length defs \<ge> 2
      then Inl (AssertionFailed ''Error! At least one input layer and one loss layer are required.'')
      else if \<not> field (defs ! 0) ''type'' = Str ''input''
      then Inl (AssertionFailed ''Error! First layer must be the input layer, to declare size of inputs'')
      else Inr (desugar defs))"

section \<open>The network: forward pass and serialisation\<close>

text \<open>
  The forward pass of a network and its serialisation call the methods \<^verbatim>\<open>forward\<close>,
  \<^verbatim>\<open>toJSON\<close> and \<^verbatim>\<open>fromJSON\<close> of every layer class. The classes modelled so far are
  completed here, and the remaining ones (input, sigmoid, tanh, fully connected) and
  the forward pass of the convolution are added. Every \<^verbatim>\<open>fromJSON\<close> of the network
  is called on a fresh object \<^verbatim>\<open>new XLayer()\<close>. A constructor without options returns
  at once, before it calls the constructor of its base class; the model takes this call
  to yield the fresh object with no field set, as it does in the ECMAScript 5 output of
  the compiler, so that the fields that \<^verbatim>\<open>fromJSON\<close> does not assign are unset.
\<close>

subsection \<open>Serialized tensors\<close>

datatype SerializedVol = SerializedVol int int int "real list"
  \<comment> \<open>The fields \<^verbatim>\<open>sx\<close>, \<^verbatim>\<open>sy\<close>, \<^verbatim>\<open>depth\<close> and \<^verbatim>\<open>w\<close>, in this order.\<close>

definition Vol_toJSON :: "Vol \<Rightarrow> SerializedVol" where
  \<comment> \<open>Modelled from the spec: \<^verbatim>\<open>Vol.toJSON()\<close> of the missing class \<^verbatim>\<open>Vol\<close>, the
      dimensions and the flat array of weights; the gradients are not serialized.\<close>
  "Vol_toJSON V = SerializedVol (Vol.sx V) (Vol.sy V) (depth V) (w V)"

definition Vol_fromJSON :: "SerializedVol \<Rightarrow> Vol option" where
  \<comment> \<open>Modelled from the spec: \<^verbatim>\<open>Vol.fromJSON(json)\<close> of the missing class \<^verbatim>\<open>Vol\<close>. The
      tensor takes the dimensions of the record, the \<open>sx*sy*depth\<close> weights that these
      dimensions declare, read from the flat array, and zero gradients. A flat array
      with fewer entries would leave a weight that is not a number: \<open>None\<close>.\<close>
  "Vol_fromJSON json =
     (case json of
        SerializedVol x y d ws \<Rightarrow>
          (let n = x * y * d
           in if int (length ws) < n then None
              else Some \<lparr>Vol.sx = x, Vol.sy = y, depth = d, w = take (nat n) ws, dw = zeros n\<rparr>))"

subsection \<open>Input, relu, sigmoid and tanh\<close>

definition InputLayer_forward :: "LayerBase \<Rightarrow> Vol option \<Rightarrow> LayerBase \<times> Vol option" where
  \<comment> \<open>\<^verbatim>\<open>InputLayer.forward\<close> only stores and returns its argument, so it also runs when
      the argument is \<^verbatim>\<open>undefined\<close> (\<open>None\<close>).\<close>
  "InputLayer_forward L V = (L\<lparr>in_act := V, out_act := V\<rparr>, V)"

definition InputLayer_toJSON :: "LayerBase \<Rightarrow> SerializedLayerBase" where
  "InputLayer_toJSON L =
     \<lparr>SerializedLayerBase.layer_type = LayerBase.layer_type L,
      out_sx = LayerBase.out_sx L, out_sy = LayerBase.out_sy L, out_depth = LayerBase.out_depth L\<rparr>"

definition InputLayer_fromJSON :: "SerializedLayerBase \<Rightarrow> LayerBase" where
  "InputLayer_fromJSON json =
     \<lparr>LayerBase.layer_type = SerializedLayerBase.layer_type json,
      out_sx = SerializedLayerBase.out_sx json, out_sy = SerializedLayerBase.out_sy json,
      out_depth = SerializedLayerBase.out_depth json, in_act = None, out_act = None\<rparr>"

definition ReluLayer_toJSON :: "LayerBase \<Rightarrow> SerializedLayerBase" where
  "ReluLayer_toJSON L =
     \<lparr>SerializedLayerBase.layer_type = LayerBase.layer_type L,
      out_sx = LayerBase.out_sx L, out_sy = LayerBase.out_sy L, out_depth = LayerBase.out_depth L\<rparr>"

definition ReluLayer_fromJSON :: "SerializedLayerBase \<Rightarrow> LayerBase" where
  "ReluLayer_fromJSON json =
     \<lparr>LayerBase.layer_type = SerializedLayerBase.layer_type json,
      out_sx = SerializedLayerBase.out_sx json, out_sy = SerializedLayerBase.out_sy json,
      out_depth = SerializedLayerBase.out_depth json, in_act = None, out_act = None\<rparr>"

definition SigmoidLayer_forward :: "LayerBase \<Rightarrow> Vol \<Rightarrow> LayerBase \<times> Vol" where
  \<comment> \<open>The loop runs over the indices of \<^verbatim>\<open>V.w\<close>, so every read of it is defined.\<close>
  "SigmoidLayer_forward L V =
     (let L = L\<lparr>in_act := Some V\<rparr>;
          V2 = cloneAndZero V;
          N = length (w V);
          V2 = fold (\<lambda>i V2. V2\<lparr>w := wr (w V2) (int i) (1 / (1 + exp (- (w V ! i))))\<rparr>) [0 ..< N] V2
      in (L\<lparr>out_act := Some V2\<rparr>, V2))"

definition SigmoidLayer_toJSON :: "LayerBase \<Rightarrow> SerializedLayerBase" where
  "SigmoidLayer_toJSON L =
     \<lparr>SerializedLayerBase.layer_type = LayerBase.layer_type L,
      out_sx = LayerBase.out_sx L, out_sy = LayerBase.out_sy L, out_depth = LayerBase.out_depth L\<rparr>"

definition SigmoidLayer_fromJSON :: "SerializedLayerBase \<Rightarrow> LayerBase" where
  "SigmoidLayer_fromJSON json =
     \<lparr>LayerBase.layer_type = SerializedLayerBase.layer_type json,
      out_sx = SerializedLayerBase.out_sx json, out_sy = SerializedLayerBase.out_sy json,
      out_depth = SerializedLayerBase.out_depth json, in_act = None, out_act = None\<rparr>"

definition tanh_js :: "real \<Rightarrow> real" where
  \<comment> \<open>The helper function \<^verbatim>\<open>tanh\<close> of the source file.\<close>
  "tanh_js x = (let y = exp (2 * x) in (y - 1) / (y + 1))"

definition TanhLayer_forward :: "LayerBase \<Rightarrow> Vol \<Rightarrow> LayerBase \<times> Vol" where
  "TanhLayer_forward L V =
     (let L = L\<lparr>in_act := Some V\<rparr>;
          V2 = cloneAndZero V;
          N = length (w V);
          V2 = fold (\<lambda>i V2. V2\<lparr>w := wr (w V2) (int i) (tanh_js (w V ! i))\<rparr>) [0 ..< N] V2
      in (L\<lparr>out_act := Some V2\<rparr>, V2))"

definition TanhLayer_toJSON :: "LayerBase \<Rightarrow> SerializedLayerBase" where
  "TanhLayer_toJSON L =
     \<lparr>SerializedLayerBase.layer_type = LayerBase.layer_type L,
      out_sx = LayerBase.out_sx L, out_sy = LayerBase.out_sy L, out_depth = LayerBase.out_depth L\<rparr>"

definition TanhLayer_fromJSON :: "SerializedLayerBase \<Rightarrow> LayerBase" where
  "TanhLayer_fromJSON json =
     \<lparr>LayerBase.layer_type = SerializedLayerBase.layer_type json,
      out_sx = SerializedLayerBase.out_sx json, out_sy = SerializedLayerBase.out_sy json,
      out_depth = SerializedLayerBase.out_depth json, in_act = None, out_act = None\<rparr>"

subsection \<open>Loss layers\<close>

record SerializedSoftmax = SerializedLayerBase +
  num_inputs :: int

record SerializedRegression = SerializedLayerBase +
  num_inputs :: int

record SerializedSVM = SerializedLayerBase +
  num_inputs :: int

definition SoftmaxLayer_toJSON :: "SoftmaxLayer \<Rightarrow> SerializedSoftmax" where
  "SoftmaxLayer_toJSON L =
     \<lparr>SerializedLayerBase.layer_type = LayerBase.layer_type L,
      out_sx = LayerBase.out_sx L, out_sy = LayerBase.out_sy L, out_depth = LayerBase.out_depth L,
      SerializedSoftmax.num_inputs = SoftmaxLayer.num_inputs L\<rparr>"

definition SoftmaxLayer_fromJSON :: "SerializedSoftmax \<Rightarrow> SoftmaxLayer" where
  "SoftmaxLayer_fromJSON json =
     \<lparr>LayerBase.layer_type = SerializedLayerBase.layer_type json,
      out_sx = SerializedLayerBase.out_sx json, out_sy = SerializedLayerBase.out_sy json,
      out_depth = SerializedLayerBase.out_depth json, in_act = None, out_act = None,
      SoftmaxLayer.num_inputs = SerializedSoftmax.num_inputs json, es = None\<rparr>"

definition RegressionLayer_toJSON :: "RegressionLayer \<Rightarrow> SerializedRegression" where
  "RegressionLayer_toJSON L =
     \<lparr>SerializedLayerBase.layer_type = LayerBase.layer_type L,
      out_sx = LayerBase.out_sx L, out_sy = LayerBase.out_sy L, out_depth = LayerBase.out_depth L,
      SerializedRegression.num_inputs = RegressionLayer.num_inputs L\<rparr>"

definition RegressionLayer_fromJSON :: "SerializedRegression \<Rightarrow> RegressionLayer" where
  "RegressionLayer_fromJSON json =
     \<lparr>LayerBase.layer_type = SerializedLayerBase.layer_type json,
      out_sx = SerializedLayerBase.out_sx json, out_sy = SerializedLayerBase.out_sy json,
      out_depth = SerializedLayerBase.out_depth json, in_act = None, out_act = None,
      RegressionLayer.num_inputs = SerializedRegression.num_inputs json\<rparr>"

definition SVMLayer_toJSON :: "SVMLayer \<Rightarrow> SerializedSVM" where
  "SVMLayer_toJSON L =
     \<lparr>SerializedLayerBase.layer_type = LayerBase.layer_type L,
      out_sx = LayerBase.out_sx L, out_sy = LayerBase.out_sy L, out_depth = LayerBase.out_depth L,
      SerializedSVM.num_inputs = SVMLayer.num_inputs L\<rparr>"

definition SVMLayer_fromJSON :: "SerializedSVM \<Rightarrow> SVMLayer" where
  "SVMLayer_fromJSON json =
     \<lparr>LayerBase.layer_type = SerializedLayerBase.layer_type json,
      out_sx = SerializedLayerBase.out_sx json, out_sy = SerializedLayerBase.out_sy json,
      out_depth = SerializedLayerBase.out_depth json, in_act = None, out_act = None,
      SVMLayer.num_inputs = SerializedSVM.num_inputs json\<rparr>"

subsection \<open>Convolution\<close>

text \<open>
  \<^verbatim>\<open>ConvLayer.forward\<close>. The operator \<^verbatim>\<open>| 0\<close> converts to a signed 32-bit integer. The
  source advances \<open>x\<close> and \<open>y\<close> by the stride in the loop headers: in iteration \<open>ax\<close>
  (\<open>ay\<close>) the value of \<open>x\<close> (\<open>y\<close>) is \<open>(-pad | 0) + (stride | 0) * ax\<close>. The state of
  the three innermost loops is the sum \<open>a\<close>; a weight or an activation read as
  \<^verbatim>\<open>undefined\<close> makes it NaN (\<open>None\<close>), and so does a bias read as \<^verbatim>\<open>undefined\<close>: the
  run leaves the model. A filter that is missing (\<^verbatim>\<open>this.filters[d]\<close> is
  \<^verbatim>\<open>undefined\<close>) makes the first read of its size throw.
\<close>

definition int32 :: "int \<Rightarrow> int" where
  \<comment> \<open>\<^verbatim>\<open>x | 0\<close>\<close>
  "int32 x = (x + 2 ^ 31) mod 2 ^ 32 - 2 ^ 31"

definition conv_window_step ::
  "Vol \<Rightarrow> Vol \<Rightarrow> int \<Rightarrow> int \<Rightarrow> int \<Rightarrow> nat \<Rightarrow> nat \<Rightarrow> nat \<Rightarrow> real option \<Rightarrow> real option" where
  \<comment> \<open>The body of the innermost loop, for the filter offsets \<open>fy\<close>, \<open>fx\<close> and the
      channel \<open>fd\<close>.\<close>
  "conv_window_step f V V_sx x y fy fx fd a =
     (let oy = y + int fy; ox = x + int fx
      in case (a, rd (w f) (((Vol.sx f * int fy) + int fx) * depth f + int fd),
                  rd (w V) (((V_sx * oy) + ox) * depth V + int fd)) of
           (Some a, Some fw, Some vw) \<Rightarrow> Some (a + fw * vw)
         | _ \<Rightarrow> None)"

definition conv_window :: "Vol \<Rightarrow> Vol \<Rightarrow> int \<Rightarrow> int \<Rightarrow> int \<Rightarrow> int \<Rightarrow> real option" where
  "conv_window f V V_sx V_sy x y =
     fold (\<lambda>fy. fold (\<lambda>fx a. let oy = y + int fy; ox = x + int fx
                             in if oy \<ge> 0 \<and> oy < V_sy \<and> ox \<ge> 0 \<and> ox < V_sx
                                then fold (conv_window_step f V V_sx x y fy fx) [0 ..< nat (depth f)] a
                                else a)
                  [0 ..< nat (Vol.sx f)])
       [0 ..< nat (Vol.sy f)] (Some 0)"

definition conv_forward_step :: "ConvLayer \<Rightarrow> Vol \<Rightarrow> nat \<Rightarrow> nat \<Rightarrow> nat \<Rightarrow> Vol result \<Rightarrow> Vol result" where
  \<comment> \<open>The body of the loop over the output positions, for the filter \<open>d\<close> and the
      position \<open>(ax, ay)\<close>. The state: the output \<open>A\<close>.\<close>
  "conv_forward_step L V d ay ax st =
     (case st of
        Returns A \<Rightarrow>
          (let V_sx = int32 (Vol.sx V);
               V_sy = int32 (Vol.sy V);
               xy_stride = int32 (ConvLayer.stride L);
               x = int32 (- ConvLayer.pad L) + xy_stride * int ax;
               y = int32 (- ConvLayer.pad L) + xy_stride * int ay
           in case rd (ConvLayer.filters L) (int d) of
                None \<Rightarrow> Throws TypeError
              | Some f \<Rightarrow>
                  (case (conv_window f V V_sx V_sy x y, rd (w (ConvLayer.biases L)) (int d)) of
                     (Some a, Some b) \<Rightarrow> Returns (Vol_set A (int ax) (int ay) (int d) (a + b))
                   | _ \<Rightarrow> Outside))
      | _ \<Rightarrow> st)"

definition ConvLayer_forward :: "ConvLayer \<Rightarrow> Vol \<Rightarrow> (ConvLayer \<times> Vol) result" where
  "ConvLayer_forward L V =
     (let L = L\<lparr>in_act := Some V\<rparr>;
          A = Vol_const (int32 (LayerBase.out_sx L)) (int32 (LayerBase.out_sy L))
                (int32 (LayerBase.out_depth L)) 0
      in map_result (\<lambda>A. (L\<lparr>out_act := Some A\<rparr>, A))
           (fold (\<lambda>d. fold (\<lambda>ay. fold (conv_forward_step L V d ay) [0 ..< nat (LayerBase.out_sx L)])
                        [0 ..< nat (LayerBase.out_sy L)])
              [0 ..< nat (LayerBase.out_depth L)] (Returns A)))"

record SerializedConv = SerializedLayerBase +
  sx :: int
  sy :: int
  stride :: int
  in_depth :: int
  l1_decay_mul :: "real option"
  l2_decay_mul :: "real option"
  pad :: "int option"
  filters :: "SerializedVol list"
  biases :: SerializedVol

definition ConvLayer_toJSON :: "ConvLayer \<Rightarrow> SerializedConv" where
  "ConvLayer_toJSON L =
     \<lparr>SerializedLayerBase.layer_type = LayerBase.layer_type L,
      out_sx = LayerBase.out_sx L, out_sy = LayerBase.out_sy L, out_depth = LayerBase.out_depth L,
      SerializedConv.sx = ConvLayer.sx L, SerializedConv.sy = ConvLayer.sy L,
      SerializedConv.stride = ConvLayer.stride L, SerializedConv.in_depth = ConvLayer.in_depth L,
      SerializedConv.l1_decay_mul = Some (ConvLayer.l1_decay_mul L),
      SerializedConv.l2_decay_mul = Some (ConvLayer.l2_decay_mul L),
      SerializedConv.pad = Some (ConvLayer.pad L),
      SerializedConv.filters = map Vol_toJSON (ConvLayer.filters L),
      SerializedConv.biases = Vol_toJSON (ConvLayer.biases L)\<rparr>"

definition ConvLayer_fromJSON :: "SerializedConv \<Rightarrow> ConvLayer option" where
  \<comment> \<open>\<open>None\<close> when a reloaded tensor would hold a weight that is not a number. The
      fields \<^verbatim>\<open>in_sx\<close> and \<^verbatim>\<open>in_sy\<close> stay unset.\<close>
  "ConvLayer_fromJSON json =
     (case (those (map Vol_fromJSON (SerializedConv.filters json)),
            Vol_fromJSON (SerializedConv.biases json)) of
        (Some fs, Some b) \<Rightarrow>
          Some \<lparr>LayerBase.layer_type = SerializedLayerBase.layer_type json,
                out_sx = SerializedLayerBase.out_sx json, out_sy = SerializedLayerBase.out_sy json,
                out_depth = SerializedLayerBase.out_depth json, in_act = None, out_act = None,
                ConvLayer.l1_decay_mul = (case SerializedConv.l1_decay_mul json of Some v \<Rightarrow> v | None \<Rightarrow> 1),
                ConvLayer.l2_decay_mul = (case SerializedConv.l2_decay_mul json of Some v \<Rightarrow> v | None \<Rightarrow> 1),
                ConvLayer.filters = fs, biases = b,
                ConvLayer.sx = SerializedConv.sx json, ConvLayer.sy = SerializedConv.sy json,
                ConvLayer.stride = SerializedConv.stride json,
                ConvLayer.pad = (case SerializedConv.pad json of Some v \<Rightarrow> v | None \<Rightarrow> 0),
                ConvLayer.in_depth = SerializedConv.in_depth json,
                ConvLayer.in_sx = None, ConvLayer.in_sy = None\<rparr>
      | _ \<Rightarrow> None)"

subsection \<open>Fully connected\<close>

record FullyConnLayer = LayerBase +
  l1_decay_mul :: real
  l2_decay_mul :: real
  filters :: "Vol list"
  biases :: Vol
  num_inputs :: int

record SerializedFullyConn = SerializedLayerBase +
  num_inputs :: int
  l1_decay_mul :: "real option"
  l2_decay_mul :: "real option"
  filters :: "SerializedVol list"
  biases :: SerializedVol

text \<open>
  \<^verbatim>\<open>FullyConnLayer.forward\<close>: for every neuron \<open>i\<close> the dot product of the input with
  the neuron's weights over the first \<open>num_inputs\<close> indices, plus its bias. A read of
  \<^verbatim>\<open>undefined\<close> makes the sum NaN (\<open>None\<close>), which the code stores: the run leaves
  the model. A missing filter makes the read of its weights throw.
\<close>

definition fc_dot_step :: "real list \<Rightarrow> real list \<Rightarrow> nat \<Rightarrow> real option \<Rightarrow> real option" where
  "fc_dot_step Vw wi d a =
     (case (a, rd Vw (int d), rd wi (int d)) of
        (Some a, Some v, Some u) \<Rightarrow> Some (a + v * u)
      | _ \<Rightarrow> None)"

definition fc_forward_step :: "FullyConnLayer \<Rightarrow> Vol \<Rightarrow> nat \<Rightarrow> Vol result \<Rightarrow> Vol result" where
  \<comment> \<open>The body of the loop over the neurons. The state: the output \<open>A\<close>.\<close>
  "fc_forward_step L V i st =
     (case st of
        Returns A \<Rightarrow>
          (case rd (FullyConnLayer.filters L) (int i) of
             None \<Rightarrow> Throws TypeError
           | Some f \<Rightarrow>
               (case (fold (fc_dot_step (w V) (w f)) [0 ..< nat (FullyConnLayer.num_inputs L)] (Some 0),
                      rd (w (FullyConnLayer.biases L)) (int i)) of
                  (Some a, Some b) \<Rightarrow> Returns (A\<lparr>w := wr (w A) (int i) (a + b)\<rparr>)
                | _ \<Rightarrow> Outside))
      | _ \<Rightarrow> st)"

definition FullyConnLayer_forward :: "FullyConnLayer \<Rightarrow> Vol \<Rightarrow> (FullyConnLayer \<times> Vol) result" where
  "FullyConnLayer_forward L V =
     (let L = L\<lparr>in_act := Some V\<rparr>;
          A = Vol_const 1 1 (LayerBase.out_depth L) 0
      in map_result (\<lambda>A. (L\<lparr>out_act := Some A\<rparr>, A))
           (fold (fc_forward_step L V) [0 ..< nat (LayerBase.out_depth L)] (Returns A)))"

definition FullyConnLayer_toJSON :: "FullyConnLayer \<Rightarrow> SerializedFullyConn" where
  "FullyConnLayer_toJSON L =
     \<lparr>SerializedLayerBase.layer_type = LayerBase.layer_type L,
      out_sx = LayerBase.out_sx L, out_sy = LayerBase.out_sy L, out_depth = LayerBase.out_depth L,
      SerializedFullyConn.num_inputs = FullyConnLayer.num_inputs L,
      SerializedFullyConn.l1_decay_mul = Some (FullyConnLayer.l1_decay_mul L),
      SerializedFullyConn.l2_decay_mul = Some (FullyConnLayer.l2_decay_mul L),
      SerializedFullyConn.filters = map Vol_toJSON (FullyConnLayer.filters L),
      SerializedFullyConn.biases = Vol_toJSON (FullyConnLayer.biases L)\<rparr>"

definition FullyConnLayer_fromJSON :: "SerializedFullyConn \<Rightarrow> FullyConnLayer option" where
  "FullyConnLayer_fromJSON json =
     (case (those (map Vol_fromJSON (SerializedFullyConn.filters json)),
            Vol_fromJSON (SerializedFullyConn.biases json)) of
        (Some fs, Some b) \<Rightarrow>
          Some \<lparr>LayerBase.layer_type = SerializedLayerBase.layer_type json,
                out_sx = SerializedLayerBase.out_sx json, out_sy = SerializedLayerBase.out_sy json,
                out_depth = SerializedLayerBase.out_depth json, in_act = None, out_act = None,
                FullyConnLayer.l1_decay_mul =
                  (case SerializedFullyConn.l1_decay_mul json of Some v \<Rightarrow> v | None \<Rightarrow> 1),
                FullyConnLayer.l2_decay_mul =
                  (case SerializedFullyConn.l2_decay_mul json of Some v \<Rightarrow> v | None \<Rightarrow> 1),
                FullyConnLayer.filters = fs, biases = b,
                FullyConnLayer.num_inputs = SerializedFullyConn.num_inputs json\<rparr>
      | _ \<Rightarrow> None)"

subsection \<open>The layers of a network\<close>

text \<open>
  The class \<^verbatim>\<open>LocalResponseNormalizationLayer\<close> is not among the sources of the
  repository at hand, and the specification does not say which fields its serialized
  record carries. The three methods of it that the network calls, and the tag of its
  serialized record, are parameters of the model: \<open>'n\<close> is the type of its objects,
  \<open>'sn\<close> the type of its serialized records.
\<close>

record ('n, 'sn) LocalResponseNormalization =
  lrn_forward :: "'n \<Rightarrow> Vol option \<Rightarrow> bool \<Rightarrow> ('n \<times> Vol option) result"
  lrn_toJSON :: "'n \<Rightarrow> 'sn"
  lrn_fromJSON :: "'sn \<Rightarrow> 'n"
  lrn_layer_type :: "'sn \<Rightarrow> string"

text \<open>
  The union \<^verbatim>\<open>LayerType\<close> of the thirteen layer classes: the three loss layers and
  the ten others, which are the argument of the variant \<open>NonLoss\<close>. The union
  \<^verbatim>\<open>SerializedLayerType\<close> of their serialized records is discriminated by the tag
  \<^verbatim>\<open>layer_type\<close>.
\<close>

datatype 'n OtherLayer =
    FullyConn FullyConnLayer
  | LRN 'n
  | Dropout DropoutLayer
  | Input LayerBase
  | Conv ConvLayer
  | Pool PoolLayer
  | Relu LayerBase
  | Sigmoid LayerBase
  | Tanh LayerBase
  | Maxout MaxoutLayer

datatype 'sn SerializedLayerType =
    SVMJson SerializedSVM
  | RegressionJson SerializedRegression
  | SoftmaxJson SerializedSoftmax
  | FullyConnJson SerializedFullyConn
  | ConvJson SerializedConv
  | MaxoutJson SerializedMaxout
  | TanhJson SerializedLayerBase
  | SigmoidJson SerializedLayerBase
  | ReluJson SerializedLayerBase
  | PoolJson SerializedPool
  | InputJson SerializedLayerBase
  | DropoutJson SerializedDropout
  | LRNJson 'sn

text \<open>
  The call \<^verbatim>\<open>layer.forward(act, is_training)\<close> of \<^verbatim>\<open>Net.forward\<close>, for each class. The
  activation \<open>act\<close> it passes on may be \<^verbatim>\<open>undefined\<close> (\<open>None\<close>), which is what
  \<^verbatim>\<open>ReluLayer.forward\<close> returns for an empty input. The input layer and the regression
  and SVM layers hand it on; the other classes read a property of it and throw, the
  maxout and pooling layers only if their loops get to read it. The calls of
  \<^verbatim>\<open>Math.random()\<close> during one forward pass of the network are numbered from zero:
  call number \<open>i\<close> returns \<open>rnd i\<close>, and \<open>k\<close> counts the calls made so far (only the
  dropout layer in training mode makes any, one for each input element).
\<close>

definition pool_reads_input :: "PoolLayer \<Rightarrow> bool" where
  \<comment> \<open>Whether the loops of \<^verbatim>\<open>PoolLayer.forward\<close> get to evaluate \<^verbatim>\<open>V.sy\<close>: the test
      \<^verbatim>\<open>oy >= 0\<close> comes first, so they do when some row \<open>oy = y + fy\<close> of some window
      is not negative.\<close>
  "pool_reads_input L =
     (0 < LayerBase.out_depth L \<and> 0 < LayerBase.out_sx L \<and> 0 < PoolLayer.sx L \<and>
      list_ex (\<lambda>ay. list_ex (\<lambda>fy. - PoolLayer.pad L + PoolLayer.stride L * int ay + int fy \<ge> 0)
                       [0 ..< nat (PoolLayer.sy L)])
        [0 ..< nat (LayerBase.out_sy L)])"

fun Layer_forward ::
  "('n, 'sn) LocalResponseNormalization \<Rightarrow> (nat \<Rightarrow> real) \<Rightarrow> bool \<Rightarrow> 'n OtherLayer LayerType
     \<Rightarrow> Vol option \<times> nat \<Rightarrow> ('n OtherLayer LayerType \<times> Vol option \<times> nat) result" where
  "Layer_forward C rnd is_training (NonLoss (Input L)) (act, k) =
     (let (L, A) = InputLayer_forward L act in Returns (NonLoss (Input L), A, k))"
| "Layer_forward C rnd is_training (Regression L) (act, k) =
     (case act of
        Some V \<Rightarrow> (let (L, A) = RegressionLayer_forward L V in Returns (Regression L, Some A, k))
      | None \<Rightarrow> Returns (Regression (L\<lparr>in_act := None, out_act := None\<rparr>), None, k))"
| "Layer_forward C rnd is_training (SVM L) (act, k) =
     (case act of
        Some V \<Rightarrow> (let (L, A) = SVMLayer_forward L V in Returns (SVM L, Some A, k))
      | None \<Rightarrow> Returns (SVM (L\<lparr>in_act := None, out_act := None\<rparr>), None, k))"
| "Layer_forward C rnd is_training (Softmax L) (act, k) =
     (case act of
        Some V \<Rightarrow>
          (case SoftmaxLayer_forward L V of
             Some (L, A) \<Rightarrow> Returns (Softmax L, Some A, k)
           | None \<Rightarrow> Outside)
      | None \<Rightarrow> Throws TypeError)"
| "Layer_forward C rnd is_training (NonLoss (Relu L)) (act, k) =
     (case act of
        Some V \<Rightarrow> (let (L, A) = ReluLayer_forward L V in Returns (NonLoss (Relu L), A, k))
      | None \<Rightarrow> Throws TypeError)"
| "Layer_forward C rnd is_training (NonLoss (Sigmoid L)) (act, k) =
     (case act of
        Some V \<Rightarrow> (let (L, A) = SigmoidLayer_forward L V in Returns (NonLoss (Sigmoid L), Some A, k))
      | None \<Rightarrow> Throws TypeError)"
| "Layer_forward C rnd is_training (NonLoss (Tanh L)) (act, k) =
     (case act of
        Some V \<Rightarrow> (let (L, A) = TanhLayer_forward L V in Returns (NonLoss (Tanh L), Some A, k))
      | None \<Rightarrow> Throws TypeError)"
| "Layer_forward C rnd is_training (NonLoss (Dropout L)) (act, k) =
     (case act of
        Some V \<Rightarrow>
          (let (L, A) = DropoutLayer_forward L (\<lambda>i. rnd (k + i)) V (Some is_training)
           in Returns (NonLoss (Dropout L), Some A, if is_training then k + length (w V) else k))
      | None \<Rightarrow> Throws TypeError)"
| "Layer_forward C rnd is_training (NonLoss (Maxout L)) (act, k) =
     (case act of
        Some V \<Rightarrow>
          (case MaxoutLayer_forward L V of
             Some (L, A) \<Rightarrow> Returns (NonLoss (Maxout L), Some A, k)
           | None \<Rightarrow> Outside)
      | None \<Rightarrow>
          (if LayerBase.out_sx L = 1 \<and> LayerBase.out_sy L = 1 \<and> \<not> 0 < LayerBase.out_depth L
           then (let V2 = Vol_const (LayerBase.out_sx L) (LayerBase.out_sy L) (LayerBase.out_depth L) 0
                 in Returns (NonLoss (Maxout (L\<lparr>in_act := None, out_act := Some V2\<rparr>)), Some V2, k))
           else Throws TypeError))"
| "Layer_forward C rnd is_training (NonLoss (Pool L)) (act, k) =
     (case act of
        Some V \<Rightarrow> (let (L, A) = PoolLayer_forward L V in Returns (NonLoss (Pool L), Some A, k))
      | None \<Rightarrow>
          (if pool_reads_input L then Throws TypeError
           else (let (L, A) = PoolLayer_forward L (Vol_const 0 0 0 0)
                 in Returns (NonLoss (Pool (L\<lparr>in_act := None\<rparr>)), Some A, k))))"
| "Layer_forward C rnd is_training (NonLoss (Conv L)) (act, k) =
     (case act of
        Some V \<Rightarrow> map_result (\<lambda>(L, A). (NonLoss (Conv L), Some A, k)) (ConvLayer_forward L V)
      | None \<Rightarrow> Throws TypeError)"
| "Layer_forward C rnd is_training (NonLoss (FullyConn L)) (act, k) =
     (case act of
        Some V \<Rightarrow> map_result (\<lambda>(L, A). (NonLoss (FullyConn L), Some A, k)) (FullyConnLayer_forward L V)
      | None \<Rightarrow> Throws TypeError)"
| "Layer_forward C rnd is_training (NonLoss (LRN L)) (act, k) =
     map_result (\<lambda>(L, A). (NonLoss (LRN L), A, k)) (lrn_forward C L act is_training)"

fun Layer_toJSON ::
  "('n, 'sn) LocalResponseNormalization \<Rightarrow> 'n OtherLayer LayerType \<Rightarrow> 'sn SerializedLayerType" where
  "Layer_toJSON C (NonLoss (Input L)) = InputJson (InputLayer_toJSON L)"
| "Layer_toJSON C (NonLoss (Relu L)) = ReluJson (ReluLayer_toJSON L)"
| "Layer_toJSON C (NonLoss (Sigmoid L)) = SigmoidJson (SigmoidLayer_toJSON L)"
| "Layer_toJSON C (NonLoss (Tanh L)) = TanhJson (TanhLayer_toJSON L)"
| "Layer_toJSON C (NonLoss (Dropout L)) = DropoutJson (DropoutLayer_toJSON L)"
| "Layer_toJSON C (NonLoss (Conv L)) = ConvJson (ConvLayer_toJSON L)"
| "Layer_toJSON C (NonLoss (Pool L)) = PoolJson (PoolLayer_toJSON L)"
| "Layer_toJSON C (NonLoss (LRN L)) = LRNJson (lrn_toJSON C L)"
| "Layer_toJSON C (Softmax L) = SoftmaxJson (SoftmaxLayer_toJSON L)"
| "Layer_toJSON C (Regression L) = RegressionJson (RegressionLayer_toJSON L)"
| "Layer_toJSON C (NonLoss (FullyConn L)) = FullyConnJson (FullyConnLayer_toJSON L)"
| "Layer_toJSON C (NonLoss (Maxout L)) = MaxoutJson (MaxoutLayer_toJSON L)"
| "Layer_toJSON C (SVM L) = SVMJson (SVMLayer_toJSON L)"

text \<open>
  One serialized layer of \<^verbatim>\<open>Net.fromJSON\<close>: the tests of the tag \<^verbatim>\<open>layer_type\<close>, each
  followed by \<^verbatim>\<open>new XLayer().fromJSON(layer)\<close>. The model covers the records whose
  tag is the one that the type of the record declares (\<^verbatim>\<open>SerializedLayerBase<'relu'>\<close>
  and so on); a record with another tag is outside the model, and so is a reloaded
  tensor with a weight that is not a number.
\<close>

definition Layer_fromJSON ::
  "('n, 'sn) LocalResponseNormalization \<Rightarrow> 'sn SerializedLayerType \<Rightarrow> 'n OtherLayer LayerType result" where
  "Layer_fromJSON C layer =
     (case layer of
        InputJson j \<Rightarrow>
          if SerializedLayerBase.layer_type j = ''input''
          then Returns (NonLoss (Input (InputLayer_fromJSON j))) else Outside
      | ReluJson j \<Rightarrow>
          if SerializedLayerBase.layer_type j = ''relu''
          then Returns (NonLoss (Relu (ReluLayer_fromJSON j))) else Outside
      | SigmoidJson j \<Rightarrow>
          if SerializedLayerBase.layer_type j = ''sigmoid''
          then Returns (NonLoss (Sigmoid (SigmoidLayer_fromJSON j))) else Outside
      | TanhJson j \<Rightarrow>
          if SerializedLayerBase.layer_type j = ''tanh''
          then Returns (NonLoss (Tanh (TanhLayer_fromJSON j))) else Outside
      | DropoutJson j \<Rightarrow>
          if SerializedLayerBase.layer_type j = ''dropout''
          then Returns (NonLoss (Dropout (DropoutLayer_fromJSON j))) else Outside
      | ConvJson j \<Rightarrow>
          if SerializedLayerBase.layer_type j = ''conv''
          then (case ConvLayer_fromJSON j of Some L \<Rightarrow> Returns (NonLoss (Conv L)) | None \<Rightarrow> Outside)
          else Outside
      | PoolJson j \<Rightarrow>
          if SerializedLayerBase.layer_type j = ''pool''
          then Returns (NonLoss (Pool (PoolLayer_fromJSON j))) else Outside
      | LRNJson j \<Rightarrow>
          if lrn_layer_type C j = ''lrn''
          then Returns (NonLoss (LRN (lrn_fromJSON C j))) else Outside
      | SoftmaxJson j \<Rightarrow>
          if SerializedLayerBase.layer_type j = ''softmax''
          then Returns (Softmax (SoftmaxLayer_fromJSON j)) else Outside
      | RegressionJson j \<Rightarrow>
          if SerializedLayerBase.layer_type j = ''regression''
          then Returns (Regression (RegressionLayer_fromJSON j)) else Outside
      | FullyConnJson j \<Rightarrow>
          if SerializedLayerBase.layer_type j = ''fc''
          then (case FullyConnLayer_fromJSON j of Some L \<Rightarrow> Returns (NonLoss (FullyConn L)) | None \<Rightarrow> Outside)
          else Outside
      | MaxoutJson j \<Rightarrow>
          if SerializedLayerBase.layer_type j = ''maxout''
          then Returns (NonLoss (Maxout (MaxoutLayer_fromJSON j))) else Outside
      | SVMJson j \<Rightarrow>
          if SerializedLayerBase.layer_type j = ''svm''
          then Returns (SVM (SVMLayer_fromJSON j)) else Outside)"

subsection \<open>The network\<close>

record 'n Net =
  layers :: "'n OtherLayer LayerType list"

record 'sn SerializedNet =
  layers :: "'sn SerializedLayerType list option"

text \<open>
  \<^verbatim>\<open>Net.forward\<close>: the first layer takes the input, every further layer the output of
  the layer before it. The state of the loop: the layers already run (with what their
  forward pass stored in them), the activation \<open>act\<close> and the count of the calls of
  \<^verbatim>\<open>Math.random()\<close>. A network without layers throws at \<^verbatim>\<open>this.layers[0].forward\<close>.
\<close>

definition forward_step ::
  "('n, 'sn) LocalResponseNormalization \<Rightarrow> (nat \<Rightarrow> real) \<Rightarrow> bool \<Rightarrow> 'n OtherLayer LayerType
     \<Rightarrow> ('n OtherLayer LayerType list \<times> Vol option \<times> nat) result
     \<Rightarrow> ('n OtherLayer LayerType list \<times> Vol option \<times> nat) result" where
  "forward_step C rnd is_training layer st =
     (case st of
        Returns (ls, act, k) \<Rightarrow>
          map_result (\<lambda>(layer, act, k). (ls @ [layer], act, k))
            (Layer_forward C rnd is_training layer (act, k))
      | _ \<Rightarrow> st)"

definition Net_forward ::
  "('n, 'sn) LocalResponseNormalization \<Rightarrow> 'n Net \<Rightarrow> (nat \<Rightarrow> real) \<Rightarrow> Vol \<Rightarrow> bool option
     \<Rightarrow> ('n Net \<times> Vol option) result" where
  "Net_forward C net rnd V is_training =
     (let is_training = (case is_training of None \<Rightarrow> False | Some b \<Rightarrow> b)
      in case Net.layers net of
           [] \<Rightarrow> Throws TypeError
         | layer0 # rest \<Rightarrow>
             map_result (\<lambda>(ls, act, k). (net\<lparr>Net.layers := ls\<rparr>, act))
               (fold (forward_step C rnd is_training) rest
                  (forward_step C rnd is_training layer0 (Returns ([], Some V, 0)))))"

definition Net_toJSON :: "('n, 'sn) LocalResponseNormalization \<Rightarrow> 'n Net \<Rightarrow> 'sn SerializedNet" where
  "Net_toJSON C net = \<lparr>SerializedNet.layers = Some (map (Layer_toJSON C) (Net.layers net))\<rparr>"

definition fromJSON_step ::
  "('n, 'sn) LocalResponseNormalization \<Rightarrow> 'sn SerializedLayerType
     \<Rightarrow> 'n OtherLayer LayerType list result \<Rightarrow> 'n OtherLayer LayerType list result" where
  \<comment> \<open>The body of the loop of \<^verbatim>\<open>Net.fromJSON\<close>: the layers reloaded so far.\<close>
  "fromJSON_step C layer st =
     (case st of
        Returns ls \<Rightarrow> map_result (\<lambda>L. ls @ [L]) (Layer_fromJSON C layer)
      | _ \<Rightarrow> st)"

definition Net_fromJSON :: "('n, 'sn) LocalResponseNormalization \<Rightarrow> 'sn SerializedNet \<Rightarrow> 'n Net result" where
  \<comment> \<open>A record without the field \<^verbatim>\<open>layers\<close> makes the read of its length throw.\<close>
  "Net_fromJSON C json =
     (case SerializedNet.layers json of
        None \<Rightarrow> Throws TypeError
      | Some js \<Rightarrow>
          map_result (\<lambda>ls. \<lparr>Net.layers = ls\<rparr>) (fold (fromJSON_step C) js (Returns [])))"

section \<open>Reference definitions for the properties\<close>

text \<open>
  The multiclass hinge loss in the words of the specification, for scores \<open>xw\<close> and the
  class \<open>y\<close>, over the classes below \<open>k\<close>. The margin violation of class \<open>i\<close> is
  \<open>x_i - x_y + 1\<close> as the program's arithmetic computes it (rounding \<open>fl\<close>); class \<open>i\<close>
  violates the margin when it is not \<open>y\<close> and that number is positive; the gradient
  is \<open>+1\<close> at each violating class and \<open>-1\<close> at \<open>y\<close> for each of them; the loss
  accumulates the violated margins in the order of the classes.
\<close>

definition margin_violation :: "(real \<Rightarrow> real) \<Rightarrow> real list \<Rightarrow> nat \<Rightarrow> nat \<Rightarrow> real" where
  "margin_violation fl xw y i = fl (fl (- (xw ! y) + xw ! i) + 1)"

definition hinge_violation :: "(real \<Rightarrow> real) \<Rightarrow> real list \<Rightarrow> nat \<Rightarrow> nat \<Rightarrow> bool" where
  "hinge_violation fl xw y i = (i \<noteq> y \<and> margin_violation fl xw y i > 0)"

definition hinge_gradient :: "(real \<Rightarrow> real) \<Rightarrow> real list \<Rightarrow> nat \<Rightarrow> nat \<Rightarrow> real list" where
  "hinge_gradient fl xw y k =
     map (\<lambda>i. if i = y then - real (length (filter (hinge_violation fl xw y) [0 ..< k]))
              else if i < k \<and> hinge_violation fl xw y i then 1 else 0) [0 ..< length xw]"

definition hinge_loss :: "(real \<Rightarrow> real) \<Rightarrow> real list \<Rightarrow> nat \<Rightarrow> nat \<Rightarrow> real" where
  "hinge_loss fl xw y k =
     fold (\<lambda>i loss. fl (loss + margin_violation fl xw y i)) (filter (hinge_violation fl xw y) [0 ..< k]) 0"

definition round_to_grid :: "real \<Rightarrow> real" where
  \<comment> \<open>An example of a rounding: to the nearest multiple of \<open>1/1024\<close>.\<close>
  "round_to_grid x = real_of_int \<lfloor>x * 1024 + 1 / 2\<rfloor> / 1024"

text \<open>
  The desugaring pass in the words of the specification: what it puts in place of
  one specification \<open>d\<close>. A loss specification (softmax, svm, regression) is preceded
  by a fully-connected specification with its number of classes; the specification
  itself follows (for \<open>fc\<close> and \<open>conv\<close> with the default \<open>bias_pref\<close> filled in); then
  the nonlinearity named by its \<open>activation\<close> field, if it is one of the four supported
  ones; then a dropout specification with its \<open>drop_prob\<close>, unless it is a dropout
  specification itself.
\<close>

definition is_loss_spec :: "LayerDef \<Rightarrow> bool" where
  "is_loss_spec d = (field d ''type'' = Str ''softmax'' \<or> field d ''type'' = Str ''svm''
                      \<or> field d ''type'' = Str ''regression'')"

definition fc_spec_for :: "LayerDef \<Rightarrow> LayerDef" where
  "fc_spec_for d = [(''type'', Str ''fc''), (''num_neurons'', field d ''num_classes'')]"

definition with_default_bias_pref :: "LayerDef \<Rightarrow> LayerDef" where
  "with_default_bias_pref d =
     (if (field d ''type'' = Str ''fc'' \<or> field d ''type'' = Str ''conv'') \<and> field d ''bias_pref'' = Undefined
      then assign d ''bias_pref'' (if field d ''activation'' = Str ''relu'' then Num 0.1 else Num 0)
      else d)"

definition nonlinearity_spec_for :: "LayerDef \<Rightarrow> LayerDef list" where
  "nonlinearity_spec_for d =
     (if \<not> has_field ''activation'' d then []
      else if field d ''activation'' = Str ''relu'' then [[(''type'', Str ''relu'')]]
      else if field d ''activation'' = Str ''sigmoid'' then [[(''type'', Str ''sigmoid'')]]
      else if field d ''activation'' = Str ''tanh'' then [[(''type'', Str ''tanh'')]]
      else if field d ''activation'' = Str ''maxout''
      then [[(''type'', Str ''maxout''),
             (''group_size'', if has_field ''group_size'' d then field d ''group_size'' else Num 2)]]
      else [])"

definition dropout_spec_for :: "LayerDef \<Rightarrow> LayerDef list" where
  "dropout_spec_for d =
     (if has_field ''drop_prob'' d \<and> field d ''type'' \<noteq> Str ''dropout''
      then [[(''type'', Str ''dropout''), (''drop_prob'', field d ''drop_prob'')]]
      else [])"

definition desugared_block :: "LayerDef \<Rightarrow> LayerDef list" where
  "desugared_block d =
     (if is_loss_spec d then [fc_spec_for d] else []) @ [with_default_bias_pref d]
       @ nonlinearity_spec_for d @ dropout_spec_for d"


text \<open>
  The cells of the input that a pooling window covers, for the output position
  \<open>(ax, ay)\<close> and the channel \<open>d\<close>: the filter offsets \<open>(fx, fy)\<close> whose input
  coordinates lie inside the input, each with its activation value and its
  coordinates.
\<close>

definition pool_window_cells :: "PoolLayer \<Rightarrow> Vol \<Rightarrow> int \<Rightarrow> int \<Rightarrow> int \<Rightarrow> (real \<times> int \<times> int) list" where
  "pool_window_cells L V ax ay d =
     (let x = - PoolLayer.pad L + PoolLayer.stride L * ax;
          y = - PoolLayer.pad L + PoolLayer.stride L * ay
      in map (\<lambda>(fx, fy). (w V ! nat (Vol_index V (x + int fx) (y + int fy) d), x + int fx, y + int fy))
           (filter (\<lambda>(fx, fy). 0 \<le> x + int fx \<and> x + int fx < Vol.sx V \<and> 0 \<le> y + int fy \<and> y + int fy < Vol.sy V)
              (List.product [0 ..< nat (PoolLayer.sx L)] [0 ..< nat (PoolLayer.sy L)])))"

text \<open>
  The networks that the round trip through \<^verbatim>\<open>toJSON\<close> and \<^verbatim>\<open>fromJSON\<close> is about. The
  tag \<^verbatim>\<open>layer_type\<close> of every layer is the one its class declares and its constructor
  writes (the tag of a normalization layer is a matter of its class), and the tensors of
  weights have the \<open>sx*sy*depth\<close> entries of their dimensions, as the tensors that the
  constructors build.
\<close>

definition Vol_well_formed :: "Vol \<Rightarrow> bool" where
  "Vol_well_formed V = (length (w V) = nat (Vol.sx V * Vol.sy V * depth V))"

fun tagged :: "'n OtherLayer LayerType \<Rightarrow> bool" where
  "tagged (NonLoss (Input L)) = (LayerBase.layer_type L = ''input'')"
| "tagged (NonLoss (Relu L)) = (LayerBase.layer_type L = ''relu'')"
| "tagged (NonLoss (Sigmoid L)) = (LayerBase.layer_type L = ''sigmoid'')"
| "tagged (NonLoss (Tanh L)) = (LayerBase.layer_type L = ''tanh'')"
| "tagged (NonLoss (Dropout L)) = (LayerBase.layer_type L = ''dropout'')"
| "tagged (NonLoss (Conv L)) = (LayerBase.layer_type L = ''conv'')"
| "tagged (NonLoss (Pool L)) = (LayerBase.layer_type L = ''pool'')"
| "tagged (NonLoss (LRN L)) = True"
| "tagged (Softmax L) = (LayerBase.layer_type L = ''softmax'')"
| "tagged (Regression L) = (LayerBase.layer_type L = ''regression'')"
| "tagged (NonLoss (FullyConn L)) = (LayerBase.layer_type L = ''fc'')"
| "tagged (NonLoss (Maxout L)) = (LayerBase.layer_type L = ''maxout'')"
| "tagged (SVM L) = (LayerBase.layer_type L = ''svm'')"

fun weights_well_formed :: "'n OtherLayer LayerType \<Rightarrow> bool" where
  "weights_well_formed (NonLoss (Conv L)) =
     (list_all Vol_well_formed (ConvLayer.filters L) \<and> Vol_well_formed (ConvLayer.biases L))"
| "weights_well_formed (NonLoss (FullyConn L)) =
     (list_all Vol_well_formed (FullyConnLayer.filters L) \<and> Vol_well_formed (FullyConnLayer.biases L))"
| "weights_well_formed _ = True"


section \<open>Properties\<close>

subsection \<open>Arrays\<close>

lemma length_zeros [simp]: "length (zeros n) = nat n"
  by (simp add: zeros_def)

lemma length_wr [simp]: "length (wr a i v) = length a"
  by (simp add: wr_def)

lemma rd_in_range: "0 \<le> i \<Longrightarrow> i < int (length a) \<Longrightarrow> rd a i = Some (a ! nat i)"
  by (simp add: rd_def)

lemma rd_nat [simp]: "rd a (int i) = (if i < length a then Some (a ! i) else None)"
  by (simp add: rd_def)

lemma wr_nat [simp]: "wr a (int i) v = a[i := v]"
  by (simp add: wr_def list_update_beyond)

subsection \<open>Relu\<close>

text \<open>
  Claim C1 says that \<^verbatim>\<open>ReluLayer.forward\<close> returns a tensor of the dimensions of its
  input whose every element is \<open>max(0, V.w[i])\<close>. The code does not do that: the
  return statement stands inside the loop, so only element 0 is thresholded, every
  other element is passed through as it is, and an empty input returns
  \<^verbatim>\<open>undefined\<close>. The theorem states what the code computes, and evaluates it on the
  input \<open>[1, -2]\<close>, whose second element stays \<open>-2\<close> instead of becoming \<open>0\<close>.
\<close>

theorem ReluLayer_forward_thresholds_first_element_only:
  "snd (ReluLayer_forward L V) =
     (case w V of [] \<Rightarrow> None | v # vs \<Rightarrow> Some (V\<lparr>w := max 0 v # vs\<rparr>)) \<and>
   snd (ReluLayer_forward L \<lparr>Vol.sx = 1, Vol.sy = 1, depth = 2, w = [1, -2], dw = [0, 0]\<rparr>) =
     Some \<lparr>Vol.sx = 1, Vol.sy = 1, depth = 2, w = [1, -2], dw = [0, 0]\<rparr> \<and>
   map (max 0) [1, -2 :: real] = [1, 0]"
proof -
  have "snd (ReluLayer_forward L V) =
     (case w V of [] \<Rightarrow> None | v # vs \<Rightarrow> Some (V\<lparr>w := max 0 v # vs\<rparr>))"
    by (cases "w V")
       (auto simp: ReluLayer_forward_def relu_loop_def clone_def Let_def rd_def wr_def max_def
             intro!: Vol.equality)
  moreover have "snd (ReluLayer_forward L \<lparr>Vol.sx = 1, Vol.sy = 1, depth = 2, w = [1, -2], dw = [0, 0]\<rparr>) =
     Some \<lparr>Vol.sx = 1, Vol.sy = 1, depth = 2, w = [1, -2], dw = [0, 0]\<rparr>"
    by (simp add: ReluLayer_forward_def relu_loop_def clone_def Let_def rd_def wr_def)
  ultimately show ?thesis by simp
qed

subsection \<open>Dropout in inference mode\<close>

lemma dropout_test_loop_scales:
  "n \<le> length (w V2) \<Longrightarrow>
   dropout_test_loop L n V2 =
     V2\<lparr>w := map (\<lambda>v. v * DropoutLayer.drop_prob L) (take n (w V2)) @ drop n (w V2)\<rparr>"
proof (induction n)
  case 0
  then show ?case by (simp add: dropout_test_loop_def)
next
  case (Suc n)
  then have n: "n < length (w V2)" by simp
  have "(map (\<lambda>v. v * DropoutLayer.drop_prob L) (take n (w V2)) @ drop n (w V2))
            [n := w V2 ! n * DropoutLayer.drop_prob L]
      = map (\<lambda>v. v * DropoutLayer.drop_prob L) (take (Suc n) (w V2)) @ drop (Suc n) (w V2)"
    using n by (simp add: take_Suc_conv_app_nth list_update_append Cons_nth_drop_Suc [symmetric])
  with Suc n show ?case
    by (simp add: dropout_test_loop_def nth_append)
qed

lemma DropoutLayer_forward_inference:
  "is_training \<noteq> Some True \<Longrightarrow>
   DropoutLayer_forward L rnd V is_training =
    (L\<lparr>in_act := Some V, out_act := Some (V\<lparr>w := map (\<lambda>v. v * DropoutLayer.drop_prob L) (w V)\<rparr>)\<rparr>,
     V\<lparr>w := map (\<lambda>v. v * DropoutLayer.drop_prob L) (w V)\<rparr>)"
  by (cases is_training)
     (simp_all add: DropoutLayer_forward_def Let_def dropout_test_loop_scales clone_def)

lemma DropoutLayer_forward_drop_prob:
  "DropoutLayer.drop_prob (fst (DropoutLayer_forward L rnd V is_training)) = DropoutLayer.drop_prob L"
  by (simp add: DropoutLayer_forward_def Let_def split_def)

text \<open>
  Claim C7. In inference mode (\<open>is_training\<close> false or absent)
  \<^verbatim>\<open>DropoutLayer.forward\<close> is a function of the input and of the layer's \<open>drop_prob\<close>
  alone: whatever the random source \<open>rnd\<close>, \<open>rnd'\<close> would return, the output tensor
  and the new state of the layer are the same; the output is the input with every
  element multiplied by \<open>drop_prob\<close>, the dimensions are those of the input, and the
  mask of dropped units is not touched. The call changes nothing of the layer but
  \<^verbatim>\<open>in_act\<close> and \<^verbatim>\<open>out_act\<close>, and no forward call, in either mode, changes
  \<open>drop_prob\<close>. So a second inference call on the layer the first call has left
  returns the same output again, and so does an inference call after a training call
  on any other input.
\<close>

theorem DropoutLayer_forward_inference_deterministic:
  "DropoutLayer_forward L rnd V (Some False) = DropoutLayer_forward L rnd' V (Some False) \<and>
   DropoutLayer_forward L rnd V None = DropoutLayer_forward L rnd' V None \<and>
   DropoutLayer_forward L rnd V None = DropoutLayer_forward L rnd V (Some False) \<and>
   w (snd (DropoutLayer_forward L rnd V (Some False))) = map (\<lambda>v. v * DropoutLayer.drop_prob L) (w V) \<and>
   Vol.sx (snd (DropoutLayer_forward L rnd V (Some False))) = Vol.sx V \<and>
   Vol.sy (snd (DropoutLayer_forward L rnd V (Some False))) = Vol.sy V \<and>
   depth (snd (DropoutLayer_forward L rnd V (Some False))) = depth V \<and>
   dropped (fst (DropoutLayer_forward L rnd V (Some False))) = dropped L \<and>
   out_act (fst (DropoutLayer_forward L rnd V (Some False))) =
     Some (snd (DropoutLayer_forward L rnd V (Some False))) \<and>
   snd (DropoutLayer_forward L rnd V (Some False)) =
     V\<lparr>w := map (\<lambda>v. v * DropoutLayer.drop_prob L) (w V)\<rparr> \<and>
   fst (DropoutLayer_forward L rnd V (Some False)) =
     L\<lparr>in_act := Some V, out_act := Some (V\<lparr>w := map (\<lambda>v. v * DropoutLayer.drop_prob L) (w V)\<rparr>)\<rparr> \<and>
   DropoutLayer.drop_prob (fst (DropoutLayer_forward L rnd V is_training)) = DropoutLayer.drop_prob L \<and>
   DropoutLayer_forward (fst (DropoutLayer_forward L rnd V (Some False))) rnd' V (Some False) =
     DropoutLayer_forward L rnd V (Some False) \<and>
   snd (DropoutLayer_forward (fst (DropoutLayer_forward L rnd V' is_training)) rnd' V (Some False)) =
     snd (DropoutLayer_forward L rnd V (Some False)) \<and>
   snd (DropoutLayer_forward (fst (DropoutLayer_forward L rnd V' is_training)) rnd' V None) =
     snd (DropoutLayer_forward L rnd V (Some False))"
  by (simp add: DropoutLayer_forward_inference DropoutLayer_forward_drop_prob)

subsection \<open>Switch and mask arrays after construction and after reloading\<close>

lemma PoolLayer_new_switches:
  "PoolLayer_new opt = Some L \<Longrightarrow>
   switchx L = replicate (nat (LayerBase.out_sx L * LayerBase.out_sy L * LayerBase.out_depth L)) 0 \<and>
   switchy L = replicate (nat (LayerBase.out_sx L * LayerBase.out_sy L * LayerBase.out_depth L)) 0"
  by (auto simp: PoolLayer_new_def Let_def zeros_def split: if_splits)

lemma PoolLayer_fromJSON_switches:
  "L = PoolLayer_fromJSON json \<Longrightarrow>
   switchx L = replicate (nat (LayerBase.out_sx L * LayerBase.out_sy L * LayerBase.out_depth L)) 0 \<and>
   switchy L = replicate (nat (LayerBase.out_sx L * LayerBase.out_sy L * LayerBase.out_depth L)) 0"
  by (simp add: PoolLayer_fromJSON_def Let_def zeros_def)

lemma DropoutLayer_new_dropped:
  "L = DropoutLayer_new opt \<Longrightarrow>
   dropped L = replicate (nat (LayerBase.out_sx L * LayerBase.out_sy L * LayerBase.out_depth L)) False"
  by (simp add: DropoutLayer_new_def Let_def zeros_def)

lemma DropoutLayer_fromJSON_dropped:
  "L = DropoutLayer_fromJSON json \<Longrightarrow>
   dropped L = replicate (nat (LayerBase.out_sx L * LayerBase.out_sy L * LayerBase.out_depth L)) False"
  by (simp add: DropoutLayer_fromJSON_def Let_def zeros_def)

lemma MaxoutLayer_new_switches:
  "MaxoutLayer_new opt = Some L \<Longrightarrow>
   switches L = replicate (nat (LayerBase.out_sx L * LayerBase.out_sy L * LayerBase.out_depth L)) 0"
  by (auto simp: MaxoutLayer_new_def Let_def zeros_def split: if_splits)

lemma MaxoutLayer_fromJSON_switches:
  "switches (MaxoutLayer_fromJSON json) = replicate (nat (SerializedMaxout.group_size json)) 0"
  by (simp add: MaxoutLayer_fromJSON_def Let_def zeros_def)

text \<open>
  Claim C8 says that every switch or mask array has length \<open>out_sx*out_sy*out_depth\<close>
  and is zero-filled after construction and after \<^verbatim>\<open>fromJSON\<close>. The lemmas above show
  it for pooling and dropout, and for maxout after construction. After
  \<^verbatim>\<open>MaxoutLayer.fromJSON\<close> the array has \<open>group_size\<close> entries instead. The theorem
  evaluates the code on a maxout layer with a \<open>1 \<times> 1 \<times> 6\<close> input and groups of 2: the
  constructed layer has \<open>out_sx*out_sy*out_depth = 3\<close> and 3 switches, the layer
  reloaded from its own JSON has 2.
\<close>

theorem MaxoutLayer_fromJSON_switches_length:
  "map_option
     (\<lambda>L. (LayerBase.out_sx L * LayerBase.out_sy L * LayerBase.out_depth L,
           switches L,
           LayerBase.out_sx (MaxoutLayer_fromJSON (MaxoutLayer_toJSON L)) *
             LayerBase.out_sy (MaxoutLayer_fromJSON (MaxoutLayer_toJSON L)) *
             LayerBase.out_depth (MaxoutLayer_fromJSON (MaxoutLayer_toJSON L)),
           switches (MaxoutLayer_fromJSON (MaxoutLayer_toJSON L))))
     (MaxoutLayer_new \<lparr>type = ''maxout'', LayerOptionsBase.in_sx = 1, LayerOptionsBase.in_sy = 1,
                       LayerOptionsBase.in_depth = 6, MaxoutOptions.group_size = Some 2\<rparr>)
   = Some (3, [0, 0, 0], 3, [0, 0])"
  by (simp add: MaxoutLayer_new_def MaxoutLayer_toJSON_def MaxoutLayer_fromJSON_def Let_def
        zeros_def numeral_3_eq_3 numeral_2_eq_2)

subsection \<open>Output size of convolution and pooling\<close>

lemma floor_quotient_plus_one:
  "\<lfloor>real_of_int a / real_of_int s + 1\<rfloor> = a div s + 1"
  by (simp add: floor_divide_of_int_eq)

text \<open>
  Claim C3. For every convolution and pooling configuration the constructor returns a
  layer exactly when the stride is not zero, and the output size of that layer on each
  spatial axis is \<open>floor((in_size + 2*pad - filter_size)/stride + 1)\<close>, where an absent
  \<open>sy\<close> defaults to \<open>sx\<close>, an absent pad to 0 and an absent stride to 1 (convolution)
  or 2 (pooling). For \<open>in_sx = 5\<close>, \<open>sx = 3\<close>, \<open>stride = 1\<close> the size is 3 with
  \<open>pad = 0\<close> and 5 with \<open>pad = 1\<close>, for both layers and whatever the other options are.
\<close>

theorem conv_pool_output_size:
  "map_option (\<lambda>C. (LayerBase.out_sx C, LayerBase.out_sy C, ConvLayer.sx C, ConvLayer.sy C,
                      ConvLayer.stride C, ConvLayer.pad C))
     (ConvLayer_new copt rnd) =
     (let in_x = LayerOptionsBase.in_sx copt; in_y = LayerOptionsBase.in_sy copt;
          fx = ConvOptions.sx copt;
          fy = (case ConvOptions.sy copt of Some v \<Rightarrow> v | None \<Rightarrow> fx);
          s = (case ConvOptions.stride copt of Some v \<Rightarrow> v | None \<Rightarrow> 1);
          p = (case ConvOptions.pad copt of Some v \<Rightarrow> v | None \<Rightarrow> 0)
      in if s = 0 then None
         else Some (\<lfloor>real_of_int (in_x + 2 * p - fx) / real_of_int s + 1\<rfloor>,
                    \<lfloor>real_of_int (in_y + 2 * p - fy) / real_of_int s + 1\<rfloor>, fx, fy, s, p)) \<and>
   map_option (\<lambda>P. (LayerBase.out_sx P, LayerBase.out_sy P, PoolLayer.sx P, PoolLayer.sy P,
                      PoolLayer.stride P, PoolLayer.pad P))
     (PoolLayer_new popt) =
     (let in_x = LayerOptionsBase.in_sx popt; in_y = LayerOptionsBase.in_sy popt;
          fx = PoolOptions.sx popt;
          fy = (case PoolOptions.sy popt of Some v \<Rightarrow> v | None \<Rightarrow> fx);
          s = (case PoolOptions.stride popt of Some v \<Rightarrow> v | None \<Rightarrow> 2);
          p = (case PoolOptions.pad popt of Some v \<Rightarrow> v | None \<Rightarrow> 0)
      in if s = 0 then None
         else Some (\<lfloor>real_of_int (in_x + 2 * p - fx) / real_of_int s + 1\<rfloor>,
                    \<lfloor>real_of_int (in_y + 2 * p - fy) / real_of_int s + 1\<rfloor>, fx, fy, s, p)) \<and>
   map_option LayerBase.out_sx
     (ConvLayer_new (copt\<lparr>LayerOptionsBase.in_sx := 5, ConvOptions.sx := 3,
                           ConvOptions.stride := Some 1, ConvOptions.pad := Some 0\<rparr>) rnd) = Some 3 \<and>
   map_option LayerBase.out_sx
     (ConvLayer_new (copt\<lparr>LayerOptionsBase.in_sx := 5, ConvOptions.sx := 3,
                           ConvOptions.stride := Some 1, ConvOptions.pad := Some 1\<rparr>) rnd) = Some 5 \<and>
   map_option LayerBase.out_sx
     (PoolLayer_new (popt\<lparr>LayerOptionsBase.in_sx := 5, PoolOptions.sx := 3,
                           PoolOptions.stride := Some 1, PoolOptions.pad := Some 0\<rparr>)) = Some 3 \<and>
   map_option LayerBase.out_sx
     (PoolLayer_new (popt\<lparr>LayerOptionsBase.in_sx := 5, PoolOptions.sx := 3,
                           PoolOptions.stride := Some 1, PoolOptions.pad := Some 1\<rparr>)) = Some 5"
  by (simp add: ConvLayer_new_def PoolLayer_new_def Let_def mult.commute)

theorem conv_pool_output_size_witness:
  "map_option (\<lambda>C. (LayerBase.out_sx C, LayerBase.out_sy C)) (ConvLayer_new
      \<lparr>type = ''conv'', LayerOptionsBase.in_sx = 7, LayerOptionsBase.in_sy = 6,
       LayerOptionsBase.in_depth = 1, ConvOptions.filters = 1, ConvOptions.sx = 3,
       ConvOptions.sy = None, ConvOptions.stride = Some 2, ConvOptions.pad = None,
       bias_pref = None, ConvOptions.l1_decay_mul = None, ConvOptions.l2_decay_mul = None\<rparr>
      (\<lambda>i j. 0)) = Some (3, 2) \<and>
   map_option (\<lambda>P. (LayerBase.out_sx P, LayerBase.out_sy P)) (PoolLayer_new
      \<lparr>type = ''pool'', LayerOptionsBase.in_sx = 7, LayerOptionsBase.in_sy = 6,
       LayerOptionsBase.in_depth = 1, PoolOptions.sx = 2, PoolOptions.sy = None,
       PoolOptions.stride = None, PoolOptions.pad = Some 1\<rparr>) = Some (4, 4)"
proof -
  let ?co = "\<lparr>type = ''conv'', LayerOptionsBase.in_sx = 7, LayerOptionsBase.in_sy = 6,
       LayerOptionsBase.in_depth = 1, ConvOptions.filters = 1, ConvOptions.sx = 3,
       ConvOptions.sy = None, ConvOptions.stride = Some 2, ConvOptions.pad = None,
       bias_pref = None, ConvOptions.l1_decay_mul = None, ConvOptions.l2_decay_mul = None\<rparr>"
  let ?po = "\<lparr>type = ''pool'', LayerOptionsBase.in_sx = 7, LayerOptionsBase.in_sy = 6,
       LayerOptionsBase.in_depth = 1, PoolOptions.sx = 2, PoolOptions.sy = None,
       PoolOptions.stride = None, PoolOptions.pad = Some 1\<rparr>"
  have f: "\<lfloor>(4::real) / 2 + 1\<rfloor> = 3" "\<lfloor>(3::real) / 2 + 1\<rfloor> = 2"
          "\<lfloor>(7::real) / 2 + 1\<rfloor> = 4" "\<lfloor>(6::real) / 2 + 1\<rfloor> = 4"
    by (simp_all add: floor_eq_iff)
  have c: "map_option (\<lambda>C. (LayerBase.out_sx C, LayerBase.out_sy C, ConvLayer.sx C, ConvLayer.sy C,
                      ConvLayer.stride C, ConvLayer.pad C)) (ConvLayer_new ?co (\<lambda>i j. 0))
           = Some (3, 2, 3, 3, 2, 0)"
    using conv_pool_output_size [of ?co "\<lambda>i j. 0" ?po, THEN conjunct1] f by simp
  have p: "map_option (\<lambda>P. (LayerBase.out_sx P, LayerBase.out_sy P, PoolLayer.sx P, PoolLayer.sy P,
                      PoolLayer.stride P, PoolLayer.pad P)) (PoolLayer_new ?po)
           = Some (4, 4, 2, 2, 2, 1)"
    using conv_pool_output_size [of ?co "\<lambda>i j. 0" ?po, THEN conjunct2, THEN conjunct1] f by simp
  from c obtain C where "ConvLayer_new ?co (\<lambda>i j. 0) = Some C" "LayerBase.out_sx C = 3" "LayerBase.out_sy C = 2"
    by auto
  moreover from p obtain P where "PoolLayer_new ?po = Some P" "LayerBase.out_sx P = 4" "LayerBase.out_sy P = 4"
    by auto
  ultimately show ?thesis by simp
qed

subsection \<open>The hinge loss of the SVM layer\<close>

lemma svm_step_in_range:
  assumes "y < length xw" "k < length xw" "length xdw = length xw"
  shows "svm_step fl xw (int y) k (xdw, loss) =
     (if hinge_violation fl xw y k
      then (xdw[k := fl (xdw ! k + 1), y := fl (xdw[k := fl (xdw ! k + 1)] ! y - 1)],
            fl (loss + margin_violation fl xw y k))
      else (xdw, loss))"
  using assms by (auto simp: svm_step_def hinge_violation_def margin_violation_def Let_def)

lemma hinge_loss_Suc:
  "hinge_loss fl xw y (Suc k) =
     (if hinge_violation fl xw y k then fl (hinge_loss fl xw y k + margin_violation fl xw y k)
      else hinge_loss fl xw y k)"
  by (simp add: hinge_loss_def)

lemma svm_fold_prefix:
  assumes y: "y < length xw" and k: "k \<le> length xw"
      and exact: "\<forall>z::int. \<bar>z\<bar> \<le> 2 ^ 53 \<longrightarrow> fl (real_of_int z) = real_of_int z"
      and len: "length xw \<le> 2 ^ 53"
  shows "fold (svm_step fl xw (int y)) [0 ..< k] (replicate (length xw) 0, 0)
         = (hinge_gradient fl xw y k, hinge_loss fl xw y k)"
  using k
proof (induction k)
  case 0
  then show ?case
    by (auto simp: hinge_gradient_def hinge_loss_def intro!: nth_equalityI)
next
  case (Suc k)
  then have k: "k < length xw" by simp
  have lg: "length (hinge_gradient fl xw y k) = length xw"
    by (simp add: hinge_gradient_def)
  show ?case
  proof (cases "hinge_violation fl xw y k")
    case False
    then have "hinge_gradient fl xw y (Suc k) = hinge_gradient fl xw y k"
      by (auto simp: hinge_gradient_def less_Suc_eq)
    then show ?thesis
      using Suc k y False by (simp add: svm_step_in_range lg hinge_loss_Suc)
  next
    case True
    then have ky: "k \<noteq> y" by (simp add: hinge_violation_def)
    let ?c = "length (filter (hinge_violation fl xw y) [0 ..< k])"
    have c: "?c \<le> k" by (metis diff_zero length_filter_le length_upt)
    have one: "fl 1 = 1"
      using exact [rule_format, of 1] by simp
    have "int ?c + 1 \<le> 2 ^ 53"
    proof -
      have "?c + 1 \<le> length xw" using c k by simp
      then have "?c + 1 \<le> 2 ^ 53" using len by simp
      then have "int (?c + 1) \<le> int (2 ^ 53)" by (simp only: of_nat_le_iff)
      then show ?thesis by simp
    qed
    then have "\<bar>- (int ?c + 1)\<bar> \<le> 2 ^ 53" by simp
    then have "fl (real_of_int (- (int ?c + 1))) = real_of_int (- (int ?c + 1))"
      using exact by blast
    then have dec: "fl (- real ?c - 1) = - real ?c - 1" by simp
    have gk: "hinge_gradient fl xw y k ! k = 0" "hinge_gradient fl xw y k ! y = - real ?c"
      using k y ky by (simp_all add: hinge_gradient_def)
    have "(hinge_gradient fl xw y k)[k := fl (hinge_gradient fl xw y k ! k + 1),
             y := fl ((hinge_gradient fl xw y k)[k := fl (hinge_gradient fl xw y k ! k + 1)] ! y - 1)]
          = hinge_gradient fl xw y (Suc k)"
    proof -
      have "(hinge_gradient fl xw y k)[k := fl (hinge_gradient fl xw y k ! k + 1)] ! y = - real ?c"
        using ky gk by simp
      then have "(hinge_gradient fl xw y k)[k := fl (hinge_gradient fl xw y k ! k + 1),
             y := fl ((hinge_gradient fl xw y k)[k := fl (hinge_gradient fl xw y k ! k + 1)] ! y - 1)]
          = (hinge_gradient fl xw y k)[k := 1, y := - real ?c - 1]"
        using gk one dec by simp
      also have "\<dots> = hinge_gradient fl xw y (Suc k)"
        using True ky k y
        by (auto simp: hinge_gradient_def less_Suc_eq nth_list_update intro!: nth_equalityI)
      finally show ?thesis .
    qed
    then show ?thesis
      using Suc k y True by (simp add: svm_step_in_range lg hinge_loss_Suc)
  qed
qed

lemma margin_satisfied_no_violation:
  assumes mono: "mono fl"
      and exact: "\<forall>z::int. \<bar>z\<bar> \<le> 2 ^ 53 \<longrightarrow> fl (real_of_int z) = real_of_int z"
      and sat: "xw ! i - xw ! y + 1 \<le> 0"
  shows "\<not> hinge_violation fl xw y i"
proof -
  have m1: "fl (- 1) = - 1" using exact [rule_format, of "- 1"] by simp
  have z: "fl 0 = 0" using exact [rule_format, of 0] by simp
  have "- (xw ! y) + xw ! i \<le> - 1" using sat by simp
  then have "fl (- (xw ! y) + xw ! i) \<le> fl (- 1)" by (rule monoD [OF mono])
  then have "fl (- (xw ! y) + xw ! i) + 1 \<le> 0" using m1 by simp
  then have "fl (fl (- (xw ! y) + xw ! i) + 1) \<le> fl 0" by (rule monoD [OF mono])
  then show ?thesis using z by (simp add: hinge_violation_def margin_violation_def)
qed

text \<open>
  Claim C6. The arithmetic is the program's: \<open>fl\<close> is any rounding that is monotone
  and exact on the integers up to \<open>2^53\<close>, as rounding to the nearest binary64 number
  is. For a class index \<open>y\<close> in range (and an input of the layer's size, of at most
  \<open>2^53\<close> classes), \<^verbatim>\<open>SVMLayer.backward\<close> leaves as input gradient \<open>+1\<close> at every
  class \<open>i \<noteq> y\<close> whose computed margin violation \<open>x_i - x_y + 1\<close> is positive, minus
  the number of these violations at \<open>y\<close>, and zero elsewhere, and returns the violated
  margins accumulated in the order of the classes. When the margin is satisfied for
  every other class (\<open>x_i - x_y + 1 \<le> 0\<close>, in exact terms), the loss is zero and the
  whole gradient is zero.
\<close>

theorem SVMLayer_backward_hinge:
  assumes "in_act L = Some x" and "LayerBase.out_depth L = int (length (w x))"
      and "0 \<le> y" and "y < LayerBase.out_depth L"
      and "mono fl"
      and "\<forall>z::int. \<bar>z\<bar> \<le> 2 ^ 53 \<longrightarrow> fl (real_of_int z) = real_of_int z"
      and "length (w x) \<le> 2 ^ 53"
  shows "SVMLayer_backward fl L y =
           Returns (L\<lparr>in_act := Some (x\<lparr>dw := hinge_gradient fl (w x) (nat y) (length (w x))\<rparr>)\<rparr>,
                    Fin (hinge_loss fl (w x) (nat y) (length (w x)))) \<and>
         ((\<forall>i < length (w x). i \<noteq> nat y \<longrightarrow> w x ! i - w x ! nat y + 1 \<le> 0) \<longrightarrow>
           SVMLayer_backward fl L y =
             Returns (L\<lparr>in_act := Some (x\<lparr>dw := replicate (length (w x)) 0\<rparr>)\<rparr>, Fin 0))"
proof -
  have y: "nat y < length (w x)" "int (nat y) = y"
    using assms by simp_all
  have "svm_loop fl L (w x) y (replicate (length (w x)) 0, 0) =
          (hinge_gradient fl (w x) (nat y) (length (w x)), hinge_loss fl (w x) (nat y) (length (w x)))"
    using svm_fold_prefix [OF y(1) order_refl assms(6,7)] assms(2) y(2) by (simp add: svm_loop_def)
  then have main: "SVMLayer_backward fl L y =
           Returns (L\<lparr>in_act := Some (x\<lparr>dw := hinge_gradient fl (w x) (nat y) (length (w x))\<rparr>)\<rparr>,
                    Fin (hinge_loss fl (w x) (nat y) (length (w x))))"
    using assms(1) by (simp add: SVMLayer_backward_def Let_def zeros_def)
  have "hinge_gradient fl (w x) (nat y) (length (w x)) = replicate (length (w x)) 0 \<and>
        hinge_loss fl (w x) (nat y) (length (w x)) = 0"
    if sat: "\<forall>i < length (w x). i \<noteq> nat y \<longrightarrow> w x ! i - w x ! nat y + 1 \<le> 0"
  proof -
    have nv: "\<not> hinge_violation fl (w x) (nat y) i" if "i < length (w x)" for i
    proof (cases "i = nat y")
      case True
      then show ?thesis by (simp add: hinge_violation_def)
    next
      case False
      then show ?thesis
        using sat that margin_satisfied_no_violation [OF assms(5,6)] by blast
    qed
    then have f: "filter (hinge_violation fl (w x) (nat y)) [0 ..< length (w x)] = []"
      by (auto simp: filter_empty_conv)
    have "hinge_gradient fl (w x) (nat y) (length (w x)) = replicate (length (w x)) 0"
      using nv f by (auto simp: hinge_gradient_def intro!: nth_equalityI)
    moreover have "hinge_loss fl (w x) (nat y) (length (w x)) = 0"
      using f by (simp add: hinge_loss_def)
    ultimately show ?thesis by simp
  qed
  with main show ?thesis by simp
qed


text \<open>
  The example rounding, to multiples of \<open>1/1024\<close>, meets both conditions. With it, the
  scores \<open>[1, 1/4096]\<close> have no violation, although the exact margin \<open>1/4096\<close> is
  positive: the first sum rounds to \<open>-1\<close>.
\<close>

lemma round_to_grid_mono: "mono round_to_grid"
proof (rule monoI)
  fix x y :: real assume "x \<le> y"
  then have "\<lfloor>x * 1024 + 1 / 2\<rfloor> \<le> \<lfloor>y * 1024 + 1 / 2\<rfloor>"
    by (intro floor_mono) simp
  then show "round_to_grid x \<le> round_to_grid y"
    by (simp add: round_to_grid_def divide_right_mono)
qed

lemma round_to_grid_int: "round_to_grid (real_of_int z) = real_of_int z"
proof -
  have "\<lfloor>real_of_int z * 1024 + 1 / 2\<rfloor> = z * 1024"
    by (simp add: floor_eq_iff)
  then show ?thesis by (simp add: round_to_grid_def)
qed

lemma round_to_grid_values:
  "round_to_grid (- 1) = - 1" "round_to_grid 0 = 0" "round_to_grid 1 = 1" "round_to_grid 2 = 2"
  "round_to_grid (- (1 / 2)) = - (1 / 2)" "round_to_grid (1 / 2) = 1 / 2"
  "round_to_grid (5 / 2) = 5 / 2" "round_to_grid (- (4095 / 4096)) = - 1"
  by (simp_all add: round_to_grid_def floor_eq_iff)

theorem SVMLayer_backward_hinge_witness:
  "SVMLayer_backward round_to_grid
     \<lparr>LayerBase.layer_type = ''svm'', out_sx = 1, out_sy = 1, out_depth = 3,
      in_act = Some \<lparr>Vol.sx = 1, Vol.sy = 1, depth = 3, w = [3, 1, 1/2], dw = [7, 7, 7]\<rparr>,
      out_act = None, SVMLayer.num_inputs = 3\<rparr> 0
   = Returns (\<lparr>LayerBase.layer_type = ''svm'', out_sx = 1, out_sy = 1, out_depth = 3,
      in_act = Some \<lparr>Vol.sx = 1, Vol.sy = 1, depth = 3, w = [3, 1, 1/2], dw = [0, 0, 0]\<rparr>,
      out_act = None, SVMLayer.num_inputs = 3\<rparr>, Fin 0) \<and>
   SVMLayer_backward round_to_grid
     \<lparr>LayerBase.layer_type = ''svm'', out_sx = 1, out_sy = 1, out_depth = 3,
      in_act = Some \<lparr>Vol.sx = 1, Vol.sy = 1, depth = 3, w = [1, 2, 1/2], dw = [7, 7, 7]\<rparr>,
      out_act = None, SVMLayer.num_inputs = 3\<rparr> 0
   = Returns (\<lparr>LayerBase.layer_type = ''svm'', out_sx = 1, out_sy = 1, out_depth = 3,
      in_act = Some \<lparr>Vol.sx = 1, Vol.sy = 1, depth = 3, w = [1, 2, 1/2], dw = [-2, 1, 1]\<rparr>,
      out_act = None, SVMLayer.num_inputs = 3\<rparr>, Fin (5/2)) \<and>
   SVMLayer_backward round_to_grid
     \<lparr>LayerBase.layer_type = ''svm'', out_sx = 1, out_sy = 1, out_depth = 2,
      in_act = Some \<lparr>Vol.sx = 1, Vol.sy = 1, depth = 2, w = [1, 1/4096], dw = [7, 7]\<rparr>,
      out_act = None, SVMLayer.num_inputs = 2\<rparr> 0
   = Returns (\<lparr>LayerBase.layer_type = ''svm'', out_sx = 1, out_sy = 1, out_depth = 2,
      in_act = Some \<lparr>Vol.sx = 1, Vol.sy = 1, depth = 2, w = [1, 1/4096], dw = [0, 0]\<rparr>,
      out_act = None, SVMLayer.num_inputs = 2\<rparr>, Fin 0)"
proof -
  let ?x = "\<lparr>Vol.sx = 1, Vol.sy = 1, depth = 3, w = [3, 1, 1/2 :: real], dw = [7, 7, 7]\<rparr>"
  let ?L = "\<lparr>LayerBase.layer_type = ''svm'', out_sx = 1, out_sy = 1, out_depth = 3,
      in_act = Some ?x, out_act = None, SVMLayer.num_inputs = 3\<rparr>"
  let ?x2 = "\<lparr>Vol.sx = 1, Vol.sy = 1, depth = 3, w = [1, 2, 1/2 :: real], dw = [7, 7, 7]\<rparr>"
  let ?L2 = "\<lparr>LayerBase.layer_type = ''svm'', out_sx = 1, out_sy = 1, out_depth = 3,
      in_act = Some ?x2, out_act = None, SVMLayer.num_inputs = 3\<rparr>"
  let ?x3 = "\<lparr>Vol.sx = 1, Vol.sy = 1, depth = 2, w = [1, 1/4096 :: real], dw = [7, 7]\<rparr>"
  let ?L3 = "\<lparr>LayerBase.layer_type = ''svm'', out_sx = 1, out_sy = 1, out_depth = 2,
      in_act = Some ?x3, out_act = None, SVMLayer.num_inputs = 2\<rparr>"
  have ex: "\<forall>z::int. \<bar>z\<bar> \<le> 2 ^ 53 \<longrightarrow> round_to_grid (real_of_int z) = real_of_int z"
    by (simp add: round_to_grid_int)
  have h: "in_act ?L = Some ?x" "LayerBase.out_depth ?L = int (length (w ?x))"
          "(0::int) \<le> 0" "0 < LayerBase.out_depth ?L"
    by simp_all
  have h2: "in_act ?L2 = Some ?x2" "LayerBase.out_depth ?L2 = int (length (w ?x2))"
          "(0::int) \<le> 0" "0 < LayerBase.out_depth ?L2"
    by simp_all
  have h3: "in_act ?L3 = Some ?x3" "LayerBase.out_depth ?L3 = int (length (w ?x3))"
          "(0::int) \<le> 0" "0 < LayerBase.out_depth ?L3"
    by simp_all
  have l: "length (w ?x) \<le> 2 ^ 53" "length (w ?x2) \<le> 2 ^ 53" "length (w ?x3) \<le> 2 ^ 53"
    by simp_all
  have nov: "\<forall>i < length (w ?x). i \<noteq> nat 0 \<longrightarrow> w ?x ! i - w ?x ! nat 0 + 1 \<le> 0"
    by (simp add: less_Suc_eq numeral_3_eq_3)
  have a: "SVMLayer_backward round_to_grid ?L 0 =
             Returns (?L\<lparr>in_act := Some (?x\<lparr>dw := replicate (length (w ?x)) 0\<rparr>)\<rparr>, Fin 0)"
    using SVMLayer_backward_hinge [OF h round_to_grid_mono ex l(1), THEN conjunct2] nov by (rule mp)
  have u: "[0 ..< 3] = [0, 1, 2]" "[0 ..< 2] = [0, 1]" by (simp_all add: upt_rec)
  have b: "SVMLayer_backward round_to_grid ?L2 0 =
           Returns (?L2\<lparr>in_act := Some (?x2\<lparr>dw := hinge_gradient round_to_grid (w ?x2) (nat 0) (length (w ?x2))\<rparr>)\<rparr>,
                    Fin (hinge_loss round_to_grid (w ?x2) (nat 0) (length (w ?x2))))"
    using SVMLayer_backward_hinge [OF h2 round_to_grid_mono ex l(2), THEN conjunct1] .
  have c: "SVMLayer_backward round_to_grid ?L3 0 =
           Returns (?L3\<lparr>in_act := Some (?x3\<lparr>dw := hinge_gradient round_to_grid (w ?x3) (nat 0) (length (w ?x3))\<rparr>)\<rparr>,
                    Fin (hinge_loss round_to_grid (w ?x3) (nat 0) (length (w ?x3))))"
    using SVMLayer_backward_hinge [OF h3 round_to_grid_mono ex l(3), THEN conjunct1] .
  have m2: "margin_violation round_to_grid [1, 2, 1 / 2] 0 (Suc 0) = 2"
           "margin_violation round_to_grid [1, 2, 1 / 2] 0 (Suc (Suc 0)) = 1 / 2"
    by (simp_all add: margin_violation_def round_to_grid_values)
  have m3: "margin_violation round_to_grid [1, 1 / 4096] 0 (Suc 0) = 0"
    by (simp add: margin_violation_def round_to_grid_values)
  have g: "hinge_gradient round_to_grid (w ?x2) (nat 0) (length (w ?x2)) = [-2, 1, 1]"
    by (simp add: hinge_gradient_def hinge_violation_def u m2)
  have lo: "hinge_loss round_to_grid (w ?x2) (nat 0) (length (w ?x2)) = 5/2"
    by (simp add: hinge_loss_def hinge_violation_def u m2 round_to_grid_values)
  have g3: "hinge_gradient round_to_grid (w ?x3) (nat 0) (length (w ?x3)) = [0, 0]"
    by (simp add: hinge_gradient_def hinge_violation_def u m3)
  have l3: "hinge_loss round_to_grid (w ?x3) (nat 0) (length (w ?x3)) = 0"
    by (simp add: hinge_loss_def hinge_violation_def u m3)
  have r: "replicate (length (w ?x)) (0::real) = [0, 0, 0]"
    by (simp add: numeral_3_eq_3)
  show ?thesis
    unfolding a b c g lo g3 l3 r by simp
qed


subsection \<open>The backward pass of the softmax layer\<close>

lemma softmax_grads_prefix:
  assumes "k \<le> length p" "length p \<le> length xdw"
  shows "fold (softmax_grad_step p y) [0 ..< k] (Some xdw)
         = Some (map (\<lambda>i. p ! i - (if int i = y then 1 else 0)) [0 ..< k] @ drop k xdw)"
  using assms
proof (induction k)
  case 0
  then show ?case by simp
next
  case (Suc k)
  then have k: "k < length p" "k < length xdw" by simp_all
  have "(map (\<lambda>i. p ! i - (if int i = y then 1 else 0)) [0 ..< k] @ drop k xdw)[k := p ! k - (if int k = y then 1 else 0)]
       = map (\<lambda>i. p ! i - (if int i = y then 1 else 0)) [0 ..< Suc k] @ drop (Suc k) xdw"
    using k by (simp add: list_update_append Cons_nth_drop_Suc [symmetric])
  with Suc k show ?case
    by (simp add: softmax_grad_step_def Let_def)
qed

lemma SoftmaxLayer_backward_value:
  assumes "in_act L = Some x" and "es L = Some p" and "length (w x) = length p"
      and "LayerBase.out_depth L = int (length p)"
  shows "SoftmaxLayer_backward L y =
           Returns (L\<lparr>in_act := Some (x\<lparr>dw := map (\<lambda>i. p ! i - (if int i = y then 1 else 0)) [0 ..< length p]\<rparr>)\<rparr>,
                    if 0 \<le> y \<and> y < LayerBase.out_depth L
                    then (if 0 < p ! nat y then Fin (- ln (p ! nat y))
                          else if p ! nat y = 0 then PosInfinity else NaN)
                    else NaN)"
proof -
  have "softmax_grads L p y (zeros (int (length (w x)))) =
          Some (map (\<lambda>i. p ! i - (if int i = y then 1 else 0)) [0 ..< length p])"
    using softmax_grads_prefix [of "length p" p "zeros (int (length (w x)))" y] assms(3,4)
    by (simp add: softmax_grads_def)
  then show ?thesis
    using assms by (auto simp: SoftmaxLayer_backward_def Let_def rd_def Math_log_def negate_def)
qed

lemma softmax_gradient_out_of_range:
  "y < 0 \<or> int (length p) \<le> y \<Longrightarrow>
   map (\<lambda>i. p ! i - (if int i = y then 1 else 0)) [0 ..< length p] = (p :: real list)"
  by (auto intro!: nth_equalityI)

lemma smartBackward_Softmax_integer:
  "smartBackward fl bw (TNumber (real_of_int z)) (Softmax L) =
     map_result (\<lambda>(L, loss). (Softmax L, or_zero loss)) (SoftmaxLayer_backward L z)"
  by (simp add: smartBackward_def is_integer_def)

text \<open>
  Claim C2, as amended. After a forward pass (the cached probabilities \<open>p\<close> are as many
  as the classes and as the inputs), \<^verbatim>\<open>SoftmaxLayer.backward\<close> returns for every
  integer \<open>y\<close>, and never throws. It sets the input gradient at \<open>i\<close> to
  \<open>p_i - 1{i = y}\<close>. For \<open>y\<close> in range it returns \<open>-log(p_y)\<close> (infinite for
  \<open>p_y = 0\<close>); for \<open>y\<close> out of range, whether above (\<open>out_depth + k\<close>) or below
  (\<open>-1 - k\<close>), it returns NaN, the gradient is \<open>p\<close> itself, and \<^verbatim>\<open>smartBackward\<close>
  turns the NaN into the loss 0.
\<close>

theorem SoftmaxLayer_backward_never_throws:
  assumes "in_act L = Some x" and "es L = Some p" and "length (w x) = length p"
      and "LayerBase.out_depth L = int (length p)"
  shows "SoftmaxLayer_backward L y =
           Returns (L\<lparr>in_act := Some (x\<lparr>dw := map (\<lambda>i. p ! i - (if int i = y then 1 else 0)) [0 ..< length p]\<rparr>)\<rparr>,
                    if 0 \<le> y \<and> y < LayerBase.out_depth L
                    then (if 0 < p ! nat y then Fin (- ln (p ! nat y))
                          else if p ! nat y = 0 then PosInfinity else NaN)
                    else NaN) \<and>
         SoftmaxLayer_backward L (LayerBase.out_depth L + int k) =
           Returns (L\<lparr>in_act := Some (x\<lparr>dw := p\<rparr>)\<rparr>, NaN) \<and>
         SoftmaxLayer_backward L (- 1 - int k) =
           Returns (L\<lparr>in_act := Some (x\<lparr>dw := p\<rparr>)\<rparr>, NaN) \<and>
         smartBackward fl bw (TNumber (real_of_int (LayerBase.out_depth L + int k))) (Softmax L) =
           Returns (Softmax (L\<lparr>in_act := Some (x\<lparr>dw := p\<rparr>)\<rparr>), Fin 0) \<and>
         smartBackward fl bw (TNumber (real_of_int (- 1 - int k))) (Softmax L) =
           Returns (Softmax (L\<lparr>in_act := Some (x\<lparr>dw := p\<rparr>)\<rparr>), Fin 0)"
proof -
  note v = SoftmaxLayer_backward_value [OF assms]
  have hi: "SoftmaxLayer_backward L (LayerBase.out_depth L + int k) =
           Returns (L\<lparr>in_act := Some (x\<lparr>dw := p\<rparr>)\<rparr>, NaN)"
    using v [of "LayerBase.out_depth L + int k"] assms(4)
      softmax_gradient_out_of_range [of "LayerBase.out_depth L + int k" p]
    by simp
  have lo: "SoftmaxLayer_backward L (- 1 - int k) =
           Returns (L\<lparr>in_act := Some (x\<lparr>dw := p\<rparr>)\<rparr>, NaN)"
    using v [of "- 1 - int k"] softmax_gradient_out_of_range [of "- 1 - int k" p]
    by simp
  have "smartBackward fl bw (TNumber (real_of_int (LayerBase.out_depth L + int k))) (Softmax L) =
           Returns (Softmax (L\<lparr>in_act := Some (x\<lparr>dw := p\<rparr>)\<rparr>), Fin 0)"
    unfolding smartBackward_Softmax_integer hi by (simp add: map_result_def or_zero_def)
  moreover have "smartBackward fl bw (TNumber (real_of_int (- 1 - int k))) (Softmax L) =
           Returns (Softmax (L\<lparr>in_act := Some (x\<lparr>dw := p\<rparr>)\<rparr>), Fin 0)"
    unfolding smartBackward_Softmax_integer lo by (simp add: map_result_def or_zero_def)
  ultimately show ?thesis
    using v [of y] hi lo by blast
qed

theorem SoftmaxLayer_backward_never_throws_witness:
  "SoftmaxLayer_backward
     \<lparr>LayerBase.layer_type = ''softmax'', out_sx = 1, out_sy = 1, out_depth = 2,
      in_act = Some \<lparr>Vol.sx = 1, Vol.sy = 1, depth = 2, w = [0, 0], dw = [0, 0]\<rparr>,
      out_act = Some \<lparr>Vol.sx = 1, Vol.sy = 1, depth = 2, w = [1/2, 1/2], dw = [0, 0]\<rparr>,
      SoftmaxLayer.num_inputs = 2, es = Some [1/2, 1/2]\<rparr> 1
   = Returns (\<lparr>LayerBase.layer_type = ''softmax'', out_sx = 1, out_sy = 1, out_depth = 2,
      in_act = Some \<lparr>Vol.sx = 1, Vol.sy = 1, depth = 2, w = [0, 0], dw = [1/2, - 1/2]\<rparr>,
      out_act = Some \<lparr>Vol.sx = 1, Vol.sy = 1, depth = 2, w = [1/2, 1/2], dw = [0, 0]\<rparr>,
      SoftmaxLayer.num_inputs = 2, es = Some [1/2, 1/2]\<rparr>, Fin (ln 2)) \<and>
   SoftmaxLayer_backward
     \<lparr>LayerBase.layer_type = ''softmax'', out_sx = 1, out_sy = 1, out_depth = 2,
      in_act = Some \<lparr>Vol.sx = 1, Vol.sy = 1, depth = 2, w = [0, 0], dw = [0, 0]\<rparr>,
      out_act = Some \<lparr>Vol.sx = 1, Vol.sy = 1, depth = 2, w = [1/2, 1/2], dw = [0, 0]\<rparr>,
      SoftmaxLayer.num_inputs = 2, es = Some [1/2, 1/2]\<rparr> 2
   = Returns (\<lparr>LayerBase.layer_type = ''softmax'', out_sx = 1, out_sy = 1, out_depth = 2,
      in_act = Some \<lparr>Vol.sx = 1, Vol.sy = 1, depth = 2, w = [0, 0], dw = [1/2, 1/2]\<rparr>,
      out_act = Some \<lparr>Vol.sx = 1, Vol.sy = 1, depth = 2, w = [1/2, 1/2], dw = [0, 0]\<rparr>,
      SoftmaxLayer.num_inputs = 2, es = Some [1/2, 1/2]\<rparr>, NaN)"
proof -
  let ?x = "\<lparr>Vol.sx = 1, Vol.sy = 1, depth = 2, w = [0, 0 :: real], dw = [0, 0 :: real]\<rparr>"
  let ?L = "\<lparr>LayerBase.layer_type = ''softmax'', out_sx = 1, out_sy = 1, out_depth = 2,
      in_act = Some ?x,
      out_act = Some \<lparr>Vol.sx = 1, Vol.sy = 1, depth = 2, w = [1/2, 1/2], dw = [0, 0]\<rparr>,
      SoftmaxLayer.num_inputs = 2, es = Some [1/2, 1/2]\<rparr>"
  have h: "in_act ?L = Some ?x" "es ?L = Some [1/2, 1/2]" "length (w ?x) = length [1/2, 1/2 :: real]"
          "LayerBase.out_depth ?L = int (length [1/2, 1/2 :: real])"
    by simp_all
  have u: "[0 ..< 2] = [0, 1]" by (simp add: upt_rec)
  have l: "- ln (1 / 2 :: real) = ln 2" by (simp add: ln_div)
  note t = SoftmaxLayer_backward_never_throws [OF h]
  have a: "SoftmaxLayer_backward ?L 1 = Returns (?L\<lparr>in_act := Some (?x\<lparr>dw := [1/2, - 1/2]\<rparr>)\<rparr>, Fin (ln 2))"
    using t [of 1 0, THEN conjunct1] u l by (simp add: numeral_2_eq_2)
  have b: "SoftmaxLayer_backward ?L 2 = Returns (?L\<lparr>in_act := Some (?x\<lparr>dw := [1/2, 1/2]\<rparr>)\<rparr>, NaN)"
    using t [of 0 0, THEN conjunct2, THEN conjunct1] by simp
  show ?thesis
    unfolding a b by simp
qed

text \<open>
  The claim as stated fails on this run: a softmax layer over two classes, after the
  forward pass on the scores \<open>[0, 0]\<close> (probabilities \<open>[1/2, 1/2]\<close>), is asked for the
  gradient of class 2. \<^verbatim>\<open>SoftmaxLayer.backward\<close> returns NaN, and \<^verbatim>\<open>smartBackward\<close>
  returns 0; neither throws.
\<close>

theorem SoftmaxLayer_backward_out_of_range_counterexample: "map_option
     (\<lambda>(L, A). (w A, map_result snd (SoftmaxLayer_backward L 2),
                map_result snd (smartBackward (\<lambda>r. r) (Returns :: unit \<Rightarrow> unit result) (TNumber 2) (Softmax L))))
     (SoftmaxLayer_forward
        (SoftmaxLayer_new \<lparr>type = ''softmax'', LayerOptionsBase.in_sx = 1, LayerOptionsBase.in_sy = 1,
                           LayerOptionsBase.in_depth = 2, num_classes = 2\<rparr>)
        \<lparr>Vol.sx = 1, Vol.sy = 1, depth = 2, w = [0, 0], dw = [0, 0]\<rparr>)
   = Some ([1/2, 1/2], Returns NaN, Returns (Fin 0))"
  by (simp add: SoftmaxLayer_forward_def SoftmaxLayer_new_def softmax_amax_def softmax_exps_def
      softmax_normalize_def Vol_const_def Let_def upt_rec js_gt_def rd_def wr_def zeros_def
      numeral_2_eq_2 SoftmaxLayer_backward_def softmax_grads_def softmax_grad_step_def Math_log_def negate_def
      map_result_def smartBackward_def is_integer_def or_zero_def)


subsection \<open>Desugaring of layer specifications\<close>

lemma map_of_assign: "map_of (assign d k v) = (map_of d)(k \<mapsto> v)"
  by (induction d) (auto simp: fun_eq_iff)

lemma field_assign: "field (assign d k v) k' = (if k' = k then v else field d k')"
  by (simp add: field_def map_of_assign)

lemma has_field_assign: "has_field k' (assign d k v) = (k' = k \<or> has_field k' d)"
  by (simp add: has_field_def map_of_assign)

lemma assign_assign: "assign (assign d k v) k v' = assign d k v'"
  by (induction d) auto

lemma field_with_default_bias_pref:
  "k \<noteq> ''bias_pref'' \<Longrightarrow> field (with_default_bias_pref d) k = field d k"
  by (simp add: with_default_bias_pref_def field_assign)

lemma has_field_with_default_bias_pref:
  "k \<noteq> ''bias_pref'' \<Longrightarrow> has_field k (with_default_bias_pref d) = has_field k d"
  by (simp add: with_default_bias_pref_def has_field_assign)

lemma nonlinearity_spec_for_bias_pref:
  "nonlinearity_spec_for (with_default_bias_pref d) = nonlinearity_spec_for d"
  unfolding nonlinearity_spec_for_def
  by (simp only: field_with_default_bias_pref has_field_with_default_bias_pref list.inject char.inject simp_thms)

lemma dropout_spec_for_bias_pref:
  "dropout_spec_for (with_default_bias_pref d) = dropout_spec_for d"
  unfolding dropout_spec_for_def
  by (simp add: field_with_default_bias_pref has_field_with_default_bias_pref)

lemma desugar_step_bias_pref:
  "(if field d ''type'' = Str ''fc'' \<or> field d ''type'' = Str ''conv''
             then (if field d ''bias_pref'' = Undefined
                   then (let def = assign d ''bias_pref'' (Num 0)
                         in if field def ''activation'' \<noteq> Undefined \<and> field def ''activation'' = Str ''relu''
                            then assign def ''bias_pref'' (Num 0.1)
                            else def)
                   else d)
             else d) = with_default_bias_pref d"
proof (cases "field d ''activation'' = Str ''relu''")
  case True
  then show ?thesis
    by (simp add: with_default_bias_pref_def Let_def field_assign assign_assign)
next
  case False
  then show ?thesis
    by (simp add: with_default_bias_pref_def Let_def field_assign assign_assign)
qed

lemma desugar_step_loss:
  "(if field d ''type'' = Str ''softmax'' \<or> field d ''type'' = Str ''svm''
                \<or> field d ''type'' = Str ''regression''
             then nd @ [[(''type'', Str ''fc''), (''num_neurons'', field d ''num_classes'')]]
             else nd) = nd @ (if is_loss_spec d then [fc_spec_for d] else [])"
  by (simp add: is_loss_spec_def fc_spec_for_def)

lemma desugar_step_activation:
  "(if has_field ''activation'' d
             then (if field d ''activation'' = Str ''relu'' then nd @ [[(''type'', Str ''relu'')]]
                   else if field d ''activation'' = Str ''sigmoid'' then nd @ [[(''type'', Str ''sigmoid'')]]
                   else if field d ''activation'' = Str ''tanh'' then nd @ [[(''type'', Str ''tanh'')]]
                   else if field d ''activation'' = Str ''maxout''
                   then (let gs = (if has_field ''group_size'' d then field d ''group_size'' else Num 2)
                         in nd @ [[(''type'', Str ''maxout''), (''group_size'', gs)]])
                   else nd)
             else nd) = nd @ nonlinearity_spec_for d"
  by (simp add: nonlinearity_spec_for_def Let_def)

lemma desugar_step_dropout:
  "(if has_field ''drop_prob'' d \<and> field d ''type'' \<noteq> Str ''dropout''
             then nd @ [[(''type'', Str ''dropout''), (''drop_prob'', field d ''drop_prob'')]]
             else nd) = nd @ dropout_spec_for d"
  by (simp add: dropout_spec_for_def)

lemma desugar_step_block: "desugar_step d acc = acc @ desugared_block d"
proof -
  have "desugar_step d acc =
          (acc @ (if is_loss_spec d then [fc_spec_for d] else [])) @ [with_default_bias_pref d]
            @ nonlinearity_spec_for (with_default_bias_pref d)
            @ dropout_spec_for (with_default_bias_pref d)"
    unfolding desugar_step_def desugar_step_bias_pref desugar_step_loss
    unfolding Let_def desugar_step_activation [unfolded Let_def] desugar_step_dropout
    by (simp only: append_assoc)
  then show ?thesis
    by (simp add: desugared_block_def nonlinearity_spec_for_bias_pref dropout_spec_for_bias_pref)
qed

lemma fold_desugar_step: "fold desugar_step defs acc = acc @ concat (map desugared_block defs)"
  by (induction defs arbitrary: acc) (simp_all add: desugar_step_block)


text \<open>
  Claim C4, as amended. The desugaring pass replaces every specification, in order, by
  its block: the fully-connected specification with \<open>num_neurons\<close> equal to the
  declared \<open>num_classes\<close> before a loss specification, the specification itself, the
  nonlinearity specification for a supported \<open>activation\<close> field, and last the dropout
  specification with the same \<open>drop_prob\<close> for a non-dropout specification carrying
  a \<open>drop_prob\<close> field. The dropout specification therefore follows the nonlinearity
  specification when there is one, and its owner only otherwise.
  \<^verbatim>\<open>Net.makeLayers\<close> runs the pass on the lists it accepts: at least two
  specifications, the first of type \<open>input\<close>.
\<close>

theorem desugar_blocks:
  "desugar defs = concat (map desugared_block defs) \<and>
   makeLayers_desugar defs =
     (if 2 \<le> length defs \<and> field (defs ! 0) ''type'' = Str ''input''
      then Inr (concat (map desugared_block defs))
      else if 2 \<le> length defs
      then Inl (AssertionFailed ''Error! First layer must be the input layer, to declare size of inputs'')
      else Inl (AssertionFailed ''Error! At least one input layer and one loss layer are required.'')) \<and>
   desugared_block d =
     (if is_loss_spec d then [fc_spec_for d] else []) @ [with_default_bias_pref d]
       @ nonlinearity_spec_for d @ dropout_spec_for d \<and>
   field (fc_spec_for d) ''type'' = Str ''fc'' \<and>
   field (fc_spec_for d) ''num_neurons'' = field d ''num_classes'' \<and>
   map (\<lambda>a. field a ''type'') (nonlinearity_spec_for d) =
     (if has_field ''activation'' d \<and>
         field d ''activation'' \<in> {Str ''relu'', Str ''sigmoid'', Str ''tanh'', Str ''maxout''}
      then [field d ''activation''] else []) \<and>
   map (\<lambda>a. (field a ''type'', field a ''drop_prob'')) (dropout_spec_for d) =
     (if has_field ''drop_prob'' d \<and> field d ''type'' \<noteq> Str ''dropout''
      then [(Str ''dropout'', field d ''drop_prob'')] else [])"
proof -
  have 1: "desugar defs = concat (map desugared_block defs)"
    by (simp add: desugar_def fold_desugar_step)
  have 2: "field (fc_spec_for d) ''type'' = Str ''fc''"
          "field (fc_spec_for d) ''num_neurons'' = field d ''num_classes''"
    by (simp_all add: fc_spec_for_def field_def)
  have 3: "map (\<lambda>a. field a ''type'') (nonlinearity_spec_for d) =
     (if has_field ''activation'' d \<and>
         field d ''activation'' \<in> {Str ''relu'', Str ''sigmoid'', Str ''tanh'', Str ''maxout''}
      then [field d ''activation''] else [])"
    by (simp add: nonlinearity_spec_for_def field_def)
  have 4: "map (\<lambda>a. (field a ''type'', field a ''drop_prob'')) (dropout_spec_for d) =
     (if has_field ''drop_prob'' d \<and> field d ''type'' \<noteq> Str ''dropout''
      then [(Str ''dropout'', field d ''drop_prob'')] else [])"
    by (simp add: dropout_spec_for_def field_def)
  show ?thesis
    unfolding makeLayers_desugar_def 1 2 3 4
    by (simp add: desugared_block_def)
qed

text \<open>
  The claim as stated, with the dropout specification immediately after its owner,
  fails on a fully-connected specification that carries both an activation and a
  \<open>drop_prob\<close>: the specification after it is the relu one, the dropout one comes
  third.
\<close>

theorem desugar_dropout_after_activation_counterexample:
  "desugar
     [[(''type'', Str ''input''), (''out_sx'', Num 1), (''out_sy'', Num 1), (''out_depth'', Num 2)],
      [(''type'', Str ''fc''), (''num_neurons'', Num 4), (''activation'', Str ''relu''), (''drop_prob'', Num 0.5)],
      [(''type'', Str ''softmax''), (''num_classes'', Num 2)]]
   = [[(''type'', Str ''input''), (''out_sx'', Num 1), (''out_sy'', Num 1), (''out_depth'', Num 2)],
      [(''type'', Str ''fc''), (''num_neurons'', Num 4), (''activation'', Str ''relu''), (''drop_prob'', Num 0.5),
       (''bias_pref'', Num 0.1)],
      [(''type'', Str ''relu'')],
      [(''type'', Str ''dropout''), (''drop_prob'', Num 0.5)],
      [(''type'', Str ''fc''), (''num_neurons'', Num 2)],
      [(''type'', Str ''softmax''), (''num_classes'', Num 2)]]"
  by (simp add: desugar_def desugar_step_def Let_def field_def has_field_def)


subsection \<open>Max pooling and its sentinel\<close>

lemma fold_product:
  "fold (\<lambda>a. fold (f a) ys) xs s = fold (\<lambda>(a, b). f a b) (List.product xs ys) s"
  by (induction xs arbitrary: s) (simp_all add: fold_map comp_def)

lemma fold_product3:
  "fold (\<lambda>d. fold (\<lambda>a. fold (f d a) ys) xs) ds s =
   fold (\<lambda>(d, a, b). f d a b) (List.product ds (List.product xs ys)) s"
proof -
  have "(\<lambda>d. fold (\<lambda>a. fold (f d a) ys) xs) = (\<lambda>d. fold (\<lambda>(a, b). f d a b) (List.product xs ys))"
    by (simp add: fold_product fun_eq_iff)
  then show ?thesis
    by (simp add: fold_product split_def)
qed

lemma fold_filter:
  "fold f (filter P xs) s = fold (\<lambda>x s. if P x then f x s else s) xs s"
  by (induction xs arbitrary: s) simp_all

lemma Vol_index_in_range:
  assumes "0 \<le> x" "x < Vol.sx V" "0 \<le> y" "y < Vol.sy V" "0 \<le> d" "d < depth V"
  shows "0 \<le> Vol_index V x y d \<and> Vol_index V x y d < Vol.sx V * Vol.sy V * depth V"
proof -
  have a: "Vol.sx V * y + x \<le> Vol.sx V * Vol.sy V - 1"
  proof -
    have "Vol.sx V * y \<le> Vol.sx V * (Vol.sy V - 1)"
      using assms by (intro mult_left_mono) auto
    then show ?thesis using assms by (simp add: algebra_simps)
  qed
  have b: "0 \<le> Vol.sx V * y + x" using assms by simp
  have "(Vol.sx V * y + x) * depth V \<le> (Vol.sx V * Vol.sy V - 1) * depth V"
    using a assms by (intro mult_right_mono) auto
  then have "(Vol.sx V * y + x) * depth V + d < Vol.sx V * Vol.sy V * depth V"
    using assms by (simp add: algebra_simps)
  moreover have "0 \<le> (Vol.sx V * y + x) * depth V + d"
    using b assms by simp
  ultimately show ?thesis by (simp add: Vol_index_def)
qed

lemma Vol_index_inj:
  assumes "0 \<le> x" "x < Vol.sx V" "0 \<le> d" "d < depth V"
      and "0 \<le> x'" "x' < Vol.sx V" "0 \<le> d'" "d' < depth V"
      and "Vol_index V x y d = Vol_index V x' y' d'"
  shows "x = x' \<and> y = y' \<and> d = d'"
proof -
  let ?D = "depth V" and ?X = "Vol.sx V"
  have e: "(?X * y + x) * ?D + d = (?X * y' + x') * ?D + d'"
    using assms(9) by (simp add: Vol_index_def)
  have "((?X * y + x) * ?D + d) mod ?D = d" "((?X * y' + x') * ?D + d') mod ?D = d'"
    using assms by simp_all
  with e have d: "d = d'" by metis
  have "((?X * y + x) * ?D + d) div ?D = ?X * y + x" "((?X * y' + x') * ?D + d') div ?D = ?X * y' + x'"
    using assms by simp_all
  with e have f: "?X * y + x = ?X * y' + x'" by metis
  have "(?X * y + x) mod ?X = x" "(?X * y' + x') mod ?X = x'"
    using assms by simp_all
  with f have x: "x = x'" by metis
  have "(?X * y + x) div ?X = y" "(?X * y' + x') div ?X = y'"
    using assms by simp_all
  with f have "y = y'" by metis
  with d x show ?thesis by simp
qed


lemma running_max:
  fixes cs :: "(real \<times> 'p) list"
  shows "fst (fold (\<lambda>c st. if fst c > fst st then c else st) cs st0) = Max (insert (fst st0) (fst ` set cs)) \<and>
         (if \<exists>c \<in> set cs. fst c > fst st0
          then fold (\<lambda>c st. if fst c > fst st then c else st) cs st0 \<in> set cs
          else fold (\<lambda>c st. if fst c > fst st then c else st) cs st0 = st0)"
proof (induction cs arbitrary: st0)
  case Nil
  then show ?case by simp
next
  case (Cons c cs)
  let ?st1 = "if fst c > fst st0 then c else st0"
  have m: "Max (insert (fst ?st1) (fst ` set cs)) = Max (insert (fst st0) (fst ` set (c # cs)))"
  proof -
    have "insert (fst st0) (fst ` set (c # cs)) = insert (fst st0) (insert (fst c) (fst ` set cs))"
      by simp
    moreover have "Max (insert (fst st0) (insert (fst c) (fst ` set cs)))
                 = max (fst st0) (Max (insert (fst c) (fst ` set cs)))"
      by (rule Max_insert) simp_all
    moreover have "Max (insert (fst ?st1) (fst ` set cs)) = max (fst st0) (Max (insert (fst c) (fst ` set cs)))"
    proof (cases "cs = []")
      case True
      then show ?thesis by (simp add: max_def)
    next
      case False
      then show ?thesis by (auto simp: max_def)
    qed
    ultimately show ?thesis by simp
  qed
  show ?case
    using Cons.IH [of ?st1] m
    by (auto split: if_splits)
qed

lemma pool_window_step_cell:
  assumes "length (w V) = nat (Vol.sx V * Vol.sy V * depth V)" "0 \<le> d" "d < depth V"
  shows "pool_window_step V x y d fx fy st =
           (if 0 \<le> x + int fx \<and> x + int fx < Vol.sx V \<and> 0 \<le> y + int fy \<and> y + int fy < Vol.sy V
            then (if fst (w V ! nat (Vol_index V (x + int fx) (y + int fy) d), x + int fx, y + int fy) > fst st
                  then (w V ! nat (Vol_index V (x + int fx) (y + int fy) d), x + int fx, y + int fy)
                  else st)
            else st)"
proof (cases "0 \<le> x + int fx \<and> x + int fx < Vol.sx V \<and> 0 \<le> y + int fy \<and> y + int fy < Vol.sy V")
  case True
  then have "0 \<le> Vol_index V (x + int fx) (y + int fy) d \<and>
             Vol_index V (x + int fx) (y + int fy) d < Vol.sx V * Vol.sy V * depth V"
    using assms by (intro Vol_index_in_range) auto
  then have "Vol_get V (x + int fx) (y + int fy) d = Some (w V ! nat (Vol_index V (x + int fx) (y + int fy) d))"
    using assms(1) by (simp add: Vol_get_def rd_def)
  then show ?thesis
    using True by (cases st) (simp add: pool_window_step_def Let_def)
next
  case False
  then show ?thesis
    by (cases st) (auto simp: pool_window_step_def Let_def)
qed

lemma pool_window_cells_fold:
  assumes "length (w V) = nat (Vol.sx V * Vol.sy V * depth V)" "0 \<le> d" "d < depth V"
  shows "pool_window L V (- PoolLayer.pad L + PoolLayer.stride L * ax) (- PoolLayer.pad L + PoolLayer.stride L * ay) d =
           fold (\<lambda>c st. if fst c > fst st then c else st) (pool_window_cells L V ax ay d) (-99999, -1, -1)"
  unfolding pool_window_def pool_window_cells_def Let_def fold_product fold_map fold_filter
  by (rule arg_cong [where f = "\<lambda>f. fold f _ _"])
     (auto simp: fun_eq_iff pool_window_step_cell [OF assms])


lemma Vol_set_fields [simp]:
  "Vol.sx (Vol_set A x y d v) = Vol.sx A" "Vol.sy (Vol_set A x y d v) = Vol.sy A"
  "depth (Vol_set A x y d v) = depth A" "length (w (Vol_set A x y d v)) = length (w A)"
  "dw (Vol_set A x y d v) = dw A"
  by (simp_all add: Vol_set_def)

lemma Vol_index_cong: "Vol.sx A = Vol.sx B \<Longrightarrow> depth A = depth B \<Longrightarrow> Vol_index A = Vol_index B"
  by (simp add: Vol_index_def fun_eq_iff)

lemma pool_loops_invariant:
  fixes ps :: "(nat \<times> nat \<times> nat) list" and L :: PoolLayer and V A :: Vol
  defines "win \<equiv> \<lambda>(d, ax, ay). pool_window L V (- PoolLayer.pad L + PoolLayer.stride L * int ax)
                                   (- PoolLayer.pad L + PoolLayer.stride L * int ay) (int d)"
      and "idx \<equiv> \<lambda>(d, ax, ay). Vol_index A (int ax) (int ay) (int d)"
  assumes "fold (\<lambda>(d, ax, ay). pool_forward_step L V d ax ay) ps (A, swx, swy, n) = (A', swx', swy', n')"
      and "0 \<le> n"
  shows "n' = n + int (length ps) \<and> length swx' = length swx \<and> length swy' = length swy \<and>
         Vol.sx A' = Vol.sx A \<and> Vol.sy A' = Vol.sy A \<and> depth A' = depth A \<and>
         length (w A') = length (w A) \<and> dw A' = dw A \<and>
         (\<forall>j < length ps. n + int j < int (length swx) \<longrightarrow>
             swx' ! nat (n + int j) = fst (snd (win (ps ! j)))) \<and>
         (\<forall>j < length ps. n + int j < int (length swy) \<longrightarrow>
             swy' ! nat (n + int j) = snd (snd (win (ps ! j)))) \<and>
         (\<forall>j < length ps. (\<forall>j' < length ps. j < j' \<longrightarrow> idx (ps ! j') \<noteq> idx (ps ! j)) \<and>
             0 \<le> idx (ps ! j) \<and> idx (ps ! j) < int (length (w A)) \<longrightarrow>
             w A' ! nat (idx (ps ! j)) = fst (win (ps ! j)))"
  using assms(3)
proof (induction ps arbitrary: A' swx' swy' n' rule: rev_induct)
  case Nil
  then show ?case by simp
next
  case (snoc p ps)
  obtain A1 sx1 sy1 n1 where
    f: "fold (\<lambda>(d, ax, ay). pool_forward_step L V d ax ay) ps (A, swx, swy, n) = (A1, sx1, sy1, n1)"
    by (metis prod_cases4)
  note ih = snoc.IH [OF f]
  obtain d ax ay where p: "p = (d, ax, ay)" by (metis prod_cases3)
  obtain a wx wy where wn: "win p = (a, wx, wy)" by (metis prod_cases3)
  have "pool_forward_step L V d ax ay (A1, sx1, sy1, n1) = (A', swx', swy', n')"
    using snoc.prems f p by simp
  then have st: "A' = Vol_set A1 (int ax) (int ay) (int d) a" "swx' = wr sx1 n1 wx" "swy' = wr sy1 n1 wy"
           "n' = n1 + 1"
    using p wn by (simp_all add: pool_forward_step_def Let_def win_def)
  have n1: "n1 = n + int (length ps)" using ih by simp
  have ix: "Vol_index A1 = Vol_index A" using ih by (intro Vol_index_cong) simp_all
  have A'w: "w A' = wr (w A1) (idx p) a"
    using st(1) ix p by (simp add: Vol_set_def idx_def)
  have "swx' ! nat (n + int j) = fst (snd (win ((ps @ [p]) ! j)))"
    if "j < length (ps @ [p])" "n + int j < int (length swx)" for j
  proof (cases "j = length ps")
    case True
    then show ?thesis
      using that ih st n1 wn assms(4) by (simp add: wr_def nat_add_distrib)
  next
    case False
    then have "j < length ps" using that by simp
    then show ?thesis
      using that ih st n1 assms(4) by (auto simp: wr_def nth_append nat_add_distrib)
  qed
  moreover have "swy' ! nat (n + int j) = snd (snd (win ((ps @ [p]) ! j)))"
    if "j < length (ps @ [p])" "n + int j < int (length swy)" for j
  proof (cases "j = length ps")
    case True
    then show ?thesis
      using that ih st n1 wn assms(4) by (simp add: wr_def nat_add_distrib)
  next
    case False
    then have "j < length ps" using that by simp
    then show ?thesis
      using that ih st n1 assms(4) by (auto simp: wr_def nth_append nat_add_distrib)
  qed
  moreover have "w A' ! nat (idx ((ps @ [p]) ! j)) = fst (win ((ps @ [p]) ! j))"
    if "j < length (ps @ [p])"
       "\<forall>j' < length (ps @ [p]). j < j' \<longrightarrow> idx ((ps @ [p]) ! j') \<noteq> idx ((ps @ [p]) ! j)"
       "0 \<le> idx ((ps @ [p]) ! j)" "idx ((ps @ [p]) ! j) < int (length (w A))" for j
  proof (cases "j = length ps")
    case True
    then show ?thesis
      using that ih A'w wn by (simp add: wr_def)
  next
    case False
    then have j: "j < length ps" using that by simp
    have ne: "idx p \<noteq> idx (ps ! j)"
    proof -
      have "length ps < length (ps @ [p])" by simp
      with that(2) j have "idx ((ps @ [p]) ! length ps) \<noteq> idx ((ps @ [p]) ! j)" by blast
      then show ?thesis using j by (simp add: nth_append)
    qed
    have "\<forall>j' < length ps. j < j' \<longrightarrow> idx (ps ! j') \<noteq> idx (ps ! j)"
    proof (intro allI impI)
      fix j' assume a: "j' < length ps" "j < j'"
      then have "j' < length (ps @ [p])" by simp
      with that(2) a(2) have "idx ((ps @ [p]) ! j') \<noteq> idx ((ps @ [p]) ! j)" by blast
      then show "idx (ps ! j') \<noteq> idx (ps ! j)" using a(1) j by (simp add: nth_append)
    qed
    then have "w A1 ! nat (idx (ps ! j)) = fst (win (ps ! j))"
      using ih j that(3,4) by (simp add: nth_append)
    then show ?thesis
      using j ne that(3) A'w by (auto simp: wr_def nth_append nth_list_update)
  qed
  ultimately show ?case
    using ih st n1 by simp
qed


lemma pool_loops_result:
  fixes ps :: "(nat \<times> nat \<times> nat) list" and L :: PoolLayer and V A :: Vol
  assumes "fold (\<lambda>(d, ax, ay). pool_forward_step L V d ax ay) ps (A, swx, swy, 0) = (A', swx', swy', n')"
      and "j < length ps" and "ps ! j = (d, ax, ay)"
      and "pool_window L V (- PoolLayer.pad L + PoolLayer.stride L * int ax)
             (- PoolLayer.pad L + PoolLayer.stride L * int ay) (int d) = (a, wx, wy)"
  shows "Vol.sx A' = Vol.sx A" and "depth A' = depth A" and "length (w A') = length (w A)"
    and "length swx' = length swx" and "length swy' = length swy"
    and "j < length swx \<Longrightarrow> swx' ! j = wx"
    and "j < length swy \<Longrightarrow> swy' ! j = wy"
    and "(\<And>j'. j' < length ps \<Longrightarrow> j < j' \<Longrightarrow>
            (case ps ! j' of (d', ax', ay') \<Rightarrow> Vol_index A (int ax') (int ay') (int d'))
              \<noteq> Vol_index A (int ax) (int ay) (int d)) \<Longrightarrow>
         0 \<le> Vol_index A (int ax) (int ay) (int d) \<Longrightarrow>
         Vol_index A (int ax) (int ay) (int d) < int (length (w A)) \<Longrightarrow>
         w A' ! nat (Vol_index A (int ax) (int ay) (int d)) = a"
proof -
  note inv = pool_loops_invariant [OF assms(1) order_refl]
  show "Vol.sx A' = Vol.sx A" "depth A' = depth A" "length (w A') = length (w A)"
       "length swx' = length swx" "length swy' = length swy"
    using inv by simp_all
  have x: "\<forall>j < length ps. 0 + int j < int (length swx) \<longrightarrow>
             swx' ! nat (0 + int j) = fst (snd ((\<lambda>(d, ax, ay). pool_window L V (- PoolLayer.pad L + PoolLayer.stride L * int ax)
                                   (- PoolLayer.pad L + PoolLayer.stride L * int ay) (int d)) (ps ! j)))"
    using inv by (elim conjE) assumption
  show "swx' ! j = wx" if "j < length swx"
    using x [rule_format, OF assms(2)] that assms(3,4) by simp
  have y: "\<forall>j < length ps. 0 + int j < int (length swy) \<longrightarrow>
             swy' ! nat (0 + int j) = snd (snd ((\<lambda>(d, ax, ay). pool_window L V (- PoolLayer.pad L + PoolLayer.stride L * int ax)
                                   (- PoolLayer.pad L + PoolLayer.stride L * int ay) (int d)) (ps ! j)))"
    using inv by (elim conjE) assumption
  show "swy' ! j = wy" if "j < length swy"
    using y [rule_format, OF assms(2)] that assms(3,4) by simp
  have z: "\<forall>j < length ps. (\<forall>j' < length ps. j < j' \<longrightarrow>
               (\<lambda>(d, ax, ay). Vol_index A (int ax) (int ay) (int d)) (ps ! j')
                 \<noteq> (\<lambda>(d, ax, ay). Vol_index A (int ax) (int ay) (int d)) (ps ! j)) \<and>
             0 \<le> (\<lambda>(d, ax, ay). Vol_index A (int ax) (int ay) (int d)) (ps ! j) \<and>
             (\<lambda>(d, ax, ay). Vol_index A (int ax) (int ay) (int d)) (ps ! j) < int (length (w A)) \<longrightarrow>
             w A' ! nat ((\<lambda>(d, ax, ay). Vol_index A (int ax) (int ay) (int d)) (ps ! j))
               = fst ((\<lambda>(d, ax, ay). pool_window L V (- PoolLayer.pad L + PoolLayer.stride L * int ax)
                                   (- PoolLayer.pad L + PoolLayer.stride L * int ay) (int d)) (ps ! j))"
    using inv by (elim conjE) assumption
  show "w A' ! nat (Vol_index A (int ax) (int ay) (int d)) = a"
    if "\<And>j'. j' < length ps \<Longrightarrow> j < j' \<Longrightarrow>
            (case ps ! j' of (d', ax', ay') \<Rightarrow> Vol_index A (int ax') (int ay') (int d'))
              \<noteq> Vol_index A (int ax) (int ay) (int d)"
       "0 \<le> Vol_index A (int ax) (int ay) (int d)"
       "Vol_index A (int ax) (int ay) (int d) < int (length (w A))"
    using z [rule_format, of j] that assms(2,3,4) by simp
qed

lemma product3_nth:
  assumes "d < D" "ax < X" "ay < Y"
  shows "(d * X + ax) * Y + ay < length (List.product [0 ..< D] (List.product [0 ..< X] [0 ..< Y])) \<and>
         List.product [0 ..< D] (List.product [0 ..< X] [0 ..< Y]) ! ((d * X + ax) * Y + ay) = (d, ax, ay)"
proof -
  have i: "ax * Y + ay < X * Y"
  proof -
    have "ax * Y + ay < ax * Y + Y" using assms by simp
    also have "\<dots> = (ax + 1) * Y" by simp
    also have "\<dots> \<le> X * Y" using assms by (intro mult_right_mono) simp_all
    finally show ?thesis .
  qed
  have e: "(d * X + ax) * Y + ay = d * (X * Y) + (ax * Y + ay)"
    by (simp add: algebra_simps)
  have o: "d * (X * Y) + (ax * Y + ay) < D * (X * Y)"
  proof -
    have "d * (X * Y) + (ax * Y + ay) < d * (X * Y) + X * Y" using i by simp
    also have "\<dots> = (d + 1) * (X * Y)" by simp
    also have "\<dots> \<le> D * (X * Y)" using assms by (intro mult_right_mono) simp_all
    finally show ?thesis .
  qed
  have nz: "X * Y \<noteq> 0" "Y \<noteq> 0" using i assms by auto
  have "(d * (X * Y) + (ax * Y + ay)) div (X * Y) = d + (ax * Y + ay) div (X * Y)"
    using nz(1) by (rule div_mult_self3)
  moreover have "(d * (X * Y) + (ax * Y + ay)) mod (X * Y) = (ax * Y + ay) mod (X * Y)"
    by (rule mod_mult_self3)
  ultimately have dv: "(d * (X * Y) + (ax * Y + ay)) div (X * Y) = d"
      "(d * (X * Y) + (ax * Y + ay)) mod (X * Y) = ax * Y + ay"
    using i by simp_all
  have "(ax * Y + ay) div Y = ax + ay div Y"
    using nz(2) by (rule div_mult_self3)
  moreover have "(ax * Y + ay) mod Y = ay mod Y"
    by (rule mod_mult_self3)
  ultimately have dv2: "(ax * Y + ay) div Y = ax" "(ax * Y + ay) mod Y = ay"
    using assms by simp_all
  have "List.product [0 ..< X] [0 ..< Y] ! (ax * Y + ay) = (ax, ay)"
    using i assms dv2 by (simp add: product_nth)
  then show ?thesis
    unfolding e using o i assms dv by (simp add: product_nth)
qed

lemma Max_above_sentinel:
  fixes S :: "real set"
  assumes "finite S" "\<exists>v \<in> S. a < v"
  shows "Max (insert a S) = Max S"
proof -
  obtain v where v: "v \<in> S" "a < v" using assms by blast
  then have "a \<le> Max S" using assms(1) by (meson Max_ge less_le_trans less_imp_le)
  moreover have "S \<noteq> {}" using v by blast
  ultimately show ?thesis using assms(1) by (simp add: max_def)
qed


text \<open>
  Claim C10. \<^verbatim>\<open>PoolLayer.forward\<close> starts the running maximum of every window at the
  sentinel \<open>-99999\<close>. For an input of consistent size, a layer whose depth is the
  input's and whose switch arrays have the constructed length, and an output position
  \<open>(ax, ay, d)\<close> in range: if some in-bounds cell of the window holds a value above
  \<open>-99999\<close>, the output there is the maximum over the in-bounds cells and the switch
  pair recorded at the position's counter is a cell holding that maximum; otherwise
  (all in-bounds values at most \<open>-99999\<close>, or no in-bounds cell at all) the output is
  \<open>-99999\<close> and the recorded switch pair is \<open>(-1, -1)\<close>.
\<close>

theorem PoolLayer_forward_window_max:
  assumes V: "length (w V) = nat (Vol.sx V * Vol.sy V * depth V)"
      and D: "LayerBase.out_depth L = depth V"
      and sw: "length (switchx L) = nat (LayerBase.out_sx L * LayerBase.out_sy L * LayerBase.out_depth L)"
              "length (switchy L) = nat (LayerBase.out_sx L * LayerBase.out_sy L * LayerBase.out_depth L)"
      and r: "0 \<le> ax" "ax < LayerBase.out_sx L" "0 \<le> ay" "ay < LayerBase.out_sy L"
             "0 \<le> d" "d < LayerBase.out_depth L"
      and res: "PoolLayer_forward L V = (L', A)"
  shows "if \<exists>c \<in> set (pool_window_cells L V ax ay d). fst c > -99999
         then Vol_get A ax ay d = Some (Max (fst ` set (pool_window_cells L V ax ay d))) \<and>
              (Max (fst ` set (pool_window_cells L V ax ay d)),
               switchx L' ! nat ((d * LayerBase.out_sx L + ax) * LayerBase.out_sy L + ay),
               switchy L' ! nat ((d * LayerBase.out_sx L + ax) * LayerBase.out_sy L + ay))
                \<in> set (pool_window_cells L V ax ay d)
         else Vol_get A ax ay d = Some (-99999) \<and>
              switchx L' ! nat ((d * LayerBase.out_sx L + ax) * LayerBase.out_sy L + ay) = -1 \<and>
              switchy L' ! nat ((d * LayerBase.out_sx L + ax) * LayerBase.out_sy L + ay) = -1"
proof -
  let ?X = "nat (LayerBase.out_sx L)" and ?Y = "nat (LayerBase.out_sy L)" and ?D = "nat (LayerBase.out_depth L)"
  let ?ps = "List.product [0 ..< ?D] (List.product [0 ..< ?X] [0 ..< ?Y])"
  let ?A0 = "Vol_const (LayerBase.out_sx L) (LayerBase.out_sy L) (LayerBase.out_depth L) 0"
  let ?L0 = "L\<lparr>in_act := Some V\<rparr>"
  let ?j = "(nat d * ?X + nat ax) * ?Y + nat ay"
  let ?cells = "pool_window_cells L V ax ay d"
  let ?idx = "\<lambda>(d, ax, ay). Vol_index ?A0 (int ax) (int ay) (int d)"
  obtain A1 sx1 sy1 n1 where
    lp: "pool_forward_loops ?L0 V ?A0 = (A1, sx1, sy1, n1)"
    by (metis prod_cases4)
  have LA: "A = A1" "switchx L' = sx1" "switchy L' = sy1"
    using res lp by (auto simp: PoolLayer_forward_def Let_def)
  have fl: "fold (\<lambda>(d, ax, ay). pool_forward_step ?L0 V d ax ay) ?ps (?A0, switchx L, switchy L, 0) = (A1, sx1, sy1, n1)"
    using lp unfolding pool_forward_loops_def fold_product3 by simp
  have rng: "nat d < ?D" "nat ax < ?X" "nat ay < ?Y" using r by simp_all
  note nth = product3_nth [OF rng]
  have pj: "?ps ! ?j = (nat d, nat ax, nat ay)" and jl: "?j < length ?ps"
    using nth by simp_all
  have jn: "nat ((d * LayerBase.out_sx L + ax) * LayerBase.out_sy L + ay) = ?j"
    using r by (simp add: nat_add_distrib nat_mult_distrib)
  have lenA0: "length (w ?A0) = nat (LayerBase.out_sx L * LayerBase.out_sy L * LayerBase.out_depth L)"
             "Vol.sx ?A0 = LayerBase.out_sx L" "Vol.sy ?A0 = LayerBase.out_sy L" "depth ?A0 = LayerBase.out_depth L"
    by (simp_all add: Vol_const_def)
  have tot: "int (length ?ps) = LayerBase.out_sx L * LayerBase.out_sy L * LayerBase.out_depth L"
    using r by (simp add: algebra_simps)
  have ls: "length (switchx L) = length ?ps" "length (switchy L) = length ?ps"
    using sw tot by (metis nat_int)+
  have ir: "0 \<le> Vol_index ?A0 ax ay d \<and> Vol_index ?A0 ax ay d < Vol.sx ?A0 * Vol.sy ?A0 * depth ?A0"
    using r lenA0 by (intro Vol_index_in_range) simp_all
  have ir': "0 \<le> Vol_index ?A0 (int (nat ax)) (int (nat ay)) (int (nat d))"
            "Vol_index ?A0 (int (nat ax)) (int (nat ay)) (int (nat d)) < int (length (w ?A0))"
    using ir r lenA0 by simp_all
  have dist: "(case ?ps ! j' of (d', ax', ay') \<Rightarrow> Vol_index ?A0 (int ax') (int ay') (int d'))
              \<noteq> Vol_index ?A0 (int (nat ax)) (int (nat ay)) (int (nat d))"
    if a: "j' < length ?ps" "?j < j'" for j'
  proof -
    obtain d' ax' ay' where q: "?ps ! j' = (d', ax', ay')" by (metis prod_cases3)
    have "(d', ax', ay') \<in> set ?ps" using a(1) q by (metis nth_mem)
    then have q': "d' < ?D" "ax' < ?X" "ay' < ?Y" by auto
    have "distinct ?ps" by (intro distinct_product) simp_all
    then have "?ps ! j' \<noteq> ?ps ! ?j"
      using a jl by (simp add: nth_eq_iff_index_eq)
    then have ne: "(d', ax', ay') \<noteq> (nat d, nat ax, nat ay)" using q pj by simp
    have "Vol_index ?A0 (int ax') (int ay') (int d') \<noteq> Vol_index ?A0 ax ay d"
    proof
      assume "Vol_index ?A0 (int ax') (int ay') (int d') = Vol_index ?A0 ax ay d"
      then have "int ax' = ax \<and> int ay' = ay \<and> int d' = d"
        using q' r lenA0 by (intro Vol_index_inj [of _ ?A0]) simp_all
      then show False using ne by auto
    qed
    then show ?thesis
      using q r by simp
  qed
  let ?r = "fold (\<lambda>c st. if fst c > fst st then c else st) ?cells (-99999, -1, -1)"
  obtain a wx wy where rr: "?r = (a, wx, wy)" using prod_cases3 by blast
  have win: "pool_window ?L0 V (- PoolLayer.pad ?L0 + PoolLayer.stride ?L0 * int (nat ax))
                (- PoolLayer.pad ?L0 + PoolLayer.stride ?L0 * int (nat ay)) (int (nat d))
             = (a, wx, wy)"
  proof -
    have "pool_window_cells ?L0 V ax ay d = ?cells"
      by (simp add: pool_window_cells_def)
    then show ?thesis
      using pool_window_cells_fold [of V d ?L0 ax ay] V D r rr by simp
  qed
  note res = pool_loops_result [OF fl jl pj win]
  have aw: "w A1 ! nat (Vol_index ?A0 ax ay d) = a"
    using res(8) [OF dist ir'] r by simp
  have get: "Vol_get A ax ay d = Some a"
  proof -
    have "Vol_index A1 = Vol_index ?A0" using res(1,2) by (intro Vol_index_cong) simp_all
    moreover have "length (w A1) = length (w ?A0)" using res(3) by simp
    ultimately show ?thesis
      using aw ir lenA0 LA by (simp add: Vol_get_def rd_def)
  qed
  have sx: "switchx L' ! nat ((d * LayerBase.out_sx L + ax) * LayerBase.out_sy L + ay) = wx"
    unfolding jn using res(6) jl ls(1) LA by simp
  have sy: "switchy L' ! nat ((d * LayerBase.out_sx L + ax) * LayerBase.out_sy L + ay) = wy"
    unfolding jn using res(7) jl ls(2) LA by simp
  note rm0 = running_max [of ?cells "(-99999, -1, -1)", unfolded rr]
  have rm1: "a = Max (insert (-99999) (fst ` set ?cells))"
    using rm0 [THEN conjunct1] by (simp only: fst_conv)
  have rm2: "if \<exists>c \<in> set ?cells. fst c > -99999
             then (a, wx, wy) \<in> set ?cells else (a, wx, wy) = (-99999, -1, -1)"
    using rm0 [THEN conjunct2] by (simp only: fst_conv)
  show ?thesis
  proof (cases "\<exists>c \<in> set ?cells. fst c > -99999")
    case True
    have mem: "(a, wx, wy) \<in> set ?cells"
      using rm2 by (simp only: True if_True)
    have "\<exists>v \<in> fst ` set ?cells. -99999 < v" using True by auto
    then have "Max (insert (-99999) (fst ` set ?cells)) = Max (fst ` set ?cells)"
      by (intro Max_above_sentinel) simp_all
    then have am: "Max (fst ` set ?cells) = a" using rm1 by simp
    show ?thesis
      by (simp only: True if_True get sx sy am mem simp_thms)
  next
    case False
    have "(a, wx, wy) = (-99999, -1, -1)"
      using rm2 by (simp only: False if_False)
    then have "a = -99999" "wx = -1" "wy = -1" by simp_all
    then show ?thesis
      by (simp only: False if_False get sx sy simp_thms)
  qed
qed


theorem PoolLayer_forward_window_max_witness:
  "Vol_get (snd (PoolLayer_forward
      \<lparr>LayerBase.layer_type = ''pool'', out_sx = 1, out_sy = 1, out_depth = 1, in_act = None,
       out_act = None, PoolLayer.sx = 2, PoolLayer.sy = 2, PoolLayer.in_depth = 1,
       PoolLayer.in_sx = Some 2, PoolLayer.in_sy = Some 2, PoolLayer.stride = 2, PoolLayer.pad = 0,
       switchx = [0], switchy = [0]\<rparr>
      \<lparr>Vol.sx = 2, Vol.sy = 2, depth = 1, w = [1, 5, 3, 2], dw = [0, 0, 0, 0]\<rparr>)) 0 0 0 = Some 5 \<and>
   switchx (fst (PoolLayer_forward
      \<lparr>LayerBase.layer_type = ''pool'', out_sx = 1, out_sy = 1, out_depth = 1, in_act = None,
       out_act = None, PoolLayer.sx = 2, PoolLayer.sy = 2, PoolLayer.in_depth = 1,
       PoolLayer.in_sx = Some 2, PoolLayer.in_sy = Some 2, PoolLayer.stride = 2, PoolLayer.pad = 0,
       switchx = [0], switchy = [0]\<rparr>
      \<lparr>Vol.sx = 2, Vol.sy = 2, depth = 1, w = [1, 5, 3, 2], dw = [0, 0, 0, 0]\<rparr>)) ! 0 = 1 \<and>
   switchy (fst (PoolLayer_forward
      \<lparr>LayerBase.layer_type = ''pool'', out_sx = 1, out_sy = 1, out_depth = 1, in_act = None,
       out_act = None, PoolLayer.sx = 2, PoolLayer.sy = 2, PoolLayer.in_depth = 1,
       PoolLayer.in_sx = Some 2, PoolLayer.in_sy = Some 2, PoolLayer.stride = 2, PoolLayer.pad = 0,
       switchx = [0], switchy = [0]\<rparr>
      \<lparr>Vol.sx = 2, Vol.sy = 2, depth = 1, w = [1, 5, 3, 2], dw = [0, 0, 0, 0]\<rparr>)) ! 0 = 0 \<and>
   Vol_get (snd (PoolLayer_forward
      \<lparr>LayerBase.layer_type = ''pool'', out_sx = 1, out_sy = 1, out_depth = 1, in_act = None,
       out_act = None, PoolLayer.sx = 2, PoolLayer.sy = 2, PoolLayer.in_depth = 1,
       PoolLayer.in_sx = Some 2, PoolLayer.in_sy = Some 2, PoolLayer.stride = 2, PoolLayer.pad = 0,
       switchx = [0], switchy = [0]\<rparr>
      \<lparr>Vol.sx = 2, Vol.sy = 2, depth = 1, w = [-100000, -100000, -100000, -100000],
       dw = [0, 0, 0, 0]\<rparr>)) 0 0 0 = Some (-99999) \<and>
   switchx (fst (PoolLayer_forward
      \<lparr>LayerBase.layer_type = ''pool'', out_sx = 1, out_sy = 1, out_depth = 1, in_act = None,
       out_act = None, PoolLayer.sx = 2, PoolLayer.sy = 2, PoolLayer.in_depth = 1,
       PoolLayer.in_sx = Some 2, PoolLayer.in_sy = Some 2, PoolLayer.stride = 2, PoolLayer.pad = 0,
       switchx = [0], switchy = [0]\<rparr>
      \<lparr>Vol.sx = 2, Vol.sy = 2, depth = 1, w = [-100000, -100000, -100000, -100000],
       dw = [0, 0, 0, 0]\<rparr>)) ! 0 = -1"
proof -
  let ?L = "\<lparr>LayerBase.layer_type = ''pool'', out_sx = 1, out_sy = 1, out_depth = 1, in_act = None,
       out_act = None, PoolLayer.sx = 2, PoolLayer.sy = 2, PoolLayer.in_depth = 1,
       PoolLayer.in_sx = Some 2, PoolLayer.in_sy = Some 2, PoolLayer.stride = 2, PoolLayer.pad = 0,
       switchx = [0], switchy = [0]\<rparr>"
  let ?V = "\<lparr>Vol.sx = 2, Vol.sy = 2, depth = 1, w = [1, 5, 3, 2 :: real], dw = [0, 0, 0, 0 :: real]\<rparr>"
  let ?W = "\<lparr>Vol.sx = 2, Vol.sy = 2, depth = 1, w = [-100000, -100000, -100000, -100000 :: real],
       dw = [0, 0, 0, 0 :: real]\<rparr>"
  have u: "[0 ..< 2] = [0, 1]" by (simp add: upt_rec)
  have cV: "pool_window_cells ?L ?V 0 0 0 = [(1, 0, 0), (3, 0, 1), (5, 1, 0), (2, 1, 1)]"
    by (simp add: pool_window_cells_def Vol_index_def u)
  have cW: "pool_window_cells ?L ?W 0 0 0 =
              [(-100000, 0, 0), (-100000, 0, 1), (-100000, 1, 0), (-100000, 1, 1)]"
    by (simp add: pool_window_cells_def Vol_index_def u)
  have hV: "length (w ?V) = nat (Vol.sx ?V * Vol.sy ?V * depth ?V)" by simp
  have hW: "length (w ?W) = nat (Vol.sx ?W * Vol.sy ?W * depth ?W)" by simp
  have hL: "LayerBase.out_depth ?L = 1"
           "length (switchx ?L) = nat (LayerBase.out_sx ?L * LayerBase.out_sy ?L * LayerBase.out_depth ?L)"
           "length (switchy ?L) = nat (LayerBase.out_sx ?L * LayerBase.out_sy ?L * LayerBase.out_depth ?L)"
           "(0::int) \<le> 0" "0 < LayerBase.out_sx ?L" "0 < LayerBase.out_sy ?L" "0 < LayerBase.out_depth ?L"
    by simp_all
  have dV: "LayerBase.out_depth ?L = depth ?V" and dW: "LayerBase.out_depth ?L = depth ?W"
    by simp_all
  have rV: "PoolLayer_forward ?L ?V = (fst (PoolLayer_forward ?L ?V), snd (PoolLayer_forward ?L ?V))"
    by simp
  have rW: "PoolLayer_forward ?L ?W = (fst (PoolLayer_forward ?L ?W), snd (PoolLayer_forward ?L ?W))"
    by simp
  have mx: "Max (fst ` set [(1::real, 0::int, 0::int), (3, 0, 1), (5, 1, 0), (2, 1, 1)]) = 5"
    by simp
  have a: "Vol_get (snd (PoolLayer_forward ?L ?V)) 0 0 0 = Some 5 \<and>
           (5, switchx (fst (PoolLayer_forward ?L ?V)) ! 0, switchy (fst (PoolLayer_forward ?L ?V)) ! 0)
             \<in> set [(1::real, 0::int, 0::int), (3, 0, 1), (5, 1, 0), (2, 1, 1)]"
    using PoolLayer_forward_window_max [OF hV dV hL(2) hL(3) hL(4) hL(5) hL(4) hL(6) hL(4) hL(7) rV]
    unfolding cV mx by simp
  have b: "Vol_get (snd (PoolLayer_forward ?L ?W)) 0 0 0 = Some (-99999) \<and>
           switchx (fst (PoolLayer_forward ?L ?W)) ! 0 = -1"
    using PoolLayer_forward_window_max [OF hW dW hL(2) hL(3) hL(4) hL(5) hL(4) hL(6) hL(4) hL(7) rW]
    unfolding cW by simp
  from a have "switchx (fst (PoolLayer_forward ?L ?V)) ! 0 = 1 \<and> switchy (fst (PoolLayer_forward ?L ?V)) ! 0 = 0"
    by simp
  with a b show ?thesis by blast
qed


subsection \<open>The two code paths of the maxout layer\<close>

text \<open>
  At the position \<open>(0, 0)\<close> the accessors of the tensor read and write the flat arrays
  at the channel index, whatever the size of the tensor.
\<close>

lemma Vol_get_origin: "Vol_get V 0 0 k = rd (w V) k"
  by (simp add: Vol_get_def Vol_index_def)

lemma Vol_get_grad_origin: "Vol_get_grad V 0 0 k = rd (dw V) k"
  by (simp add: Vol_get_grad_def Vol_index_def)

lemma Vol_set_origin: "Vol_set V 0 0 k v = V\<lparr>w := wr (w V) k v\<rparr>"
  by (simp add: Vol_set_def Vol_index_def)

lemma Vol_set_grad_origin: "Vol_set_grad V 0 0 k v = V\<lparr>dw := wr (dw V) k v\<rparr>"
  by (simp add: Vol_set_grad_def Vol_index_def)

lemma maxout_coord_group_origin: "maxout_coord_group L V 0 0 ix = maxout_flat_group L V ix"
  by (simp add: maxout_coord_group_def maxout_flat_group_def Vol_get_origin)

lemma maxout_coord_step_origin:
  "maxout_coord_step L V 0 0 i (map_option (\<lambda>(V2, sw). (V2, sw, int i)) st) =
   map_option (\<lambda>(V2, sw). (V2, sw, int (Suc i))) (maxout_flat_step L V i st)"
  by (cases st)
     (auto simp: maxout_coord_step_def maxout_flat_step_def maxout_coord_group_origin
        Vol_set_origin Let_def split: prod.splits option.splits)

lemma maxout_coord_fold_origin:
  "fold (maxout_coord_step L V 0 0) [0 ..< k] (Some (V2, sw, 0)) =
   map_option (\<lambda>(V2, sw). (V2, sw, int k)) (fold (maxout_flat_step L V) [0 ..< k] (Some (V2, sw)))"
proof (induction k)
  case 0
  then show ?case by simp
next
  case (Suc k)
  then show ?case
    using maxout_coord_step_origin [of L V k "fold (maxout_flat_step L V) [0 ..< k] (Some (V2, sw))"]
    by simp
qed

lemma maxout_backward_coord_step_origin:
  "maxout_backward_coord_step L V2 0 0 i (map_option (\<lambda>V. (V, int i)) st) =
   map_option (\<lambda>V. (V, int (Suc i))) (maxout_backward_flat_step L V2 i st)"
  by (cases st)
     (auto simp: maxout_backward_coord_step_def maxout_backward_flat_step_def
        Vol_get_grad_origin Vol_set_grad_origin split: prod.splits option.splits)

lemma maxout_backward_coord_fold_origin:
  "fold (maxout_backward_coord_step L V2 0 0) [0 ..< k] (Some (V, 0)) =
   map_option (\<lambda>V. (V, int k)) (fold (maxout_backward_flat_step L V2) [0 ..< k] (Some V))"
proof (induction k)
  case 0
  then show ?case by simp
next
  case (Suc k)
  then show ?case
    using maxout_backward_coord_step_origin [of L V2 k "fold (maxout_backward_flat_step L V2) [0 ..< k] (Some V)"]
    by simp
qed

lemma maxout_forward_paths:
  assumes "Vol.sx V = 1" "Vol.sy V = 1"
  shows "maxout_forward_coord L V V2 = maxout_forward_flat L V V2"
  using assms
  by (simp add: maxout_forward_coord_def maxout_forward_flat_def maxout_coord_fold_origin
        option.map_comp comp_def split_def option.map_ident)

lemma maxout_backward_paths:
  assumes "Vol.sx V2 = 1" "Vol.sy V2 = 1"
  shows "maxout_backward_coord L V V2 = maxout_backward_flat L V V2"
  using assms
  by (simp add: maxout_backward_coord_def maxout_backward_flat_def maxout_backward_coord_fold_origin
        option.map_comp comp_def option.map_ident)


lemma maxout_group_fold_defined:
  "\<exists>v ai. fold (\<lambda>j (a, ai). let a2 = rd xs (ix + int j)
                        in if js_gt a2 a then (a2, int j) else (a, ai)) js (Some v0, a0) = (Some v, ai)"
proof (induction js arbitrary: v0 a0)
  case Nil
  then show ?case by simp
next
  case (Cons j js)
  show ?case
  proof (cases "js_gt (rd xs (ix + int j)) (Some v0)")
    case True
    then obtain u where "rd xs (ix + int j) = Some u"
      by (auto simp: js_gt_def split: option.splits)
    then show ?thesis using True Cons.IH [of u "int j"] by simp
  next
    case False
    then show ?thesis using Cons.IH [of v0 a0] by simp
  qed
qed

lemma maxout_flat_group_defined:
  assumes "0 \<le> ix" "ix < int (length (w V))"
  shows "\<exists>v ai. maxout_flat_group L V ix = (Some v, ai)"
proof -
  have "rd (w V) ix = Some (w V ! nat ix)" using assms by (simp add: rd_def)
  then show ?thesis
    unfolding maxout_flat_group_def
    using maxout_group_fold_defined [of "w V" ix _ "w V ! nat ix" 0] by simp
qed

lemma maxout_forward_flat_defined:
  assumes "1 \<le> MaxoutLayer.group_size L" "int k * MaxoutLayer.group_size L \<le> int (length (w V))"
  shows "fold (maxout_flat_step L V) [0 ..< k] (Some st) \<noteq> None"
  using assms(2)
proof (induction k)
  case 0
  then show ?case by simp
next
  case (Suc k)
  have le: "int k * MaxoutLayer.group_size L \<le> int (length (w V))"
    using Suc.prems assms(1) by (simp add: algebra_simps)
  then obtain V2 sw where f: "fold (maxout_flat_step L V) [0 ..< k] (Some st) = Some (V2, sw)"
    using Suc.IH by fastforce
  have "0 \<le> int k * MaxoutLayer.group_size L" using assms(1) by simp
  moreover have "int k * MaxoutLayer.group_size L < int (length (w V))"
    using Suc.prems assms(1) by (simp add: algebra_simps)
  ultimately obtain v ai where g: "maxout_flat_group L V (int k * MaxoutLayer.group_size L) = (Some v, ai)"
    using maxout_flat_group_defined by blast
  have h: "fold (maxout_flat_step L V) [0 ..< Suc k] (Some st) = maxout_flat_step L V k (Some (V2, sw))"
    using f by simp
  have "maxout_flat_step L V k (Some (V2, sw)) \<noteq> None"
    using g by (simp add: maxout_flat_step_def Let_def)
  then show ?case
    unfolding h .
qed

lemma maxout_backward_flat_defined:
  assumes "k \<le> length (dw V2)" "k \<le> length (switches L)"
  shows "fold (maxout_backward_flat_step L V2) [0 ..< k] (Some V) \<noteq> None"
  using assms
proof (induction k)
  case 0
  then show ?case by simp
next
  case (Suc k)
  then obtain V' where "fold (maxout_backward_flat_step L V2) [0 ..< k] (Some V) = Some V'"
    by fastforce
  then have h: "fold (maxout_backward_flat_step L V2) [0 ..< Suc k] (Some V)
               = maxout_backward_flat_step L V2 k (Some V')"
    by simp
  have "maxout_backward_flat_step L V2 k (Some V') \<noteq> None"
    using Suc.prems by (simp add: maxout_backward_flat_step_def)
  then show ?case
    unfolding h .
qed

lemma maxout_flat_step_frame:
  "maxout_flat_step L V i (Some (V2, sw)) = Some (A, sw') \<Longrightarrow>
   Vol.sx A = Vol.sx V2 \<and> Vol.sy A = Vol.sy V2 \<and> depth A = depth V2 \<and> dw A = dw V2 \<and>
   length (w A) = length (w V2) \<and> length sw' = length sw"
  by (auto simp: maxout_flat_step_def Let_def split: prod.splits option.splits)

lemma maxout_forward_flat_frame:
  "fold (maxout_flat_step L V) [0 ..< k] (Some (V2, sw)) = Some (A, sw') \<Longrightarrow>
   Vol.sx A = Vol.sx V2 \<and> Vol.sy A = Vol.sy V2 \<and> depth A = depth V2 \<and> dw A = dw V2 \<and>
   length (w A) = length (w V2) \<and> length sw' = length sw"
proof (induction k arbitrary: A sw')
  case 0
  then show ?case by simp
next
  case (Suc k)
  have s: "maxout_flat_step L V k (fold (maxout_flat_step L V) [0 ..< k] (Some (V2, sw))) = Some (A, sw')"
    using Suc.prems by simp
  then obtain A1 sw1 where f: "fold (maxout_flat_step L V) [0 ..< k] (Some (V2, sw)) = Some (A1, sw1)"
    by (cases "fold (maxout_flat_step L V) [0 ..< k] (Some (V2, sw))")
       (auto simp: maxout_flat_step_def)
  show ?case
    using Suc.IH [OF f] maxout_flat_step_frame [of L V k A1 sw1 A sw'] s f by simp
qed

text \<open>
  Claim C9. For a maxout layer with \<open>out_sx = out_sy = 1\<close> the branch of
  \<^verbatim>\<open>forward\<close> that reads the flat array and the branch that walks the coordinates
  return the same output and the same switches, for every input \<open>V\<close> of the layer's
  spatial size (any depth, any length of the array, any contents), every starting
  output \<open>V2\<close> and every starting switch array; the two branches of \<^verbatim>\<open>backward\<close>
  return the same input gradient, for every input \<open>X\<close> and every output \<open>G\<close> of the
  layer's spatial size, whose gradient the next layer has written. So
  \<^verbatim>\<open>forward\<close> and \<^verbatim>\<open>backward\<close>, which take the flat branch, return what the
  coordinate branch returns. The output that \<^verbatim>\<open>forward\<close> stores in \<^verbatim>\<open>out_act\<close> has
  the layer's spatial size, so that the tensor \<^verbatim>\<open>backward\<close> works on is of the kind
  the second statement is about. The flat branches return a result (no read of
  \<^verbatim>\<open>undefined\<close>) as soon as the input holds \<open>out_depth * group_size\<close> values, for
  \<^verbatim>\<open>forward\<close>, and the gradient of the output and the switches hold \<open>out_depth\<close>
  values, for \<^verbatim>\<open>backward\<close>. The coordinate branches take the bounds of their loops
  from the tensor (\<^verbatim>\<open>V.sx\<close> and \<^verbatim>\<open>V.sy\<close>), not from the layer: this is why the
  tensors are those of the layer's spatial size.
\<close>

theorem MaxoutLayer_paths_agree:
  assumes "LayerBase.out_sx L = 1" and "LayerBase.out_sy L = 1"
      and "Vol.sx V = LayerBase.out_sx L" and "Vol.sy V = LayerBase.out_sy L"
      and "Vol.sx G = LayerBase.out_sx L" and "Vol.sy G = LayerBase.out_sy L"
  shows "maxout_forward_flat L V V2 = maxout_forward_coord L V V2 \<and>
         maxout_backward_flat L X G = maxout_backward_coord L X G \<and>
         MaxoutLayer_forward L V =
           map_option (\<lambda>(V2, sw). (L\<lparr>in_act := Some V, switches := sw, out_act := Some V2\<rparr>, V2))
             (maxout_forward_coord (L\<lparr>in_act := Some V\<rparr>) V
                (Vol_const (LayerBase.out_sx L) (LayerBase.out_sy L) (LayerBase.out_depth L) 0)) \<and>
         MaxoutLayer_backward (L\<lparr>in_act := Some X, out_act := Some G\<rparr>) =
           map_option (\<lambda>X'. L\<lparr>in_act := Some X, out_act := Some G\<rparr>\<lparr>in_act := Some X'\<rparr>)
             (maxout_backward_coord (L\<lparr>in_act := Some X, out_act := Some G\<rparr>)
                (X\<lparr>dw := zeros (int (length (w X)))\<rparr>) G) \<and>
         map_option (\<lambda>(L', A). (Vol.sx A, Vol.sy A, out_act L', in_act L',
                                   LayerBase.out_sx L', LayerBase.out_sy L')) (MaxoutLayer_forward L V) =
           map_option (\<lambda>(L', A). (LayerBase.out_sx L, LayerBase.out_sy L, Some A, Some V,
                                   LayerBase.out_sx L, LayerBase.out_sy L)) (MaxoutLayer_forward L V) \<and>
         (1 \<le> MaxoutLayer.group_size L \<and>
          LayerBase.out_depth L * MaxoutLayer.group_size L \<le> int (length (w V))
            \<longrightarrow> maxout_forward_flat L V V2 \<noteq> None) \<and>
         (LayerBase.out_depth L \<le> int (length (dw G)) \<and>
          LayerBase.out_depth L \<le> int (length (switches L))
            \<longrightarrow> maxout_backward_flat L X G \<noteq> None)"
proof -
  have V: "Vol.sx V = 1" "Vol.sy V = 1" and G: "Vol.sx G = 1" "Vol.sy G = 1"
    using assms by simp_all
  have f: "maxout_forward_flat L V V2 = maxout_forward_coord L V V2" for L V2
    using V by (simp add: maxout_forward_paths)
  have b: "maxout_backward_flat L X G = maxout_backward_coord L X G" for L X
    using G by (simp add: maxout_backward_paths)
  have fw: "MaxoutLayer_forward L V =
           map_option (\<lambda>(V2, sw). (L\<lparr>in_act := Some V, switches := sw, out_act := Some V2\<rparr>, V2))
             (maxout_forward_coord (L\<lparr>in_act := Some V\<rparr>) V
                (Vol_const (LayerBase.out_sx L) (LayerBase.out_sy L) (LayerBase.out_depth L) 0))"
    using assms(1,2) by (simp add: MaxoutLayer_forward_def Let_def f [symmetric])
  have bw: "MaxoutLayer_backward (L\<lparr>in_act := Some X, out_act := Some G\<rparr>) =
           map_option (\<lambda>X'. L\<lparr>in_act := Some X, out_act := Some G\<rparr>\<lparr>in_act := Some X'\<rparr>)
             (maxout_backward_coord (L\<lparr>in_act := Some X, out_act := Some G\<rparr>)
                (X\<lparr>dw := zeros (int (length (w X)))\<rparr>) G)"
    using assms(1,2) by (simp add: MaxoutLayer_backward_def Let_def b [symmetric])
  have out: "map_option (\<lambda>(L', A). (Vol.sx A, Vol.sy A, out_act L', in_act L',
                                   LayerBase.out_sx L', LayerBase.out_sy L')) (MaxoutLayer_forward L V) =
           map_option (\<lambda>(L', A). (LayerBase.out_sx L, LayerBase.out_sy L, Some A, Some V,
                                   LayerBase.out_sx L, LayerBase.out_sy L)) (MaxoutLayer_forward L V)"
  proof (cases "maxout_forward_flat (L\<lparr>in_act := Some V\<rparr>) V
                  (Vol_const (LayerBase.out_sx L) (LayerBase.out_sy L) (LayerBase.out_depth L) 0)")
    case None
    then show ?thesis
      using assms(1,2) by (simp add: MaxoutLayer_forward_def Let_def)
  next
    case (Some r)
    obtain A sw where r: "r = (A, sw)" by (cases r)
    have "Vol.sx A = 1 \<and> Vol.sy A = 1"
      using maxout_forward_flat_frame [of "L\<lparr>in_act := Some V\<rparr>" V _
               "Vol_const (LayerBase.out_sx L) (LayerBase.out_sy L) (LayerBase.out_depth L) 0"
               "switches (L\<lparr>in_act := Some V\<rparr>)" A sw]
            Some r assms(1,2)
      by (simp add: maxout_forward_flat_def Vol_const_def)
    then show ?thesis
      using Some r assms(1,2) by (simp add: MaxoutLayer_forward_def Let_def)
  qed
  have tf: "maxout_forward_flat L V V2 \<noteq> None"
    if "1 \<le> MaxoutLayer.group_size L"
       "LayerBase.out_depth L * MaxoutLayer.group_size L \<le> int (length (w V))"
  proof (cases "0 \<le> LayerBase.out_depth L")
    case True
    then show ?thesis
      using that maxout_forward_flat_defined [of L "nat (LayerBase.out_depth L)" V "(V2, switches L)"]
      by (simp add: maxout_forward_flat_def)
  next
    case False
    then show ?thesis by (simp add: maxout_forward_flat_def)
  qed
  have tb: "maxout_backward_flat L X G \<noteq> None"
    if "LayerBase.out_depth L \<le> int (length (dw G))" "LayerBase.out_depth L \<le> int (length (switches L))"
    using that maxout_backward_flat_defined [of "nat (LayerBase.out_depth L)" G L X]
    by (simp add: maxout_backward_flat_def)
  show ?thesis
    using f b fw bw out tf tb by blast
qed

theorem MaxoutLayer_paths_agree_witness:
  "maxout_forward_coord
     \<lparr>LayerBase.layer_type = ''maxout'', out_sx = 1, out_sy = 1, out_depth = 2, in_act = None,
      out_act = None, MaxoutLayer.group_size = 2, switches = [0, 0]\<rparr>
     \<lparr>Vol.sx = 1, Vol.sy = 1, depth = 4, w = [1, 3, 4, 2], dw = [0, 0, 0, 0]\<rparr>
     \<lparr>Vol.sx = 1, Vol.sy = 1, depth = 2, w = [0, 0], dw = [0, 0]\<rparr>
   = Some (\<lparr>Vol.sx = 1, Vol.sy = 1, depth = 2, w = [3, 4], dw = [0, 0]\<rparr>, [1, 2]) \<and>
   maxout_backward_coord
     \<lparr>LayerBase.layer_type = ''maxout'', out_sx = 1, out_sy = 1, out_depth = 2, in_act = None,
      out_act = None, MaxoutLayer.group_size = 2, switches = [1, 2]\<rparr>
     \<lparr>Vol.sx = 1, Vol.sy = 1, depth = 4, w = [1, 3, 4, 2], dw = [0, 0, 0, 0]\<rparr>
     \<lparr>Vol.sx = 1, Vol.sy = 1, depth = 2, w = [3, 4], dw = [10, 20]\<rparr>
   = Some \<lparr>Vol.sx = 1, Vol.sy = 1, depth = 4, w = [1, 3, 4, 2], dw = [0, 10, 20, 0]\<rparr>"
proof -
  let ?L = "\<lparr>LayerBase.layer_type = ''maxout'', out_sx = 1, out_sy = 1, out_depth = 2, in_act = None,
      out_act = None, MaxoutLayer.group_size = 2, switches = [0, 0]\<rparr>"
  let ?L' = "\<lparr>LayerBase.layer_type = ''maxout'', out_sx = 1, out_sy = 1, out_depth = 2, in_act = None,
      out_act = None, MaxoutLayer.group_size = 2, switches = [1, 2]\<rparr>"
  let ?V = "\<lparr>Vol.sx = 1, Vol.sy = 1, depth = 4, w = [1, 3, 4, 2 :: real], dw = [0, 0, 0, 0 :: real]\<rparr>"
  let ?A = "\<lparr>Vol.sx = 1, Vol.sy = 1, depth = 2, w = [0, 0 :: real], dw = [0, 0 :: real]\<rparr>"
  let ?G = "\<lparr>Vol.sx = 1, Vol.sy = 1, depth = 2, w = [3, 4 :: real], dw = [10, 20 :: real]\<rparr>"
  have h: "LayerBase.out_sx ?L = 1" "LayerBase.out_sy ?L = 1"
          "Vol.sx ?V = LayerBase.out_sx ?L" "Vol.sy ?V = LayerBase.out_sy ?L"
          "Vol.sx ?G = LayerBase.out_sx ?L" "Vol.sy ?G = LayerBase.out_sy ?L"
    by simp_all
  have h': "LayerBase.out_sx ?L' = 1" "LayerBase.out_sy ?L' = 1"
          "Vol.sx ?V = LayerBase.out_sx ?L'" "Vol.sy ?V = LayerBase.out_sy ?L'"
          "Vol.sx ?G = LayerBase.out_sx ?L'" "Vol.sy ?G = LayerBase.out_sy ?L'"
    by simp_all
  have u: "[0 ..< 2] = [0, 1]" "[1 ..< 2] = [1]" "[Suc 0 ..< 2] = [Suc 0]" by (simp_all add: upt_rec)
  have f: "maxout_forward_flat ?L ?V ?A =
             Some (\<lparr>Vol.sx = 1, Vol.sy = 1, depth = 2, w = [3, 4], dw = [0, 0]\<rparr>, [1, 2])"
    by (simp add: maxout_forward_flat_def maxout_flat_step_def maxout_flat_group_def u rd_def wr_def
          js_gt_def Let_def)
  have b: "maxout_backward_flat ?L' ?V ?G =
             Some \<lparr>Vol.sx = 1, Vol.sy = 1, depth = 4, w = [1, 3, 4, 2], dw = [0, 10, 20, 0]\<rparr>"
    by (simp add: maxout_backward_flat_def maxout_backward_flat_step_def u rd_def wr_def)
  have "maxout_forward_flat ?L ?V ?A = maxout_forward_coord ?L ?V ?A"
    using MaxoutLayer_paths_agree [OF h, of ?A ?V] by (rule conjunct1)
  moreover have "maxout_backward_flat ?L' ?V ?G = maxout_backward_coord ?L' ?V ?G"
    using MaxoutLayer_paths_agree [OF h', of ?A ?V, THEN conjunct2] by (rule conjunct1)
  ultimately show ?thesis
    using f b by simp
qed


subsection \<open>The round trip of a network through its serialized form\<close>

text \<open>
  The output of the forward pass of every layer class depends only on fields that
  \<^verbatim>\<open>toJSON\<close> writes and \<^verbatim>\<open>fromJSON\<close> restores.
\<close>

lemma fold_rel:
  assumes "R s t" and "\<And>x s t. x \<in> set xs \<Longrightarrow> R s t \<Longrightarrow> R (f x s) (g x t)"
  shows "R (fold f xs s) (fold g xs t)"
  using assms by (induction xs arbitrary: s t) auto

lemma ReluLayer_forward_output:
  "snd (ReluLayer_forward L' V) = snd (ReluLayer_forward L V)"
  by (simp add: ReluLayer_forward_def relu_loop_def Let_def)

lemma SigmoidLayer_forward_output:
  "snd (SigmoidLayer_forward L' V) = snd (SigmoidLayer_forward L V)"
  by (simp add: SigmoidLayer_forward_def Let_def)

lemma TanhLayer_forward_output:
  "snd (TanhLayer_forward L' V) = snd (TanhLayer_forward L V)"
  by (simp add: TanhLayer_forward_def Let_def)

lemma dropout_train_loop_output:
  assumes "DropoutLayer.drop_prob L' = DropoutLayer.drop_prob L"
  shows "fst (dropout_train_loop L' rnd N V2) = fst (dropout_train_loop L rnd N V2)"
  unfolding dropout_train_loop_def
  using assms by (intro fold_rel [where R = "\<lambda>s t. fst s = fst t"]) (auto split: prod.splits)

lemma dropout_test_loop_output:
  assumes "DropoutLayer.drop_prob L' = DropoutLayer.drop_prob L"
  shows "dropout_test_loop L' N V2 = dropout_test_loop L N V2"
  unfolding dropout_test_loop_def assms ..

lemma DropoutLayer_forward_output:
  assumes "DropoutLayer.drop_prob L' = DropoutLayer.drop_prob L"
  shows "snd (DropoutLayer_forward L' rnd V t) = snd (DropoutLayer_forward L rnd V t)"
proof -
  have a: "DropoutLayer.drop_prob (L'\<lparr>in_act := Some V\<rparr>) = DropoutLayer.drop_prob (L\<lparr>in_act := Some V\<rparr>)"
    using assms by simp
  show ?thesis
    using dropout_train_loop_output [OF a, of rnd "length (w V)" "clone V"]
          dropout_test_loop_output [OF a, of "length (w V)" "clone V"]
    by (cases "dropout_train_loop (L'\<lparr>in_act := Some V\<rparr>) rnd (length (w V)) (clone V)";
        cases "dropout_train_loop (L\<lparr>in_act := Some V\<rparr>) rnd (length (w V)) (clone V)")
       (simp add: DropoutLayer_forward_def Let_def)
qed

lemma SoftmaxLayer_forward_output:
  assumes "LayerBase.out_depth L' = LayerBase.out_depth L"
  shows "map_option snd (SoftmaxLayer_forward L' V) = map_option snd (SoftmaxLayer_forward L V)"
proof -
  have a: "softmax_amax (L'\<lparr>in_act := Some V\<rparr>) = softmax_amax (L\<lparr>in_act := Some V\<rparr>)"
    unfolding softmax_amax_def using assms by simp
  have b: "softmax_exps (L'\<lparr>in_act := Some V\<rparr>) = softmax_exps (L\<lparr>in_act := Some V\<rparr>)"
    unfolding softmax_exps_def using assms by simp
  have c: "softmax_normalize (L'\<lparr>in_act := Some V\<rparr>) = softmax_normalize (L\<lparr>in_act := Some V\<rparr>)"
    unfolding softmax_normalize_def using assms by simp
  show ?thesis
    using assms by (simp add: SoftmaxLayer_forward_def Let_def a b c split: option.splits prod.splits)
qed

lemma maxout_flat_group_cong:
  assumes "MaxoutLayer.group_size L' = MaxoutLayer.group_size L"
  shows "maxout_flat_group L' V ix = maxout_flat_group L V ix"
  unfolding maxout_flat_group_def assms ..

lemma maxout_coord_group_cong:
  assumes "MaxoutLayer.group_size L' = MaxoutLayer.group_size L"
  shows "maxout_coord_group L' V x y ix = maxout_coord_group L V x y ix"
  unfolding maxout_coord_group_def assms ..

lemma maxout_forward_flat_output:
  assumes g: "MaxoutLayer.group_size L' = MaxoutLayer.group_size L"
      and d: "LayerBase.out_depth L' = LayerBase.out_depth L"
  shows "map_option fst (maxout_forward_flat L' V A) = map_option fst (maxout_forward_flat L V A)"
proof -
  let ?R = "\<lambda>s t :: (Vol \<times> int list) option. map_option fst s = map_option fst t"
  have step: "?R (maxout_flat_step L' V i s) (maxout_flat_step L V i t)" if "?R s t" for i s t
    using that
    by (cases s; cases t)
       (auto simp: maxout_flat_step_def maxout_flat_group_cong [OF g] g Let_def
             split: prod.splits option.splits)
  show ?thesis
    unfolding maxout_forward_flat_def d
    by (rule fold_rel [where R = ?R], simp, rule step)
qed

lemma maxout_forward_coord_output:
  assumes g: "MaxoutLayer.group_size L' = MaxoutLayer.group_size L"
      and d: "LayerBase.out_depth L' = LayerBase.out_depth L"
  shows "map_option fst (maxout_forward_coord L' V A) = map_option fst (maxout_forward_coord L V A)"
proof -
  let ?p = "\<lambda>(A :: Vol, sw :: int list, n :: int). (A, n)"
  let ?R = "\<lambda>s t :: (Vol \<times> int list \<times> int) option. map_option ?p s = map_option ?p t"
  have step: "?R (maxout_coord_step L' V x y i s) (maxout_coord_step L V x y i t)" if "?R s t" for x y i s t
    using that
    by (cases s; cases t)
       (auto simp: maxout_coord_step_def maxout_coord_group_cong [OF g] g Let_def
             split: prod.splits option.splits)
  have "?R (fold (\<lambda>x. fold (\<lambda>y. fold (maxout_coord_step L' V x y) [0 ..< nat (LayerBase.out_depth L)])
                   [0 ..< nat (Vol.sy V)])
         [0 ..< nat (Vol.sx V)] (Some (A, switches L', 0)))
           (fold (\<lambda>x. fold (\<lambda>y. fold (maxout_coord_step L V x y) [0 ..< nat (LayerBase.out_depth L)])
                   [0 ..< nat (Vol.sy V)])
         [0 ..< nat (Vol.sx V)] (Some (A, switches L, 0)))"
    by (rule fold_rel [where R = ?R], simp, rule fold_rel [where R = ?R], assumption,
        rule fold_rel [where R = ?R], assumption, rule step)
  moreover have "map_option fst (map_option (\<lambda>(V2, sw, n). (V2, sw)) s) =
                 map_option fst (map_option (\<lambda>(V2, sw, n). (V2, sw)) t)" if "?R s t" for s t
    using that by (cases s; cases t) auto
  ultimately show ?thesis
    unfolding maxout_forward_coord_def d by blast
qed

lemma MaxoutLayer_forward_output:
  assumes g: "MaxoutLayer.group_size L' = MaxoutLayer.group_size L"
      and d: "LayerBase.out_depth L' = LayerBase.out_depth L"
      and x: "LayerBase.out_sx L' = LayerBase.out_sx L"
      and y: "LayerBase.out_sy L' = LayerBase.out_sy L"
  shows "map_option snd (MaxoutLayer_forward L' V) = map_option snd (MaxoutLayer_forward L V)"
proof -
  have f: "map_option fst (maxout_forward_flat (L'\<lparr>in_act := Some V\<rparr>) V A) =
           map_option fst (maxout_forward_flat (L\<lparr>in_act := Some V\<rparr>) V A)" for A
    by (rule maxout_forward_flat_output) (simp_all add: g d)
  have c: "map_option fst (maxout_forward_coord (L'\<lparr>in_act := Some V\<rparr>) V A) =
           map_option fst (maxout_forward_coord (L\<lparr>in_act := Some V\<rparr>) V A)" for A
    by (rule maxout_forward_coord_output) (simp_all add: g d)
  have s: "map_option snd (map_option (\<lambda>(V2, sw). (h V2 sw, V2)) r) = map_option fst r"
    for h :: "Vol \<Rightarrow> int list \<Rightarrow> MaxoutLayer" and r
    by (cases r) auto
  show ?thesis
    by (simp add: MaxoutLayer_forward_def Let_def d x y s f c)
qed

lemma pool_window_cong:
  assumes "PoolLayer.sx L' = PoolLayer.sx L" and "PoolLayer.sy L' = PoolLayer.sy L"
  shows "pool_window L' V x y d = pool_window L V x y d"
  unfolding pool_window_def assms ..

lemma pool_forward_loops_output:
  assumes sx: "PoolLayer.sx L' = PoolLayer.sx L" and sy: "PoolLayer.sy L' = PoolLayer.sy L"
      and st: "PoolLayer.stride L' = PoolLayer.stride L" and pd: "PoolLayer.pad L' = PoolLayer.pad L"
      and d: "LayerBase.out_depth L' = LayerBase.out_depth L"
      and x: "LayerBase.out_sx L' = LayerBase.out_sx L"
      and y: "LayerBase.out_sy L' = LayerBase.out_sy L"
  shows "fst (pool_forward_loops L' V A) = fst (pool_forward_loops L V A)"
proof -
  let ?R = "\<lambda>s t :: Vol \<times> int list \<times> int list \<times> int. fst s = fst t \<and> snd (snd (snd s)) = snd (snd (snd t))"
  have step: "?R (pool_forward_step L' V d ax ay s) (pool_forward_step L V d ax ay t)" if "?R s t" for d ax ay s t
    using that
    by (auto simp: pool_forward_step_def pool_window_cong [OF sx sy] st pd Let_def split: prod.splits)
  have "?R (pool_forward_loops L' V A) (pool_forward_loops L V A)"
    unfolding pool_forward_loops_def d x y
    by (rule fold_rel [where R = ?R], simp, rule fold_rel [where R = ?R], assumption,
        rule fold_rel [where R = ?R], assumption, rule step)
  then show ?thesis by simp
qed

lemma PoolLayer_forward_output:
  assumes sx: "PoolLayer.sx L' = PoolLayer.sx L" and sy: "PoolLayer.sy L' = PoolLayer.sy L"
      and st: "PoolLayer.stride L' = PoolLayer.stride L" and pd: "PoolLayer.pad L' = PoolLayer.pad L"
      and d: "LayerBase.out_depth L' = LayerBase.out_depth L"
      and x: "LayerBase.out_sx L' = LayerBase.out_sx L"
      and y: "LayerBase.out_sy L' = LayerBase.out_sy L"
  shows "snd (PoolLayer_forward L' V) = snd (PoolLayer_forward L V)"
proof -
  let ?A = "Vol_const (LayerBase.out_sx L) (LayerBase.out_sy L) (LayerBase.out_depth L) 0"
  have "fst (pool_forward_loops (L'\<lparr>in_act := Some V\<rparr>) V ?A) =
        fst (pool_forward_loops (L\<lparr>in_act := Some V\<rparr>) V ?A)"
    by (rule pool_forward_loops_output) (simp_all add: assms)
  then show ?thesis
    by (cases "pool_forward_loops (L'\<lparr>in_act := Some V\<rparr>) V ?A";
        cases "pool_forward_loops (L\<lparr>in_act := Some V\<rparr>) V ?A")
       (simp add: PoolLayer_forward_def Let_def d x y)
qed

lemma pool_reads_input_cong:
  assumes "PoolLayer.sx L' = PoolLayer.sx L" and "PoolLayer.sy L' = PoolLayer.sy L"
      and "PoolLayer.stride L' = PoolLayer.stride L" and "PoolLayer.pad L' = PoolLayer.pad L"
      and "LayerBase.out_depth L' = LayerBase.out_depth L"
      and "LayerBase.out_sx L' = LayerBase.out_sx L"
      and "LayerBase.out_sy L' = LayerBase.out_sy L"
  shows "pool_reads_input L' = pool_reads_input L"
  unfolding pool_reads_input_def assms ..

lemma map_result_comp: "map_result f (map_result g r) = map_result (\<lambda>x. f (g x)) r"
  by (cases r) (simp_all add: map_result_def)

lemma Vol_reload:
  assumes "Vol_well_formed f"
  shows "Vol_fromJSON (Vol_toJSON f) = Some (f\<lparr>dw := zeros (Vol.sx f * Vol.sy f * depth f)\<rparr>)"
  using assms by (cases f) (simp add: Vol_fromJSON_def Vol_toJSON_def Vol_well_formed_def Let_def)

lemma Vols_reload:
  assumes "list_all Vol_well_formed fs"
  shows "those (map (Vol_fromJSON \<circ> Vol_toJSON) fs) =
           Some (map (\<lambda>f. f\<lparr>dw := zeros (Vol.sx f * Vol.sy f * depth f)\<rparr>) fs)"
  using assms by (induction fs) (simp_all add: Vol_reload)

lemma conv_window_step_cong:
  assumes "Vol.sx f' = Vol.sx f" and "depth f' = depth f" and "w f' = w f"
  shows "conv_window_step f' = conv_window_step f"
  by (intro ext) (simp add: conv_window_step_def assms)

lemma conv_window_cong:
  assumes x: "Vol.sx f' = Vol.sx f" and y: "Vol.sy f' = Vol.sy f" and d: "depth f' = depth f"
      and w: "w f' = w f"
  shows "conv_window f' = conv_window f"
  unfolding conv_window_def conv_window_step_cong [OF x d w] x y d ..

lemma rd_map: "rd (map g xs) i = map_option g (rd xs i)"
  by (auto simp: rd_def)

lemma conv_forward_step_cong:
  assumes st: "ConvLayer.stride L' = ConvLayer.stride L" and pd: "ConvLayer.pad L' = ConvLayer.pad L"
      and fs: "ConvLayer.filters L' = map (\<lambda>f. f\<lparr>dw := z f\<rparr>) (ConvLayer.filters L)"
      and b: "w (ConvLayer.biases L') = w (ConvLayer.biases L)"
  shows "conv_forward_step L' V d ay ax st = conv_forward_step L V d ay ax st"
proof (cases st)
  case (Returns A)
  have c: "conv_window (f\<lparr>dw := z f\<rparr>) = conv_window f" for f
    by (rule conv_window_cong) simp_all
  show ?thesis
    by (cases "rd (ConvLayer.filters L) (int d)")
       (simp_all add: conv_forward_step_def Returns st pd fs b rd_map c Let_def del: rd_nat)
qed (simp_all add: conv_forward_step_def)

lemma ConvLayer_forward_output:
  assumes st: "ConvLayer.stride L' = ConvLayer.stride L" and pd: "ConvLayer.pad L' = ConvLayer.pad L"
      and fs: "ConvLayer.filters L' = map (\<lambda>f. f\<lparr>dw := z f\<rparr>) (ConvLayer.filters L)"
      and b: "w (ConvLayer.biases L') = w (ConvLayer.biases L)"
      and d: "LayerBase.out_depth L' = LayerBase.out_depth L"
      and x: "LayerBase.out_sx L' = LayerBase.out_sx L"
      and y: "LayerBase.out_sy L' = LayerBase.out_sy L"
  shows "map_result snd (ConvLayer_forward L' V) = map_result snd (ConvLayer_forward L V)"
proof -
  have "conv_forward_step (L'\<lparr>in_act := Some V\<rparr>) = conv_forward_step (L\<lparr>in_act := Some V\<rparr>)"
    by (intro ext, rule conv_forward_step_cong [where z = z]) (simp_all add: st pd fs b)
  then show ?thesis
    by (simp add: ConvLayer_forward_def Let_def map_result_comp d x y)
qed

lemma fc_forward_step_cong:
  assumes n: "FullyConnLayer.num_inputs L' = FullyConnLayer.num_inputs L"
      and fs: "FullyConnLayer.filters L' = map (\<lambda>f. f\<lparr>dw := z f\<rparr>) (FullyConnLayer.filters L)"
      and b: "w (FullyConnLayer.biases L') = w (FullyConnLayer.biases L)"
  shows "fc_forward_step L' V i st = fc_forward_step L V i st"
proof (cases st)
  case (Returns A)
  show ?thesis
    by (cases "rd (FullyConnLayer.filters L) (int i)")
       (simp_all add: fc_forward_step_def Returns n fs b rd_map del: rd_nat)
qed (simp_all add: fc_forward_step_def)

lemma FullyConnLayer_forward_output:
  assumes n: "FullyConnLayer.num_inputs L' = FullyConnLayer.num_inputs L"
      and fs: "FullyConnLayer.filters L' = map (\<lambda>f. f\<lparr>dw := z f\<rparr>) (FullyConnLayer.filters L)"
      and b: "w (FullyConnLayer.biases L') = w (FullyConnLayer.biases L)"
      and d: "LayerBase.out_depth L' = LayerBase.out_depth L"
  shows "map_result snd (FullyConnLayer_forward L' V) = map_result snd (FullyConnLayer_forward L V)"
proof -
  have "fc_forward_step (L'\<lparr>in_act := Some V\<rparr>) = fc_forward_step (L\<lparr>in_act := Some V\<rparr>)"
    by (intro ext, rule fc_forward_step_cong [where z = z]) (simp_all add: n fs b)
  then show ?thesis
    by (simp add: FullyConnLayer_forward_def Let_def map_result_comp d)
qed

lemma ReluLayer_reload_output:
  "snd (ReluLayer_forward (ReluLayer_fromJSON (ReluLayer_toJSON L)) V) = snd (ReluLayer_forward L V)"
  by (rule ReluLayer_forward_output)

lemma SigmoidLayer_reload_output:
  "snd (SigmoidLayer_forward (SigmoidLayer_fromJSON (SigmoidLayer_toJSON L)) V) =
   snd (SigmoidLayer_forward L V)"
  by (rule SigmoidLayer_forward_output)

lemma TanhLayer_reload_output:
  "snd (TanhLayer_forward (TanhLayer_fromJSON (TanhLayer_toJSON L)) V) = snd (TanhLayer_forward L V)"
  by (rule TanhLayer_forward_output)

lemma DropoutLayer_reload_output:
  "snd (DropoutLayer_forward (DropoutLayer_fromJSON (DropoutLayer_toJSON L)) rnd V t) =
   snd (DropoutLayer_forward L rnd V t)"
  by (rule DropoutLayer_forward_output) (simp add: DropoutLayer_fromJSON_def DropoutLayer_toJSON_def Let_def)

lemma SoftmaxLayer_reload_output:
  "map_option snd (SoftmaxLayer_forward (SoftmaxLayer_fromJSON (SoftmaxLayer_toJSON L)) V) =
   map_option snd (SoftmaxLayer_forward L V)"
  by (rule SoftmaxLayer_forward_output) (simp add: SoftmaxLayer_fromJSON_def SoftmaxLayer_toJSON_def)

lemma MaxoutLayer_reload_output:
  "map_option snd (MaxoutLayer_forward (MaxoutLayer_fromJSON (MaxoutLayer_toJSON L)) V) =
   map_option snd (MaxoutLayer_forward L V)"
  by (rule MaxoutLayer_forward_output)
     (simp_all add: MaxoutLayer_fromJSON_def MaxoutLayer_toJSON_def Let_def)

lemma MaxoutLayer_reload_fields:
  "LayerBase.out_sx (MaxoutLayer_fromJSON (MaxoutLayer_toJSON L)) = LayerBase.out_sx L"
  "LayerBase.out_sy (MaxoutLayer_fromJSON (MaxoutLayer_toJSON L)) = LayerBase.out_sy L"
  "LayerBase.out_depth (MaxoutLayer_fromJSON (MaxoutLayer_toJSON L)) = LayerBase.out_depth L"
  by (simp_all add: MaxoutLayer_fromJSON_def MaxoutLayer_toJSON_def Let_def)

lemma PoolLayer_reload_fields:
  "PoolLayer.sx (PoolLayer_fromJSON (PoolLayer_toJSON L)) = PoolLayer.sx L"
  "PoolLayer.sy (PoolLayer_fromJSON (PoolLayer_toJSON L)) = PoolLayer.sy L"
  "PoolLayer.stride (PoolLayer_fromJSON (PoolLayer_toJSON L)) = PoolLayer.stride L"
  "PoolLayer.pad (PoolLayer_fromJSON (PoolLayer_toJSON L)) = PoolLayer.pad L"
  "LayerBase.out_depth (PoolLayer_fromJSON (PoolLayer_toJSON L)) = LayerBase.out_depth L"
  "LayerBase.out_sx (PoolLayer_fromJSON (PoolLayer_toJSON L)) = LayerBase.out_sx L"
  "LayerBase.out_sy (PoolLayer_fromJSON (PoolLayer_toJSON L)) = LayerBase.out_sy L"
  by (simp_all add: PoolLayer_fromJSON_def PoolLayer_toJSON_def Let_def)

lemma PoolLayer_reload_output:
  "snd (PoolLayer_forward (PoolLayer_fromJSON (PoolLayer_toJSON L)) V) = snd (PoolLayer_forward L V)"
  by (rule PoolLayer_forward_output) (rule PoolLayer_reload_fields)+

lemma PoolLayer_reload_reads_input:
  "pool_reads_input (PoolLayer_fromJSON (PoolLayer_toJSON L)) = pool_reads_input L"
  by (rule pool_reads_input_cong) (rule PoolLayer_reload_fields)+

lemma ConvLayer_reload:
  assumes "list_all Vol_well_formed (ConvLayer.filters L)" and "Vol_well_formed (ConvLayer.biases L)"
  shows "\<exists>L'. ConvLayer_fromJSON (ConvLayer_toJSON L) = Some L' \<and>
              (\<forall>V. map_result snd (ConvLayer_forward L' V) = map_result snd (ConvLayer_forward L V))"
proof -
  let ?z = "\<lambda>f. zeros (Vol.sx f * Vol.sy f * depth f)"
  let ?L = "\<lparr>LayerBase.layer_type = LayerBase.layer_type L,
              out_sx = LayerBase.out_sx L, out_sy = LayerBase.out_sy L,
              out_depth = LayerBase.out_depth L, in_act = None, out_act = None,
              ConvLayer.l1_decay_mul = ConvLayer.l1_decay_mul L,
              ConvLayer.l2_decay_mul = ConvLayer.l2_decay_mul L,
              ConvLayer.filters = map (\<lambda>f. f\<lparr>dw := ?z f\<rparr>) (ConvLayer.filters L),
              biases = (ConvLayer.biases L)\<lparr>dw := ?z (ConvLayer.biases L)\<rparr>,
              ConvLayer.sx = ConvLayer.sx L, ConvLayer.sy = ConvLayer.sy L,
              ConvLayer.stride = ConvLayer.stride L, ConvLayer.pad = ConvLayer.pad L,
              ConvLayer.in_depth = ConvLayer.in_depth L,
              ConvLayer.in_sx = None, ConvLayer.in_sy = None\<rparr>"
  have "ConvLayer_fromJSON (ConvLayer_toJSON L) = Some ?L"
    by (simp add: ConvLayer_fromJSON_def ConvLayer_toJSON_def Vols_reload [OF assms(1)]
          Vol_reload [OF assms(2)])
  moreover have "map_result snd (ConvLayer_forward ?L V) = map_result snd (ConvLayer_forward L V)" for V
    by (rule ConvLayer_forward_output [where z = ?z]) simp_all
  ultimately show ?thesis by blast
qed

lemma FullyConnLayer_reload:
  assumes "list_all Vol_well_formed (FullyConnLayer.filters L)"
      and "Vol_well_formed (FullyConnLayer.biases L)"
  shows "\<exists>L'. FullyConnLayer_fromJSON (FullyConnLayer_toJSON L) = Some L' \<and>
              (\<forall>V. map_result snd (FullyConnLayer_forward L' V) =
                    map_result snd (FullyConnLayer_forward L V))"
proof -
  let ?z = "\<lambda>f. zeros (Vol.sx f * Vol.sy f * depth f)"
  let ?L = "\<lparr>LayerBase.layer_type = LayerBase.layer_type L,
              out_sx = LayerBase.out_sx L, out_sy = LayerBase.out_sy L,
              out_depth = LayerBase.out_depth L, in_act = None, out_act = None,
              FullyConnLayer.l1_decay_mul = FullyConnLayer.l1_decay_mul L,
              FullyConnLayer.l2_decay_mul = FullyConnLayer.l2_decay_mul L,
              FullyConnLayer.filters = map (\<lambda>f. f\<lparr>dw := ?z f\<rparr>) (FullyConnLayer.filters L),
              biases = (FullyConnLayer.biases L)\<lparr>dw := ?z (FullyConnLayer.biases L)\<rparr>,
              FullyConnLayer.num_inputs = FullyConnLayer.num_inputs L\<rparr>"
  have "FullyConnLayer_fromJSON (FullyConnLayer_toJSON L) = Some ?L"
    by (simp add: FullyConnLayer_fromJSON_def FullyConnLayer_toJSON_def Vols_reload [OF assms(1)]
          Vol_reload [OF assms(2)])
  moreover have "map_result snd (FullyConnLayer_forward ?L V) =
                 map_result snd (FullyConnLayer_forward L V)" for V
    by (rule FullyConnLayer_forward_output [where z = ?z]) simp_all
  ultimately show ?thesis by blast
qed

lemma Layer_reload:
  assumes t: "tagged l" and wf: "weights_well_formed l"
      and tag: "\<And>L. lrn_layer_type C (lrn_toJSON C L) = ''lrn''"
      and lf: "\<And>L act t. map_result snd (lrn_forward C (lrn_fromJSON C (lrn_toJSON C L)) act t) =
                            map_result snd (lrn_forward C L act t)"
  shows "\<exists>l'. Layer_fromJSON C (Layer_toJSON C l) = Returns l' \<and>
              (\<forall>rnd t s. map_result snd (Layer_forward C rnd t l' s) =
                          map_result snd (Layer_forward C rnd t l s))"
proof (cases l)
  case (Softmax L)
  let ?l' = "Softmax (SoftmaxLayer_fromJSON (SoftmaxLayer_toJSON L))"
  have "map_result snd (Layer_forward C rnd t ?l' s) =
        map_result snd (Layer_forward C rnd t (Softmax L) s)" for rnd t s
  proof (cases s)
    case (Pair act k)
    show ?thesis
    proof (cases act)
      case None
      then show ?thesis by (simp add: Pair )
    next
      case (Some V)
      show ?thesis
        using SoftmaxLayer_reload_output [of L V]
        by (cases "SoftmaxLayer_forward (SoftmaxLayer_fromJSON (SoftmaxLayer_toJSON L)) V"; cases "SoftmaxLayer_forward L V")
           (auto simp: Pair Some map_result_def)
    qed
  qed
  moreover have "Layer_fromJSON C (Layer_toJSON C (Softmax L)) = Returns ?l'"
    using t by (simp add: Softmax Layer_fromJSON_def SoftmaxLayer_toJSON_def)
  ultimately show ?thesis
    unfolding Softmax by blast
next
  case (Regression L)
  let ?l' = "Regression (RegressionLayer_fromJSON (RegressionLayer_toJSON L))"
  have "map_result snd (Layer_forward C rnd t ?l' s) =
        map_result snd (Layer_forward C rnd t (Regression L) s)" for rnd t s
    by (cases s; cases "fst s") (auto simp: map_result_def RegressionLayer_forward_def)
  moreover have "Layer_fromJSON C (Layer_toJSON C (Regression L)) = Returns ?l'"
    using t by (simp add: Regression Layer_fromJSON_def RegressionLayer_toJSON_def)
  ultimately show ?thesis
    unfolding Regression by blast
next
  case (SVM L)
  let ?l' = "SVM (SVMLayer_fromJSON (SVMLayer_toJSON L))"
  have "map_result snd (Layer_forward C rnd t ?l' s) =
        map_result snd (Layer_forward C rnd t (SVM L) s)" for rnd t s
    by (cases s; cases "fst s") (auto simp: map_result_def SVMLayer_forward_def)
  moreover have "Layer_fromJSON C (Layer_toJSON C (SVM L)) = Returns ?l'"
    using t by (simp add: SVM Layer_fromJSON_def SVMLayer_toJSON_def)
  ultimately show ?thesis
    unfolding SVM by blast
next
  case (NonLoss x)
  show ?thesis
  proof (cases x)
    case (FullyConn L)
    obtain L' where L': "FullyConnLayer_fromJSON (FullyConnLayer_toJSON L) = Some L'"
        "\<And>V. map_result snd (FullyConnLayer_forward L' V) = map_result snd (FullyConnLayer_forward L V)"
      using FullyConnLayer_reload [of L] wf by (auto simp: NonLoss FullyConn)
    let ?l' = "NonLoss (FullyConn (L'))"
    have "map_result snd (Layer_forward C rnd t ?l' s) =
          map_result snd (Layer_forward C rnd t (NonLoss (FullyConn L)) s)" for rnd t s
    proof (cases s)
      case (Pair act k)
      show ?thesis
      proof (cases act)
        case None
        then show ?thesis by (simp add: Pair )
      next
        case (Some V)
        show ?thesis
          using L'(2) [of V]
          by (cases "FullyConnLayer_forward (L') V"; cases "FullyConnLayer_forward L V")
             (auto simp: Pair Some map_result_def)
      qed
    qed
    moreover have "Layer_fromJSON C (Layer_toJSON C (NonLoss (FullyConn L))) = Returns ?l'"
      using t L'(1) by (simp add: NonLoss FullyConn Layer_fromJSON_def FullyConnLayer_toJSON_def)
    ultimately show ?thesis
      unfolding NonLoss FullyConn by blast
  next
    case (LRN L)
    let ?l' = "NonLoss (LRN (lrn_fromJSON C (lrn_toJSON C L)))"
    have "map_result snd (Layer_forward C rnd t ?l' s) =
          map_result snd (Layer_forward C rnd t (NonLoss (LRN L)) s)" for rnd t s
    proof (cases s)
      case (Pair act k)
      show ?thesis
        using lf [of L act t]
        by (cases "lrn_forward C (lrn_fromJSON C (lrn_toJSON C L)) act t"; cases "lrn_forward C L act t")
           (auto simp: Pair map_result_def)
    qed
    moreover have "Layer_fromJSON C (Layer_toJSON C (NonLoss (LRN L))) = Returns ?l'"
      using t by (simp add: NonLoss LRN Layer_fromJSON_def tag)
    ultimately show ?thesis
      unfolding NonLoss LRN by blast
  next
    case (Dropout L)
    let ?l' = "NonLoss (Dropout (DropoutLayer_fromJSON (DropoutLayer_toJSON L)))"
    have "map_result snd (Layer_forward C rnd t ?l' s) =
          map_result snd (Layer_forward C rnd t (NonLoss (Dropout L)) s)" for rnd t s
      using DropoutLayer_reload_output [of L]
      by (cases s; cases "fst s") (auto simp: map_result_def case_prod_beta )
    moreover have "Layer_fromJSON C (Layer_toJSON C (NonLoss (Dropout L))) = Returns ?l'"
      using t by (simp add: NonLoss Dropout Layer_fromJSON_def DropoutLayer_toJSON_def)
    ultimately show ?thesis
      unfolding NonLoss Dropout by blast
  next
    case (Input L)
    let ?l' = "NonLoss (Input (InputLayer_fromJSON (InputLayer_toJSON L)))"
    have "map_result snd (Layer_forward C rnd t ?l' s) =
          map_result snd (Layer_forward C rnd t (NonLoss (Input L)) s)" for rnd t s
      by (cases s) (auto simp: map_result_def InputLayer_forward_def)
    moreover have "Layer_fromJSON C (Layer_toJSON C (NonLoss (Input L))) = Returns ?l'"
      using t by (simp add: NonLoss Input Layer_fromJSON_def InputLayer_toJSON_def)
    ultimately show ?thesis
      unfolding NonLoss Input by blast
  next
    case (Conv L)
    obtain L' where L': "ConvLayer_fromJSON (ConvLayer_toJSON L) = Some L'"
        "\<And>V. map_result snd (ConvLayer_forward L' V) = map_result snd (ConvLayer_forward L V)"
      using ConvLayer_reload [of L] wf by (auto simp: NonLoss Conv)
    let ?l' = "NonLoss (Conv (L'))"
    have "map_result snd (Layer_forward C rnd t ?l' s) =
          map_result snd (Layer_forward C rnd t (NonLoss (Conv L)) s)" for rnd t s
    proof (cases s)
      case (Pair act k)
      show ?thesis
      proof (cases act)
        case None
        then show ?thesis by (simp add: Pair )
      next
        case (Some V)
        show ?thesis
          using L'(2) [of V]
          by (cases "ConvLayer_forward (L') V"; cases "ConvLayer_forward L V")
             (auto simp: Pair Some map_result_def)
      qed
    qed
    moreover have "Layer_fromJSON C (Layer_toJSON C (NonLoss (Conv L))) = Returns ?l'"
      using t L'(1) by (simp add: NonLoss Conv Layer_fromJSON_def ConvLayer_toJSON_def)
    ultimately show ?thesis
      unfolding NonLoss Conv by blast
  next
    case (Pool L)
    let ?l' = "NonLoss (Pool (PoolLayer_fromJSON (PoolLayer_toJSON L)))"
    have "map_result snd (Layer_forward C rnd t ?l' s) =
          map_result snd (Layer_forward C rnd t (NonLoss (Pool L)) s)" for rnd t s
      using PoolLayer_reload_output [of L]
      by (cases s; cases "fst s") (auto simp: map_result_def case_prod_beta PoolLayer_reload_reads_input)
    moreover have "Layer_fromJSON C (Layer_toJSON C (NonLoss (Pool L))) = Returns ?l'"
      using t by (simp add: NonLoss Pool Layer_fromJSON_def PoolLayer_toJSON_def)
    ultimately show ?thesis
      unfolding NonLoss Pool by blast
  next
    case (Relu L)
    let ?l' = "NonLoss (Relu (ReluLayer_fromJSON (ReluLayer_toJSON L)))"
    have "map_result snd (Layer_forward C rnd t ?l' s) =
          map_result snd (Layer_forward C rnd t (NonLoss (Relu L)) s)" for rnd t s
      using ReluLayer_reload_output [of L]
      by (cases s; cases "fst s") (auto simp: map_result_def case_prod_beta )
    moreover have "Layer_fromJSON C (Layer_toJSON C (NonLoss (Relu L))) = Returns ?l'"
      using t by (simp add: NonLoss Relu Layer_fromJSON_def ReluLayer_toJSON_def)
    ultimately show ?thesis
      unfolding NonLoss Relu by blast
  next
    case (Sigmoid L)
    let ?l' = "NonLoss (Sigmoid (SigmoidLayer_fromJSON (SigmoidLayer_toJSON L)))"
    have "map_result snd (Layer_forward C rnd t ?l' s) =
          map_result snd (Layer_forward C rnd t (NonLoss (Sigmoid L)) s)" for rnd t s
      using SigmoidLayer_reload_output [of L]
      by (cases s; cases "fst s") (auto simp: map_result_def case_prod_beta )
    moreover have "Layer_fromJSON C (Layer_toJSON C (NonLoss (Sigmoid L))) = Returns ?l'"
      using t by (simp add: NonLoss Sigmoid Layer_fromJSON_def SigmoidLayer_toJSON_def)
    ultimately show ?thesis
      unfolding NonLoss Sigmoid by blast
  next
    case (Tanh L)
    let ?l' = "NonLoss (Tanh (TanhLayer_fromJSON (TanhLayer_toJSON L)))"
    have "map_result snd (Layer_forward C rnd t ?l' s) =
          map_result snd (Layer_forward C rnd t (NonLoss (Tanh L)) s)" for rnd t s
      using TanhLayer_reload_output [of L]
      by (cases s; cases "fst s") (auto simp: map_result_def case_prod_beta )
    moreover have "Layer_fromJSON C (Layer_toJSON C (NonLoss (Tanh L))) = Returns ?l'"
      using t by (simp add: NonLoss Tanh Layer_fromJSON_def TanhLayer_toJSON_def)
    ultimately show ?thesis
      unfolding NonLoss Tanh by blast
  next
    case (Maxout L)
    let ?l' = "NonLoss (Maxout (MaxoutLayer_fromJSON (MaxoutLayer_toJSON L)))"
    have "map_result snd (Layer_forward C rnd t ?l' s) =
          map_result snd (Layer_forward C rnd t (NonLoss (Maxout L)) s)" for rnd t s
    proof (cases s)
      case (Pair act k)
      show ?thesis
      proof (cases act)
        case None
        then show ?thesis by (simp add: Pair MaxoutLayer_reload_fields map_result_def Let_def)
      next
        case (Some V)
        show ?thesis
          using MaxoutLayer_reload_output [of L V]
          by (cases "MaxoutLayer_forward (MaxoutLayer_fromJSON (MaxoutLayer_toJSON L)) V"; cases "MaxoutLayer_forward L V")
             (auto simp: Pair Some map_result_def)
      qed
    qed
    moreover have "Layer_fromJSON C (Layer_toJSON C (NonLoss (Maxout L))) = Returns ?l'"
      using t by (simp add: NonLoss Maxout Layer_fromJSON_def MaxoutLayer_toJSON_def)
    ultimately show ?thesis
      unfolding NonLoss Maxout by blast
  qed
qed

lemma forward_step_output:
  assumes "map_result snd st' = map_result snd st"
      and "\<And>s. map_result snd (Layer_forward C rnd t l' s) = map_result snd (Layer_forward C rnd t l s)"
  shows "map_result snd (forward_step C rnd t l' st') = map_result snd (forward_step C rnd t l st)"
proof (cases st')
  case (Returns p')
  then obtain p where st: "st = Returns p" and p: "snd p = snd p'"
    using assms(1) by (cases st) (auto simp: map_result_def)
  obtain ls' act k where p': "p' = (ls', act, k)" by (cases p')
  obtain ls where p2: "p = (ls, act, k)" using p p' by (cases p) auto
  show ?thesis
    using assms(2) [of "(act, k)"]
    by (cases "Layer_forward C rnd t l' (act, k)"; cases "Layer_forward C rnd t l (act, k)")
       (auto simp: forward_step_def Returns st p' p2 map_result_def)
next
  case (Throws e)
  then show ?thesis
    using assms(1) by (cases st) (auto simp: map_result_def forward_step_def)
next
  case Outside
  then show ?thesis
    using assms(1) by (cases st) (auto simp: map_result_def forward_step_def)
qed

lemma forward_fold_output:
  assumes "list_all2 (\<lambda>l' l. \<forall>rnd t s. map_result snd (Layer_forward C rnd t l' s) =
                                        map_result snd (Layer_forward C rnd t l s)) ls' ls"
      and "map_result snd st' = map_result snd st"
  shows "map_result snd (fold (forward_step C rnd t) ls' st') =
         map_result snd (fold (forward_step C rnd t) ls st)"
  using assms
proof (induction ls' ls arbitrary: st' st rule: list_all2_induct)
  case Nil
  then show ?case by simp
next
  case (Cons l' ls' l ls)
  have "map_result snd (forward_step C rnd t l' st') = map_result snd (forward_step C rnd t l st)"
    by (rule forward_step_output) (use Cons in auto)
  then show ?case
    using Cons.IH by simp
qed

lemma fromJSON_fold_reload:
  assumes "list_all tagged ls" and "list_all weights_well_formed ls"
      and tag: "\<And>L. lrn_layer_type C (lrn_toJSON C L) = ''lrn''"
      and lf: "\<And>L act t. map_result snd (lrn_forward C (lrn_fromJSON C (lrn_toJSON C L)) act t) =
                            map_result snd (lrn_forward C L act t)"
  shows "\<exists>ls'. fold (fromJSON_step C) (map (Layer_toJSON C) ls) (Returns acc) = Returns (acc @ ls') \<and>
               list_all2 (\<lambda>l' l. \<forall>rnd t s. map_result snd (Layer_forward C rnd t l' s) =
                                          map_result snd (Layer_forward C rnd t l s)) ls' ls"
  using assms(1,2)
proof (induction ls arbitrary: acc)
  case Nil
  then show ?case by simp
next
  case (Cons l ls)
  obtain l' where l': "Layer_fromJSON C (Layer_toJSON C l) = Returns l'"
      "\<forall>rnd t s. map_result snd (Layer_forward C rnd t l' s) = map_result snd (Layer_forward C rnd t l s)"
    using Layer_reload [of l C, OF _ _ tag lf] Cons.prems by auto
  obtain ls' where ls': "fold (fromJSON_step C) (map (Layer_toJSON C) ls) (Returns (acc @ [l'])) =
                           Returns ((acc @ [l']) @ ls')"
      "list_all2 (\<lambda>l' l. \<forall>rnd t s. map_result snd (Layer_forward C rnd t l' s) =
                                  map_result snd (Layer_forward C rnd t l s)) ls' ls"
    using Cons.IH [of "acc @ [l']"] Cons.prems by auto
  have "fold (fromJSON_step C) (map (Layer_toJSON C) (l # ls)) (Returns acc) = Returns (acc @ l' # ls')"
    using ls'(1) by (simp add: fromJSON_step_def l'(1) map_result_def)
  then show ?case
    using l'(2) ls'(2) by blast
qed

text \<open>
  The layers that the constructors build carry the tag of their class, and the weights
  of a constructed convolution have the size of their dimensions.
\<close>

lemma Vol_const_well_formed: "Vol_well_formed (Vol_const x y d c)"
  by (simp add: Vol_well_formed_def Vol_const_def)

lemma Vol_random_well_formed: "Vol_well_formed (Vol_random x y d g)"
  by (simp add: Vol_well_formed_def Vol_random_def)

lemma constructed_layers_tagged:
  "tagged (NonLoss (Relu (ReluLayer_new opt)))"
  "tagged (NonLoss (Dropout (DropoutLayer_new dopt)))"
  "MaxoutLayer_new mopt = Some M \<Longrightarrow> tagged (NonLoss (Maxout M))"
  "PoolLayer_new popt = Some P \<Longrightarrow> tagged (NonLoss (Pool P))"
  "ConvLayer_new copt rnd = Some K \<Longrightarrow> tagged (NonLoss (Conv K))"
  "tagged (Softmax (SoftmaxLayer_new lopt))"
  "tagged (Regression (RegressionLayer_new lopt))"
  "tagged (SVM (SVMLayer_new lopt))"
  by (auto simp: ReluLayer_new_def OutputLayer_new_def DropoutLayer_new_def MaxoutLayer_new_def
        PoolLayer_new_def ConvLayer_new_def SoftmaxLayer_new_def RegressionLayer_new_def
        SVMLayer_new_def Let_def split: if_splits)

lemma ConvLayer_new_well_formed:
  assumes "ConvLayer_new copt rnd = Some K"
  shows "weights_well_formed (NonLoss (Conv K))"
  using assms
  by (auto simp: ConvLayer_new_def Let_def list_all_iff Vol_const_well_formed Vol_random_well_formed
        split: if_splits)

text \<open>
  Claim C5. For a network whose layers carry the tag of their class and whose tensors of
  weights have the size of their dimensions, \<^verbatim>\<open>Net.fromJSON\<close> applied to the result of
  \<^verbatim>\<open>Net.toJSON\<close> returns a network, and for every input tensor, every value of
  \<open>is_training\<close> and every sequence of results of \<^verbatim>\<open>Math.random()\<close> the forward pass of
  the reloaded network ends as the forward pass of the original network does: it returns
  the same output (tensor or \<^verbatim>\<open>undefined\<close>), throws the same error, or leaves the model
  alike. The networks compared may differ in what the forward passes before have stored
  (\<^verbatim>\<open>in_act\<close>, \<^verbatim>\<open>out_act\<close>, the gradients of the weights, the switches and masks), which
  \<^verbatim>\<open>fromJSON\<close> resets. For the normalization layer, whose class is not among the
  sources, the statement assumes what it shows for the other classes: that its
  serialized record carries the tag \<open>lrn\<close>, and that reloading one layer does not change
  what its forward pass returns.
\<close>

theorem Net_fromJSON_toJSON_forward:
  assumes "list_all tagged (Net.layers net)"
      and "list_all weights_well_formed (Net.layers net)"
      and "\<forall>L. lrn_layer_type C (lrn_toJSON C L) = ''lrn''"
      and "\<forall>L act t. map_result snd (lrn_forward C (lrn_fromJSON C (lrn_toJSON C L)) act t) =
                      map_result snd (lrn_forward C L act t)"
  shows "\<exists>net'. Net_fromJSON C (Net_toJSON C net) = Returns net' \<and>
                (\<forall>rnd V is_training.
                    map_result snd (Net_forward C net' rnd V is_training) =
                    map_result snd (Net_forward C net rnd V is_training))"
proof -
  let ?R = "\<lambda>l' l. \<forall>rnd t s. map_result snd (Layer_forward C rnd t l' s) =
                             map_result snd (Layer_forward C rnd t l s)"
  obtain ls' where ls': "fold (fromJSON_step C) (map (Layer_toJSON C) (Net.layers net)) (Returns []) =
                           Returns ([] @ ls')"
      "list_all2 ?R ls' (Net.layers net)"
    using fromJSON_fold_reload [of "Net.layers net" C "[]"] assms by blast
  let ?net = "\<lparr>Net.layers = ls'\<rparr>"
  have r: "Net_fromJSON C (Net_toJSON C net) = Returns ?net"
    using ls'(1) by (simp add: Net_fromJSON_def Net_toJSON_def map_result_def)
  have "map_result snd (Net_forward C ?net rnd V is_training) =
        map_result snd (Net_forward C net rnd V is_training)" for rnd V is_training
  proof (cases "Net.layers net")
    case Nil
    then show ?thesis
      using ls'(2) by (simp add: Net_forward_def)
  next
    case (Cons l0 rest)
    then obtain l0' rest' where c: "ls' = l0' # rest'" "?R l0' l0" "list_all2 ?R rest' rest"
      using ls'(2) by (auto simp: list_all2_Cons2)
    define t where "t = (case is_training of None \<Rightarrow> False | Some b \<Rightarrow> b)"
    have "map_result snd (forward_step C rnd t l0' (Returns ([], Some V, 0))) =
          map_result snd (forward_step C rnd t l0 (Returns ([], Some V, 0)))"
      by (rule forward_step_output) (use c(2) in auto)
    then have "map_result snd (fold (forward_step C rnd t) rest' (forward_step C rnd t l0' (Returns ([], Some V, 0)))) =
               map_result snd (fold (forward_step C rnd t) rest (forward_step C rnd t l0 (Returns ([], Some V, 0))))"
      by (rule forward_fold_output [OF c(3)])
    then show ?thesis
      by (cases "fold (forward_step C rnd t) rest' (forward_step C rnd t l0' (Returns ([], Some V, 0)))";
          cases "fold (forward_step C rnd t) rest (forward_step C rnd t l0 (Returns ([], Some V, 0)))")
         (auto simp: Net_forward_def Cons c(1) t_def [symmetric] map_result_def)
  qed
  with r show ?thesis by blast
qed

theorem Net_fromJSON_toJSON_forward_witness:
  "\<exists>net'.
     Net_fromJSON
       \<lparr>lrn_forward = (\<lambda>(L :: unit) act t. Returns (L, act)), lrn_toJSON = (\<lambda>L. L),
        lrn_fromJSON = (\<lambda>j :: unit. j), lrn_layer_type = (\<lambda>j. ''lrn'')\<rparr>
       (Net_toJSON
          \<lparr>lrn_forward = (\<lambda>(L :: unit) act t. Returns (L, act)), lrn_toJSON = (\<lambda>L. L),
           lrn_fromJSON = (\<lambda>j :: unit. j), lrn_layer_type = (\<lambda>j. ''lrn'')\<rparr>
          \<lparr>Net.layers =
             [NonLoss (Input \<lparr>LayerBase.layer_type = ''input'', out_sx = 1, out_sy = 1, out_depth = 2,
                               in_act = None, out_act = None\<rparr>),
              NonLoss (FullyConn
                \<lparr>LayerBase.layer_type = ''fc'', out_sx = 1, out_sy = 1, out_depth = 2,
                 in_act = None, out_act = None,
                 FullyConnLayer.l1_decay_mul = 0, FullyConnLayer.l2_decay_mul = 1,
                 FullyConnLayer.filters =
                   [\<lparr>Vol.sx = 1, Vol.sy = 1, depth = 2, w = [1, - 1], dw = [3, 4]\<rparr>,
                    \<lparr>Vol.sx = 1, Vol.sy = 1, depth = 2, w = [2, 1], dw = [0, 0]\<rparr>],
                 biases = \<lparr>Vol.sx = 1, Vol.sy = 1, depth = 2, w = [0, 1], dw = [0, 0]\<rparr>,
                 FullyConnLayer.num_inputs = 2\<rparr>),
              NonLoss (Relu \<lparr>LayerBase.layer_type = ''relu'', out_sx = 1, out_sy = 1, out_depth = 2,
                              in_act = None, out_act = None\<rparr>),
              SVM \<lparr>LayerBase.layer_type = ''svm'', out_sx = 1, out_sy = 1, out_depth = 2,
                   in_act = None, out_act = None, SVMLayer.num_inputs = 2\<rparr>]\<rparr>) = Returns net' \<and>
     map_result snd
       (Net_forward
          \<lparr>lrn_forward = (\<lambda>(L :: unit) act t. Returns (L, act)), lrn_toJSON = (\<lambda>L. L),
           lrn_fromJSON = (\<lambda>j :: unit. j), lrn_layer_type = (\<lambda>j. ''lrn'')\<rparr>
          net' (\<lambda>i. 0) \<lparr>Vol.sx = 1, Vol.sy = 1, depth = 2, w = [1, 2], dw = [0, 0]\<rparr> None) =
     Returns (Some \<lparr>Vol.sx = 1, Vol.sy = 1, depth = 2, w = [0, 5], dw = [0, 0]\<rparr>)"
proof -
  let ?C = "\<lparr>lrn_forward = (\<lambda>(L :: unit) act t. Returns (L, act)), lrn_toJSON = (\<lambda>L. L),
           lrn_fromJSON = (\<lambda>j :: unit. j), lrn_layer_type = (\<lambda>j. ''lrn'')\<rparr>"
  let ?F = "\<lparr>LayerBase.layer_type = ''fc'', out_sx = 1, out_sy = 1, out_depth = 2,
                 in_act = None, out_act = None,
                 FullyConnLayer.l1_decay_mul = 0, FullyConnLayer.l2_decay_mul = 1,
                 FullyConnLayer.filters =
                   [\<lparr>Vol.sx = 1, Vol.sy = 1, depth = 2, w = [1, - 1], dw = [3, 4]\<rparr>,
                    \<lparr>Vol.sx = 1, Vol.sy = 1, depth = 2, w = [2, 1], dw = [0, 0]\<rparr>],
                 biases = \<lparr>Vol.sx = 1, Vol.sy = 1, depth = 2, w = [0, 1], dw = [0, 0]\<rparr>,
                 FullyConnLayer.num_inputs = 2\<rparr>"
  let ?net = "\<lparr>Net.layers =
             [NonLoss (Input \<lparr>LayerBase.layer_type = ''input'', out_sx = 1, out_sy = 1, out_depth = 2,
                               in_act = None, out_act = None\<rparr>),
              NonLoss (FullyConn ?F),
              NonLoss (Relu \<lparr>LayerBase.layer_type = ''relu'', out_sx = 1, out_sy = 1, out_depth = 2,
                              in_act = None, out_act = None\<rparr>),
              SVM \<lparr>LayerBase.layer_type = ''svm'', out_sx = 1, out_sy = 1, out_depth = 2,
                   in_act = None, out_act = None, SVMLayer.num_inputs = 2\<rparr>]\<rparr> :: unit Net"
  let ?V = "\<lparr>Vol.sx = 1, Vol.sy = 1, depth = 2, w = [1, 2 :: real], dw = [0, 0 :: real]\<rparr>"
  have h: "list_all tagged (Net.layers ?net)" "list_all weights_well_formed (Net.layers ?net)"
          "\<forall>L. lrn_layer_type ?C (lrn_toJSON ?C L) = ''lrn''"
          "\<forall>L act t. map_result snd (lrn_forward ?C (lrn_fromJSON ?C (lrn_toJSON ?C L)) act t) =
                      map_result snd (lrn_forward ?C L act t)"
    by (simp_all add: Vol_well_formed_def)
  have u: "[0 ..< 2] = [0, 1]" by (simp add: upt_rec)
  have fc: "FullyConnLayer_forward ?F ?V =
              Returns (?F\<lparr>in_act := Some ?V,
                          out_act := Some \<lparr>Vol.sx = 1, Vol.sy = 1, depth = 2, w = [- 1, 5], dw = [0, 0]\<rparr>\<rparr>,
                       \<lparr>Vol.sx = 1, Vol.sy = 1, depth = 2, w = [- 1, 5], dw = [0, 0]\<rparr>)"
    by (simp add: FullyConnLayer_forward_def fc_forward_step_def fc_dot_step_def Vol_const_def
          zeros_def map_result_def u rd_def wr_def Let_def numeral_2_eq_2)
  have f: "map_result snd (Net_forward ?C ?net (\<lambda>i. 0) ?V None) =
             Returns (Some \<lparr>Vol.sx = 1, Vol.sy = 1, depth = 2, w = [0, 5], dw = [0, 0]\<rparr>)"
    by (simp add: Net_forward_def forward_step_def map_result_def InputLayer_forward_def fc
          ReluLayer_forward_def relu_loop_def clone_def SVMLayer_forward_def rd_def wr_def Let_def)
  from Net_fromJSON_toJSON_forward [OF h]
  obtain net' where "Net_fromJSON ?C (Net_toJSON ?C ?net) = Returns net'"
      "\<forall>rnd V is_training. map_result snd (Net_forward ?C net' rnd V is_training) =
                             map_result snd (Net_forward ?C ?net rnd V is_training)"
    by blast
  then show ?thesis
    using f by (intro exI [of _ net']) simp
qed

end
